theory Spec2Isabelle
  imports Complex_Main
begin

section \<open>Errors and tensors\<close>

text \<open>
  The module \<^verbatim>\<open>nnsvs/model.py\<close> works on torch tensors. A tensor of shape
  \<open>(B, T, C)\<close> is modelled as a list of \<open>B\<close> sequences, each a list of \<open>T\<close> frames,
  each a list of \<open>C\<close> numbers; a tensor of shape \<open>(B, T, G, C)\<close> has one more level.
  Floating-point numbers are modelled as reals, so rounding, infinities and NaN are not
  part of the model. Every exception of the source is a value of type \<open>error\<close>, and a
  function that can raise returns \<open>error + 'a\<close> with \<open>Inl\<close> for the exception.
\<close>

datatype error =
    IndexError
  | RuntimeError
  | ValueError
  | AssertionError string
  | LayoutMismatchError
  | ShapeError
  | AttributeError
  | TypeError

type_synonym tensor2 = "real list list"
type_synonym tensor3 = "real list list list"
type_synonym tensor4 = "real list list list list"

datatype tensor = T2 tensor2 | T3 tensor3 | T4 tensor4

text \<open>Shapes, as predicates over every row, and as read from the first row.\<close>

definition has_shape2 :: "nat \<Rightarrow> nat \<Rightarrow> 'a list list \<Rightarrow> bool" where
  "has_shape2 B T x \<longleftrightarrow> length x = B \<and> (\<forall>s \<in> set x. length s = T)"

definition has_shape3 :: "nat \<Rightarrow> nat \<Rightarrow> nat \<Rightarrow> 'a list list list \<Rightarrow> bool" where
  "has_shape3 B T C x \<longleftrightarrow> length x = B \<and> (\<forall>s \<in> set x. has_shape2 T C s)"

definition has_shape4 :: "nat \<Rightarrow> nat \<Rightarrow> nat \<Rightarrow> nat \<Rightarrow> 'a list list list list \<Rightarrow> bool" where
  "has_shape4 B T G C x \<longleftrightarrow> length x = B \<and> (\<forall>s \<in> set x. has_shape3 T G C s)"

definition dim1 :: "'a list list \<Rightarrow> nat" where
  "dim1 x = (case x of [] \<Rightarrow> 0 | s # _ \<Rightarrow> length s)"

definition dim2 :: "'a list list list \<Rightarrow> nat" where
  "dim2 x = (case x of [] \<Rightarrow> 0 | s # _ \<Rightarrow> dim1 s)"

text \<open>Running a fallible function over a list stops at the first exception.\<close>

fun mapM :: "('a \<Rightarrow> error + 'b) \<Rightarrow> 'a list \<Rightarrow> error + 'b list" where
  "mapM f [] = Inr []"
| "mapM f (x # xs) =
     (case f x of
        Inl e \<Rightarrow> Inl e
      | Inr y \<Rightarrow> (case mapM f xs of Inl e \<Rightarrow> Inl e | Inr ys \<Rightarrow> Inr (y # ys)))"

text \<open>Python indexing along an axis of size \<open>n\<close>: a negative index counts from the end,
  an index outside \<open>[-n, n)\<close> raises IndexError.\<close>

definition py_index :: "nat \<Rightarrow> int \<Rightarrow> error + nat" where
  "py_index n i =
     (if 0 \<le> i \<and> i < int n then Inr (nat i)
      else if - int n \<le> i \<and> i < 0 then Inr (nat (i + int n))
      else Inl IndexError)"

definition index_last :: "int \<Rightarrow> real list \<Rightarrow> error + real" where
  "index_last i frame =
     (case py_index (length frame) i of Inl e \<Rightarrow> Inl e | Inr k \<Rightarrow> Inr (frame ! k))"

text \<open>\<^verbatim>\<open>x[:, :, i]\<close> and \<^verbatim>\<open>x[:, :, :, i]\<close>.\<close>

definition index_last3 :: "tensor3 \<Rightarrow> int \<Rightarrow> error + tensor2" where
  "index_last3 x i = mapM (mapM (index_last i)) x"

definition index_last4 :: "tensor4 \<Rightarrow> int \<Rightarrow> error + tensor3" where
  "index_last4 x i = mapM (mapM (mapM (index_last i))) x"

text \<open>\<^verbatim>\<open>x.unsqueeze(-1)\<close> on a 2-axis tensor.\<close>

definition unsqueeze_last :: "tensor2 \<Rightarrow> tensor3" where
  "unsqueeze_last x = map (map (\<lambda>v. [v])) x"

text \<open>An elementwise operation on a 3-axis tensor.\<close>

definition map3 :: "(real \<Rightarrow> real) \<Rightarrow> tensor3 \<Rightarrow> tensor3" where
  "map3 f x = map (map (map f)) x"

text \<open>Broadcasting of a binary operation along one axis: equal sizes pair up, an axis of
  size one is repeated, anything else is torch's RuntimeError.\<close>

definition broadcast2 :: "('a \<Rightarrow> 'b \<Rightarrow> error + 'c) \<Rightarrow> 'a list \<Rightarrow> 'b list \<Rightarrow> error + 'c list" where
  "broadcast2 f xs ys =
     (if length xs = length ys then mapM (\<lambda>(x, y). f x y) (zip xs ys)
      else if length xs = 1 then mapM (f (hd xs)) ys
      else if length ys = 1 then mapM (\<lambda>x. f x (hd ys)) xs
      else Inl RuntimeError)"

definition add3 :: "tensor3 \<Rightarrow> tensor3 \<Rightarrow> error + tensor3" where
  "add3 x y = broadcast2 (broadcast2 (broadcast2 (\<lambda>a b. Inr (a + b)))) x y"

section \<open>Residual log-F0 prediction\<close>

text \<open>
  \<^verbatim>\<open>predict_lf0_with_residual\<close> (model.py, lines 601-650). \<open>in_feats\<close> is the
  \<open>(B, T, C)\<close> input batch, \<open>out_feats\<close> the raw output of an acoustic model: 3-axis, or
  4-axis \<open>(B, T, num_gaussians, C)\<close> in the mixture-density case. The result is the pair
  (predicted log-F0, residual log-F0), of shape \<open>(B, T, 1)\<close> or \<open>(B, T, num_gaussians)\<close>.
  A 2-axis \<open>out_feats\<close> cannot be indexed by \<^verbatim>\<open>[:, :, i]\<close>.
\<close>

definition predict_lf0_with_residual ::
  "tensor3 \<Rightarrow> tensor \<Rightarrow> int \<Rightarrow> real \<Rightarrow> real \<Rightarrow> int \<Rightarrow> real \<Rightarrow> real \<Rightarrow> real
     \<Rightarrow> error + (tensor3 \<times> tensor3)" where
  "predict_lf0_with_residual in_feats out_feats in_lf0_idx in_lf0_min in_lf0_max
       out_lf0_idx out_lf0_mean out_lf0_scale residual_f0_max_cent =
     (case index_last3 in_feats in_lf0_idx of
        Inl e \<Rightarrow> Inl e
      | Inr sel \<Rightarrow>
          let lf0_score = unsqueeze_last sel;
              lf0_score_denorm = map3 (\<lambda>v. v * (in_lf0_max - in_lf0_min) + in_lf0_min) lf0_score;
              max_lf0_ratio = residual_f0_max_cent * ln 2 / 1200
          in (case (case out_feats of
                      T4 o4 \<Rightarrow> index_last4 o4 out_lf0_idx
                    | T3 o3 \<Rightarrow> (case index_last3 o3 out_lf0_idx of
                                 Inl e \<Rightarrow> Inl e | Inr r \<Rightarrow> Inr (unsqueeze_last r))
                    | T2 o2 \<Rightarrow> Inl IndexError) of
                Inl e \<Rightarrow> Inl e
              | Inr raw \<Rightarrow>
                  let lf0_residual = map3 (\<lambda>v. max_lf0_ratio * tanh v) raw
                  in (case add3 lf0_score_denorm lf0_residual of
                        Inl e \<Rightarrow> Inl e
                      | Inr lf0_pred_denorm \<Rightarrow>
                          Inr (map3 (\<lambda>v. (v - out_lf0_mean) / out_lf0_scale) lf0_pred_denorm,
                               lf0_residual))))"


section \<open>Writing the corrected log-F0 back\<close>

text \<open>
  \<^verbatim>\<open>lf0_pred.squeeze(-1)\<close> drops the last axis when its size is one and leaves the tensor
  as it is otherwise. The size of the last axis is the length of the frames; a tensor
  without frames is treated as having last axis of size one.
\<close>

definition squeeze_last :: "tensor3 \<Rightarrow> tensor" where
  "squeeze_last x =
     (if \<forall>s \<in> set x. \<forall>f \<in> set s. length f = 1 then T2 (map (map hd) x) else T3 x)"

text \<open>Expanding a value to the shape of the slice it is copied into: along each axis the
  size is the slice's or one, otherwise the copy raises RuntimeError.\<close>

definition expand_to :: "nat \<Rightarrow> 'a list \<Rightarrow> error + 'a list" where
  "expand_to n v =
     (if length v = n then Inr v
      else if length v = 1 then Inr (replicate n (hd v))
      else Inl RuntimeError)"

definition expand2 :: "nat \<Rightarrow> nat \<Rightarrow> 'a list list \<Rightarrow> error + 'a list list" where
  "expand2 n m v =
     (case mapM (expand_to m) v of Inl e \<Rightarrow> Inl e | Inr w \<Rightarrow> expand_to n w)"

definition expand3 :: "nat \<Rightarrow> nat \<Rightarrow> nat \<Rightarrow> 'a list list list \<Rightarrow> error + 'a list list list" where
  "expand3 n m g v =
     (case mapM (expand2 m g) v of Inl e \<Rightarrow> Inl e | Inr w \<Rightarrow> expand_to n w)"

text \<open>Writing one value into column \<open>i\<close> of a frame. It is reached only after the slice
  was taken, so the index is valid there; an invalid index would leave the frame as it is.\<close>

definition put_last :: "int \<Rightarrow> real list \<Rightarrow> real \<Rightarrow> real list" where
  "put_last i frame v =
     (case py_index (length frame) i of Inl e \<Rightarrow> frame | Inr k \<Rightarrow> frame[k := v])"

text \<open>
  \<^verbatim>\<open>mu[:, :, idx] = v\<close> on a 3-axis \<open>mu\<close>: the slice \<^verbatim>\<open>mu[:, :, idx]\<close> is taken first
  (IndexError), then \<open>v\<close> is expanded to its shape \<open>(B, T)\<close> (RuntimeError) and copied.
  Every other column of \<open>mu\<close> is left as it is. A value with more axes than the slice is
  rejected; the forward steps below never produce one.
\<close>

definition setitem_last3 :: "tensor3 \<Rightarrow> int \<Rightarrow> tensor \<Rightarrow> error + tensor3" where
  "setitem_last3 mu idx v =
     (case index_last3 mu idx of
        Inl e \<Rightarrow> Inl e
      | Inr _ \<Rightarrow>
          (case v of
             T2 v2 \<Rightarrow>
               (case expand2 (length mu) (dim1 mu) v2 of
                  Inl e \<Rightarrow> Inl e
                | Inr w \<Rightarrow> Inr (map2 (map2 (put_last idx)) mu w))
           | T3 _ \<Rightarrow> Inl RuntimeError
           | T4 _ \<Rightarrow> Inl RuntimeError))"

text \<open>
  \<^verbatim>\<open>mu[:, :, :, idx] = v\<close> on a 4-axis \<open>mu\<close>: the slice has shape \<open>(B, T, G)\<close>. A 3-axis
  value is expanded axis by axis; a 2-axis value \<open>(B', T')\<close> is aligned with the last two
  axes \<open>(T, G)\<close> of the slice and repeated along the batch axis, as torch's broadcasting
  aligns shapes from the right.
\<close>

definition setitem_last4 :: "tensor4 \<Rightarrow> int \<Rightarrow> tensor \<Rightarrow> error + tensor4" where
  "setitem_last4 mu idx v =
     (case index_last4 mu idx of
        Inl e \<Rightarrow> Inl e
      | Inr _ \<Rightarrow>
          (case (case v of
                   T3 v3 \<Rightarrow> expand3 (length mu) (dim1 mu) (dim2 mu) v3
                 | T2 v2 \<Rightarrow>
                     (case expand2 (dim1 mu) (dim2 mu) v2 of
                        Inl e \<Rightarrow> Inl e
                      | Inr w \<Rightarrow> Inr (replicate (length mu) w))
                 | T4 _ \<Rightarrow> Inl RuntimeError) of
             Inl e \<Rightarrow> Inl e
           | Inr w \<Rightarrow> Inr (map2 (map2 (map2 (put_last idx))) mu w)))"

section \<open>Predictors\<close>

text \<open>
  The layers of a predictor (\<^verbatim>\<open>nn.Sequential\<close>, \<^verbatim>\<open>nn.LSTM\<close>, \<^verbatim>\<open>nn.Linear\<close>,
  \<^verbatim>\<open>MDNLayer\<close>) are the collaborators the module composes; they are fields of function
  type, and they may raise. \<open>lengths\<close> is the optional array of valid lengths. What a
  forward or inference step returns is a tensor, the mixture triple
  \<open>(log_pi, log_sigma, mu)\<close>, or the pair \<open>(mu, sigma)\<close>.
\<close>

type_synonym lengths = "nat list option"

type_synonym mdn_params = "tensor \<times> tensor \<times> tensor4"

datatype pyout = Tensor tensor3 | Mdn tensor tensor tensor4 | MuSigma tensor3 tensor3

text \<open>\<^verbatim>\<open>x.transpose(1, 2)\<close>.\<close>

definition transpose12 :: "tensor3 \<Rightarrow> tensor3" where
  "transpose12 x = map transpose x"

text \<open>
  \<^verbatim>\<open>mdn_get_most_probable_sigma_and_mu\<close> comes from \<^verbatim>\<open>nnsvs.mdn\<close>, which is not among
  the sources; the inference steps take it as their first argument \<open>most_probable\<close>. It
  returns \<open>(sigma, mu)\<close>.
\<close>

type_synonym mdn_resolver = "tensor \<Rightarrow> tensor \<Rightarrow> tensor4 \<Rightarrow> error + (tensor3 \<times> tensor3)"

subsection \<open>Conv1dResnet (lines 37-145)\<close>

record Conv1dResnet =
  use_mdn :: bool
  model :: "tensor3 \<Rightarrow> error + tensor3"
  mdn_layer :: "tensor3 \<Rightarrow> error + mdn_params"

definition Conv1dResnet_forward :: "'a Conv1dResnet_scheme \<Rightarrow> tensor3 \<Rightarrow> lengths \<Rightarrow> error + pyout" where
  "Conv1dResnet_forward self x lengths =
     (case Conv1dResnet.model self (transpose12 x) of
        Inl e \<Rightarrow> Inl e
      | Inr h \<Rightarrow>
          let out = transpose12 h
          in if Conv1dResnet.use_mdn self
             then (case Conv1dResnet.mdn_layer self out of
                     Inl e \<Rightarrow> Inl e
                   | Inr (log_pi, log_sigma, mu) \<Rightarrow> Inr (Mdn log_pi log_sigma mu))
             else Inr (Tensor out))"

definition Conv1dResnet_inference ::
  "mdn_resolver \<Rightarrow> 'a Conv1dResnet_scheme \<Rightarrow> tensor3 \<Rightarrow> lengths \<Rightarrow> error + pyout" where
  "Conv1dResnet_inference most_probable self x lengths =
     (if Conv1dResnet.use_mdn self
      then (case Conv1dResnet_forward self x lengths of
              Inl e \<Rightarrow> Inl e
            | Inr (Mdn log_pi log_sigma mu) \<Rightarrow>
                (case most_probable log_pi log_sigma mu of
                   Inl e \<Rightarrow> Inl e
                 | Inr (sigma, mu') \<Rightarrow> Inr (MuSigma mu' sigma))
            | Inr _ \<Rightarrow> Inl ValueError)
      else Conv1dResnet_forward self x lengths)"

subsection \<open>The residual log-F0 predictors\<close>

text \<open>The six attributes every residual log-F0 predictor stores in \<^verbatim>\<open>__init__\<close>.\<close>

record lf0_params =
  in_lf0_idx :: int
  in_lf0_min :: real
  in_lf0_max :: real
  out_lf0_idx :: int
  out_lf0_mean :: real
  out_lf0_scale :: real

text \<open>
  The block every residual forward step repeats: \<^verbatim>\<open>predict_lf0_with_residual\<close> on the
  input and the raw output \<open>mu\<close> (with the default \<^verbatim>\<open>residual_f0_max_cent=600\<close>), then
  "inject the predicted lf0 into the output features". \<open>inject_lf0\<close> is the branch for a
  3-axis \<open>mu\<close>, \<open>inject_lf0_mdn\<close> the branch taken when \<^verbatim>\<open>use_mdn\<close> is set.
\<close>

definition inject_lf0 ::
  "('a lf0_params_scheme) \<Rightarrow> tensor3 \<Rightarrow> tensor3 \<Rightarrow> error + (tensor3 \<times> tensor3)" where
  "inject_lf0 self x mu =
     (case predict_lf0_with_residual x (T3 mu) (in_lf0_idx self) (in_lf0_min self)
             (in_lf0_max self) (out_lf0_idx self) (out_lf0_mean self) (out_lf0_scale self) 600 of
        Inl e \<Rightarrow> Inl e
      | Inr (lf0_pred, lf0_residual) \<Rightarrow>
          (case setitem_last3 mu (out_lf0_idx self) (squeeze_last lf0_pred) of
             Inl e \<Rightarrow> Inl e
           | Inr mu' \<Rightarrow> Inr (mu', lf0_residual)))"

definition inject_lf0_mdn ::
  "('a lf0_params_scheme) \<Rightarrow> tensor3 \<Rightarrow> tensor4 \<Rightarrow> error + (tensor4 \<times> tensor3)" where
  "inject_lf0_mdn self x mu =
     (case predict_lf0_with_residual x (T4 mu) (in_lf0_idx self) (in_lf0_min self)
             (in_lf0_max self) (out_lf0_idx self) (out_lf0_mean self) (out_lf0_scale self) 600 of
        Inl e \<Rightarrow> Inl e
      | Inr (lf0_pred, lf0_residual) \<Rightarrow>
          (case setitem_last4 mu (out_lf0_idx self) (squeeze_last lf0_pred) of
             Inl e \<Rightarrow> Inl e
           | Inr mu' \<Rightarrow> Inr (mu', lf0_residual)))"

text \<open>ResF0Conv1dResnet (lines 653-791).\<close>

record ResF0Conv1dResnet = lf0_params +
  use_mdn :: bool
  model :: "tensor3 \<Rightarrow> error + tensor3"
  mdn_layer :: "tensor3 \<Rightarrow> error + mdn_params"

definition ResF0Conv1dResnet_forward ::
  "ResF0Conv1dResnet \<Rightarrow> tensor3 \<Rightarrow> lengths \<Rightarrow> error + (pyout \<times> tensor3)" where
  "ResF0Conv1dResnet_forward self x lengths =
     (case ResF0Conv1dResnet.model self (transpose12 x) of
        Inl e \<Rightarrow> Inl e
      | Inr h \<Rightarrow>
          let out = transpose12 h
          in if ResF0Conv1dResnet.use_mdn self
             then (case ResF0Conv1dResnet.mdn_layer self out of
                     Inl e \<Rightarrow> Inl e
                   | Inr (log_pi, log_sigma, mu) \<Rightarrow>
                       (case inject_lf0_mdn self x mu of
                          Inl e \<Rightarrow> Inl e
                        | Inr (mu', lf0_residual) \<Rightarrow>
                            Inr (Mdn log_pi log_sigma mu', lf0_residual)))
             else (case inject_lf0 self x out of
                     Inl e \<Rightarrow> Inl e
                   | Inr (mu', lf0_residual) \<Rightarrow> Inr (Tensor mu', lf0_residual)))"

definition ResF0Conv1dResnet_inference ::
  "mdn_resolver \<Rightarrow> ResF0Conv1dResnet \<Rightarrow> tensor3 \<Rightarrow> lengths \<Rightarrow> error + pyout" where
  "ResF0Conv1dResnet_inference most_probable self x lengths =
     (if ResF0Conv1dResnet.use_mdn self
      then (case ResF0Conv1dResnet_forward self x lengths of
              Inl e \<Rightarrow> Inl e
            | Inr (Mdn log_pi log_sigma mu, _) \<Rightarrow>
                (case most_probable log_pi log_sigma mu of
                   Inl e \<Rightarrow> Inl e
                 | Inr (sigma, mu') \<Rightarrow> Inr (MuSigma mu' sigma))
            | Inr _ \<Rightarrow> Inl ValueError)
      else (case ResF0Conv1dResnet_forward self x lengths of
              Inl e \<Rightarrow> Inl e
            | Inr r \<Rightarrow> Inr (fst r)))"


text \<open>\<^verbatim>\<open>torch.cat(tensors, dim=-1)\<close> on 3-axis tensors: batch and time sizes must agree;
  an empty list of tensors is rejected.\<close>

definition cat2_last :: "tensor3 \<Rightarrow> tensor3 \<Rightarrow> error + tensor3" where
  "cat2_last a b =
     (if length a = length b \<and> (\<forall>(s, s') \<in> set (zip a b). length s = length s')
      then Inr (map2 (map2 (@)) a b)
      else Inl RuntimeError)"

fun cat_last :: "tensor3 list \<Rightarrow> error + tensor3" where
  "cat_last [] = Inl RuntimeError"
| "cat_last [a] = Inr a"
| "cat_last (a # b # rest) =
     (case cat2_last a b of Inl e \<Rightarrow> Inl e | Inr ab \<Rightarrow> cat_last (ab # rest))"

text \<open>ResSkipF0FFConvLSTM (lines 798-980). \<open>lstm\<close> stands for packing the padded batch
  by \<open>lengths\<close>, running the LSTM and padding the result again.\<close>

record ResSkipF0FFConvLSTM = lf0_params +
  skip_inputs :: bool
  use_mdn :: bool
  ff :: "tensor3 \<Rightarrow> error + tensor3"
  conv :: "tensor3 \<Rightarrow> error + tensor3"
  lstm :: "tensor3 \<Rightarrow> lengths \<Rightarrow> error + tensor3"
  fc :: "tensor3 \<Rightarrow> error + tensor3"
  mdn_layer :: "tensor3 \<Rightarrow> error + mdn_params"

definition ResSkipF0FFConvLSTM_hidden ::
  "ResSkipF0FFConvLSTM \<Rightarrow> tensor3 \<Rightarrow> lengths \<Rightarrow> error + tensor3" where
  "ResSkipF0FFConvLSTM_hidden self x lengths =
     (case index_last3 x (in_lf0_idx self) of
        Inl e \<Rightarrow> Inl e
      | Inr sel \<Rightarrow>
          let lf0_score = unsqueeze_last sel
          in (case ff self x of
                Inl e \<Rightarrow> Inl e
              | Inr out \<Rightarrow>
                  (case cat_last [out, lf0_score] of
                     Inl e \<Rightarrow> Inl e
                   | Inr out \<Rightarrow>
                       (case conv self (transpose12 out) of
                          Inl e \<Rightarrow> Inl e
                        | Inr h \<Rightarrow>
                            (case lstm self (transpose12 h) lengths of
                               Inl e \<Rightarrow> Inl e
                             | Inr out \<Rightarrow>
                                 if skip_inputs self then cat_last [out, x] else Inr out)))))"

definition ResSkipF0FFConvLSTM_forward ::
  "ResSkipF0FFConvLSTM \<Rightarrow> tensor3 \<Rightarrow> lengths \<Rightarrow> error + (pyout \<times> tensor3)" where
  "ResSkipF0FFConvLSTM_forward self x lengths =
     (case ResSkipF0FFConvLSTM_hidden self x lengths of
        Inl e \<Rightarrow> Inl e
      | Inr out \<Rightarrow>
          if ResSkipF0FFConvLSTM.use_mdn self
          then (case ResSkipF0FFConvLSTM.mdn_layer self out of
                  Inl e \<Rightarrow> Inl e
                | Inr (log_pi, log_sigma, mu) \<Rightarrow>
                    (case inject_lf0_mdn self x mu of
                       Inl e \<Rightarrow> Inl e
                     | Inr (mu', lf0_residual) \<Rightarrow>
                         Inr (Mdn log_pi log_sigma mu', lf0_residual)))
          else (case fc self out of
                  Inl e \<Rightarrow> Inl e
                | Inr mu \<Rightarrow>
                    (case inject_lf0 self x mu of
                       Inl e \<Rightarrow> Inl e
                     | Inr (mu', lf0_residual) \<Rightarrow> Inr (Tensor mu', lf0_residual))))"

definition ResSkipF0FFConvLSTM_inference ::
  "mdn_resolver \<Rightarrow> ResSkipF0FFConvLSTM \<Rightarrow> tensor3 \<Rightarrow> lengths \<Rightarrow> error + pyout" where
  "ResSkipF0FFConvLSTM_inference most_probable self x lengths =
     (if ResSkipF0FFConvLSTM.use_mdn self
      then (case ResSkipF0FFConvLSTM_forward self x lengths of
              Inl e \<Rightarrow> Inl e
            | Inr (Mdn log_pi log_sigma mu, _) \<Rightarrow>
                (case most_probable log_pi log_sigma mu of
                   Inl e \<Rightarrow> Inl e
                 | Inr (sigma, mu') \<Rightarrow> Inr (MuSigma mu' sigma))
            | Inr _ \<Rightarrow> Inl ValueError)
      else (case ResSkipF0FFConvLSTM_forward self x lengths of
              Inl e \<Rightarrow> Inl e
            | Inr r \<Rightarrow> Inr (fst r)))"

text \<open>ResF0VariancePredictor (lines 1117-1187); \<open>conv\<close> and \<open>fc\<close> are the layers it
  inherits from VariancePredictor.\<close>

record ResF0VariancePredictor = lf0_params +
  conv :: "tensor3 \<Rightarrow> error + tensor3"
  fc :: "tensor3 \<Rightarrow> error + tensor3"

definition ResF0VariancePredictor_forward ::
  "ResF0VariancePredictor \<Rightarrow> tensor3 \<Rightarrow> lengths \<Rightarrow> error + (tensor3 \<times> tensor3)" where
  "ResF0VariancePredictor_forward self x lengths =
     (case ResF0VariancePredictor.conv self (transpose12 x) of
        Inl e \<Rightarrow> Inl e
      | Inr h \<Rightarrow>
          (case ResF0VariancePredictor.fc self (transpose12 h) of
             Inl e \<Rightarrow> Inl e
           | Inr out \<Rightarrow> inject_lf0 self x out))"

definition ResF0VariancePredictor_inference ::
  "ResF0VariancePredictor \<Rightarrow> tensor3 \<Rightarrow> lengths \<Rightarrow> error + tensor3" where
  "ResF0VariancePredictor_inference self x lengths =
     (case ResF0VariancePredictor_forward self x lengths of
        Inl e \<Rightarrow> Inl e
      | Inr r \<Rightarrow> Inr (fst r))"

section \<open>Streams\<close>

text \<open>
  Modelled from the spec: \<^verbatim>\<open>split_streams\<close> (\<^verbatim>\<open>nnsvs.multistream\<close> is not among the
  sources). Section 4.4 of the specification: \<open>split(flat_vector, layout)\<close> returns the
  ordered list of sub-vectors, one per declared width, each a contiguous slice of the last
  axis; it "fails with LayoutMismatchError if sum of declared widths is not the flat
  vector's last dimension". Stream \<open>k\<close> starts after the widths before it.
\<close>

definition stream_slice :: "nat list \<Rightarrow> nat \<Rightarrow> 'a list \<Rightarrow> 'a list" where
  "stream_slice stream_sizes k frame =
     take (stream_sizes ! k) (drop (sum_list (take k stream_sizes)) frame)"

definition split_streams :: "tensor3 \<Rightarrow> nat list \<Rightarrow> error + tensor3 list" where
  "split_streams inputs stream_sizes =
     (if \<forall>s \<in> set inputs. \<forall>f \<in> set s. length f = sum_list stream_sizes
      then Inr (map (\<lambda>k. map (map (stream_slice stream_sizes k)) inputs)
                  [0..<length stream_sizes])
      else Inl LayoutMismatchError)"

section \<open>Shallow autoregressive filtering\<close>

text \<open>
  Modelled from the spec: the analysis filter (\<^verbatim>\<open>nnsvs.dsp.TrTimeInvFIRFilter\<close> is not
  among the sources). Sections 3 and 4.2 of the specification: an analysis filter holds,
  for each scalar dimension of its stream, \<open>K + 1\<close> learned coefficients. Analysis convolves
  each dimension causally along time with its coefficients, from zero history, and keeps
  the shape. Synthesis takes the time-reversed coefficients as the feedback polynomial, with
  "coefficient 0 normalized to 1", and inverts the analysis transform; so the stored row is
  in reversed lag order, its last entry is the lag-0 coefficient, and \<open>get_filt_coefs\<close>
  returns the rows with that entry set to 1. A batch whose channel count is not the
  filter's is the specification's ShapeError.
\<close>

record TrTimeInvFIRFilter =
  weight :: "real list list"

definition get_filt_coefs :: "TrTimeInvFIRFilter \<Rightarrow> real list list" where
  "get_filt_coefs filt = map (\<lambda>w. w[length w - 1 := 1]) (weight filt)"

text \<open>The inner product of coefficients in lag order with a history, newest sample
  first; samples before the start of the sequence count as zero.\<close>

definition dot :: "real list \<Rightarrow> real list \<Rightarrow> real" where
  "dot c h = sum_list (map2 (*) c h)"

fun fir_scan :: "real list \<Rightarrow> real list \<Rightarrow> real list \<Rightarrow> real list" where
  "fir_scan c h [] = []"
| "fir_scan c h (x # xs) = dot c (x # h) # fir_scan c (x # h) xs"

text \<open>The filter applied to a \<open>(B, C, T)\<close> batch.\<close>

definition TrTimeInvFIRFilter_forward :: "TrTimeInvFIRFilter \<Rightarrow> tensor3 \<Rightarrow> error + tensor3" where
  "TrTimeInvFIRFilter_forward filt x =
     (let b = get_filt_coefs filt
      in if \<forall>s \<in> set x. length s = length b
         then Inr (map (\<lambda>s. map2 (\<lambda>w ch. fir_scan (rev w) [] ch) b s) x)
         else Inl ShapeError)"

text \<open>
  \<^verbatim>\<open>torchaudio.functional.lfilter(waveform, a_coeffs, b_coeffs, clamp=False)\<close>, the
  library's direct-form IIR filter over the last axis of a \<open>(B, T)\<close> batch, from zero
  initial state: \<open>a[0] * y[n] = b[0] * x[n] + ... + b[K] * x[n-K] - a[1] * y[n-1] - ... - a[K] * y[n-K]\<close>.
  The two coefficient arrays must have the same size. The recursion keeps the past inputs
  \<open>xh\<close> and the past outputs \<open>yh\<close>, newest first.
\<close>

fun lfilter_scan :: "real list \<Rightarrow> real list \<Rightarrow> real list \<Rightarrow> real list \<Rightarrow> real list \<Rightarrow> real list" where
  "lfilter_scan a b xh yh [] = []"
| "lfilter_scan a b xh yh (x # xs) =
     (let y = (dot b (x # xh) - dot (tl a) yh) / hd a
      in y # lfilter_scan a b (x # xh) (y # yh) xs)"

definition lfilter :: "tensor2 \<Rightarrow> real list \<Rightarrow> real list \<Rightarrow> error + tensor2" where
  "lfilter waveform a_coeffs b_coeffs =
     (if length a_coeffs \<noteq> length b_coeffs then Inl (AssertionError [])
      else if a_coeffs = [] then Inl RuntimeError
      else Inr (map (lfilter_scan a_coeffs b_coeffs [] []) waveform))"

text \<open>\<^verbatim>\<open>torch.cat(tensors, 1)\<close> on \<open>(B, C, T)\<close> tensors: batch and time sizes must agree.\<close>

definition cat2_dim1 :: "tensor3 \<Rightarrow> tensor3 \<Rightarrow> error + tensor3" where
  "cat2_dim1 a b =
     (if length a = length b
         \<and> (\<forall>(s, s') \<in> set (zip a b). \<forall>ch \<in> set s. \<forall>ch' \<in> set s'. length ch = length ch')
      then Inr (map2 (@) a b)
      else Inl RuntimeError)"

fun cat_dim1 :: "tensor3 list \<Rightarrow> error + tensor3" where
  "cat_dim1 [] = Inl RuntimeError"
| "cat_dim1 [a] = Inr a"
| "cat_dim1 (a # b # rest) =
     (case cat2_dim1 a b of Inl e \<Rightarrow> Inl e | Inr ab \<Rightarrow> cat_dim1 (ab # rest))"

text \<open>
  \<^verbatim>\<open>_shallow_ar_inference\<close> (lines 148-171). \<open>sar_channel\<close> is the body of the inner loop
  for channel \<open>idx\<close> of the transposed stream \<open>os\<close>: it returns the filtered \<open>(B, T)\<close>
  slice that the source writes to \<^verbatim>\<open>out_stream_syn[:, idx, :]\<close>. \<open>sar_stream\<close> is the body
  of the outer loop: \<open>out_stream_syn\<close> assembled from the slices of all channels.
\<close>

definition sar_channel :: "real list list \<Rightarrow> tensor3 \<Rightarrow> nat \<Rightarrow> error + tensor2" where
  "sar_channel a os idx =
     (if idx < length a
      then let ai = rev (a ! idx)
           in if ai = [] then Inl IndexError
              else let bi = (replicate (length ai) 0)[0 := 1]
                   in lfilter (map (\<lambda>s. s ! idx) os) ai bi
      else Inl IndexError)"

definition sar_stream :: "TrTimeInvFIRFilter list \<Rightarrow> nat \<Rightarrow> tensor3 \<Rightarrow> error + tensor3" where
  "sar_stream analysis_filts sidx os =
     (if sidx < length analysis_filts
      then let a = get_filt_coefs (analysis_filts ! sidx)
           in (case mapM (sar_channel a os) [0..<dim1 os] of
                 Inl e \<Rightarrow> Inl e
               | Inr chs \<Rightarrow> Inr (map (\<lambda>b. map (\<lambda>r. r ! b) chs) [0..<length os]))
      else Inl IndexError)"

definition shallow_ar_inference ::
  "tensor3 \<Rightarrow> nat list \<Rightarrow> TrTimeInvFIRFilter list \<Rightarrow> error + tensor3" where
  "shallow_ar_inference out stream_sizes analysis_filts =
     (case split_streams out stream_sizes of
        Inl e \<Rightarrow> Inl e
      | Inr out_streams \<Rightarrow>
          let out_streams = map transpose12 out_streams
          in (case mapM (\<lambda>(sidx, os). sar_stream analysis_filts sidx os)
                    (zip [0..<length out_streams] out_streams) of
                Inl e \<Rightarrow> Inl e
              | Inr out_syn \<Rightarrow>
                  (case cat_dim1 out_syn of
                     Inl e \<Rightarrow> Inl e
                   | Inr out_syn \<Rightarrow> Inr (transpose12 out_syn))))"

text \<open>Conv1dResnetSAR (lines 174-224): a Conv1dResnet built without MDN, with the stream
  sizes and one analysis filter per stream. \<open>preprocess_target\<close> is the method of that
  name, which LSTMRNNSAR repeats word for word; \<open>preprocess_stream\<close> is the body of its
  loop.\<close>

record Conv1dResnetSAR = Conv1dResnet +
  stream_sizes :: "nat list"
  analysis_filts :: "TrTimeInvFIRFilter list"

definition preprocess_stream :: "TrTimeInvFIRFilter list \<Rightarrow> nat \<Rightarrow> tensor3 \<Rightarrow> error + tensor3" where
  "preprocess_stream filts idx yi =
     (if idx < length filts
      then (case TrTimeInvFIRFilter_forward (filts ! idx) (transpose12 yi) of
              Inl e \<Rightarrow> Inl e
            | Inr r \<Rightarrow> Inr (transpose12 r))
      else Inl IndexError)"

definition preprocess_target ::
  "nat list \<Rightarrow> TrTimeInvFIRFilter list \<Rightarrow> tensor3 \<Rightarrow> error + tensor3" where
  "preprocess_target sizes filts y =
     (if sum_list sizes = dim2 y
      then (case split_streams y sizes of
              Inl e \<Rightarrow> Inl e
            | Inr ys \<Rightarrow>
                (case mapM (\<lambda>(idx, yi). preprocess_stream filts idx yi)
                        (zip [0..<length ys] ys) of
                   Inl e \<Rightarrow> Inl e
                 | Inr ys' \<Rightarrow> cat_last ys'))
      else Inl (AssertionError []))"

definition Conv1dResnetSAR_preprocess_target :: "Conv1dResnetSAR \<Rightarrow> tensor3 \<Rightarrow> error + tensor3" where
  "Conv1dResnetSAR_preprocess_target self y =
     preprocess_target (Conv1dResnetSAR.stream_sizes self)
       (Conv1dResnetSAR.analysis_filts self) y"

definition Conv1dResnetSAR_inference ::
  "Conv1dResnetSAR \<Rightarrow> tensor3 \<Rightarrow> lengths \<Rightarrow> error + tensor3" where
  "Conv1dResnetSAR_inference self x lengths =
     (case Conv1dResnet.model self (transpose12 x) of
        Inl e \<Rightarrow> Inl e
      | Inr h \<Rightarrow>
          shallow_ar_inference (transpose12 h) (Conv1dResnetSAR.stream_sizes self)
            (Conv1dResnetSAR.analysis_filts self))"

text \<open>LSTMRNN and LSTMRNNSAR (lines 284-384).\<close>

record LSTMRNN =
  lstm :: "tensor3 \<Rightarrow> lengths \<Rightarrow> error + tensor3"
  hidden2out :: "tensor3 \<Rightarrow> error + tensor3"

definition LSTMRNN_forward :: "'a LSTMRNN_scheme \<Rightarrow> tensor3 \<Rightarrow> lengths \<Rightarrow> error + tensor3" where
  "LSTMRNN_forward self x lengths =
     (case LSTMRNN.lstm self x lengths of
        Inl e \<Rightarrow> Inl e
      | Inr out \<Rightarrow> hidden2out self out)"

record LSTMRNNSAR = LSTMRNN +
  stream_sizes :: "nat list"
  analysis_filts :: "TrTimeInvFIRFilter list"

definition LSTMRNNSAR_preprocess_target :: "LSTMRNNSAR \<Rightarrow> tensor3 \<Rightarrow> error + tensor3" where
  "LSTMRNNSAR_preprocess_target self y =
     preprocess_target (LSTMRNNSAR.stream_sizes self) (LSTMRNNSAR.analysis_filts self) y"

definition LSTMRNNSAR_inference :: "LSTMRNNSAR \<Rightarrow> tensor3 \<Rightarrow> lengths \<Rightarrow> error + tensor3" where
  "LSTMRNNSAR_inference self x lengths =
     (case LSTMRNN_forward self x lengths of
        Inl e \<Rightarrow> Inl e
      | Inr out \<Rightarrow>
          shallow_ar_inference out (LSTMRNNSAR.stream_sizes self)
            (LSTMRNNSAR.analysis_filts self))"


section \<open>MultistreamParametricModel (lines 1190-1291)\<close>

text \<open>
  The three sub-models are arbitrary modules. A module is modelled by its attribute
  dictionary, which \<^verbatim>\<open>hasattr\<close> inspects and \<^verbatim>\<open>_set_lf0_params\<close> writes, and by what
  calling it returns; the call reads the attributes the module has at that moment. The
  energy and timbre models return a tensor, the pitch model the pair (output, residual
  log-F0), as the source assumes ("so far assuming residual F0 prediction models").
\<close>

datatype pyval = PyInt int | PyFloat real

type_synonym attributes = "string \<rightharpoonup> pyval"

record 'r py_module =
  attrs :: attributes
  call :: "attributes \<Rightarrow> tensor3 \<Rightarrow> lengths \<Rightarrow> error + 'r"

text \<open>\<^verbatim>\<open>v == n\<close> for an attribute value and an integer.\<close>

definition py_eq_int :: "pyval \<Rightarrow> int \<Rightarrow> bool" where
  "py_eq_int v n = (case v of PyInt d \<Rightarrow> d = n | PyFloat r \<Rightarrow> r = of_int n)"

text \<open>The attributes \<^verbatim>\<open>*_has_dynamic_features\<close> and \<^verbatim>\<open>*_num_windows\<close> are stored by
  \<^verbatim>\<open>__init__\<close> and read nowhere in this module; they are left out of the record.\<close>

record MultistreamParametricModel = lf0_params +
  energy_model :: "tensor3 py_module"
  energy_stream_sizes :: "nat list"
  pitch_model :: "(tensor3 \<times> tensor3) py_module"
  pitch_stream_sizes :: "nat list"
  timbre_model :: "tensor3 py_module"
  timbre_stream_sizes :: "nat list"

text \<open>The guarded assertion of \<^verbatim>\<open>__init__\<close>:
  \<^verbatim>\<open>if hasattr(m, "out_dim"): assert m.out_dim == sum(stream_sizes), msg\<close>.\<close>

definition assert_out_dim :: "'r py_module \<Rightarrow> nat list \<Rightarrow> string \<Rightarrow> error + unit" where
  "assert_out_dim m sizes msg =
     (case attrs m ''out_dim'' of
        None \<Rightarrow> Inr ()
      | Some v \<Rightarrow>
          if py_eq_int v (int (sum_list sizes)) then Inr () else Inl (AssertionError msg))"

definition MultistreamParametricModel_init ::
  "tensor3 py_module \<Rightarrow> nat list \<Rightarrow> (tensor3 \<times> tensor3) py_module \<Rightarrow> nat list
     \<Rightarrow> tensor3 py_module \<Rightarrow> nat list \<Rightarrow> int \<Rightarrow> real \<Rightarrow> real \<Rightarrow> int \<Rightarrow> real \<Rightarrow> real
     \<Rightarrow> error + MultistreamParametricModel" where
  "MultistreamParametricModel_init energy_model' energy_stream_sizes' pitch_model'
       pitch_stream_sizes' timbre_model' timbre_stream_sizes'
       in_lf0_idx' in_lf0_min' in_lf0_max' out_lf0_idx' out_lf0_mean' out_lf0_scale' =
     (case assert_out_dim energy_model' energy_stream_sizes'
             ''Energy model output dimension is not consistent with the stream sizes'' of
        Inl e \<Rightarrow> Inl e
      | Inr _ \<Rightarrow>
     (case assert_out_dim pitch_model' pitch_stream_sizes'
             ''Pitch model output dimension is not consistent with the stream sizes'' of
        Inl e \<Rightarrow> Inl e
      | Inr _ \<Rightarrow>
     (case assert_out_dim timbre_model' timbre_stream_sizes'
             ''Timbre model output dimension is not consistent with the stream sizes'' of
        Inl e \<Rightarrow> Inl e
      | Inr _ \<Rightarrow>
          Inr \<lparr>in_lf0_idx = in_lf0_idx', in_lf0_min = in_lf0_min', in_lf0_max = in_lf0_max',
               out_lf0_idx = out_lf0_idx', out_lf0_mean = out_lf0_mean',
               out_lf0_scale = out_lf0_scale',
               energy_model = energy_model', energy_stream_sizes = energy_stream_sizes',
               pitch_model = pitch_model', pitch_stream_sizes = pitch_stream_sizes',
               timbre_model = timbre_model', timbre_stream_sizes = timbre_stream_sizes'\<rparr>)))"

text \<open>\<^verbatim>\<open>_set_lf0_params\<close> (lines 1248-1256): the model after the call.\<close>

definition set_lf0_params :: "MultistreamParametricModel \<Rightarrow> MultistreamParametricModel" where
  "set_lf0_params self =
     (if attrs (pitch_model self) ''out_lf0_mean'' \<noteq> None
      then self\<lparr>pitch_model := (pitch_model self)\<lparr>attrs := (attrs (pitch_model self))
             (''in_lf0_idx'' \<mapsto> PyInt (in_lf0_idx self),
              ''in_lf0_min'' \<mapsto> PyFloat (in_lf0_min self),
              ''in_lf0_max'' \<mapsto> PyFloat (in_lf0_max self),
              ''out_lf0_mean'' \<mapsto> PyFloat (out_lf0_mean self),
              ''out_lf0_scale'' \<mapsto> PyFloat (out_lf0_scale self))\<rparr>\<rparr>
      else self)"

text \<open>
  \<^verbatim>\<open>forward\<close> (lines 1258-1287) returns its result together with the model, whose pitch
  sub-model \<^verbatim>\<open>_set_lf0_params\<close> has written. \<open>unpack_pitch\<close> is the first
  \<^verbatim>\<open>if/elif/else\<close> over \<^verbatim>\<open>len(self.pitch_stream_sizes)\<close>: it binds \<open>lf0\<close> and \<open>vuv\<close> and
  returns the streams bound after them (\<open>vib\<close>, \<open>vib_flags\<close>) as a list; unpacking a list of
  the wrong length is Python's ValueError. The second \<^verbatim>\<open>if/elif/else\<close> concatenates
  \<open>[mgc, lf0, vuv, bap]\<close> followed by those streams.
\<close>

definition unpack_pitch :: "nat \<Rightarrow> tensor3 list \<Rightarrow> error + (tensor3 \<times> tensor3 \<times> tensor3 list)" where
  "unpack_pitch n streams =
     (if n = 2 then
        (case streams of [lf0, vuv] \<Rightarrow> Inr (lf0, vuv, []) | _ \<Rightarrow> Inl ValueError)
      else if n = 3 then
        (case streams of [lf0, vuv, vib] \<Rightarrow> Inr (lf0, vuv, [vib]) | _ \<Rightarrow> Inl ValueError)
      else
        (case streams of
           [lf0, vuv, vib, vib_flags] \<Rightarrow> Inr (lf0, vuv, [vib, vib_flags])
         | _ \<Rightarrow> Inl ValueError))"

definition forward_body ::
  "MultistreamParametricModel \<Rightarrow> tensor3 \<Rightarrow> lengths \<Rightarrow> error + (tensor3 \<times> tensor3)" where
  "forward_body self x lengths =
     (case call (energy_model self) (attrs (energy_model self)) x lengths of
        Inl e \<Rightarrow> Inl e
      | Inr out \<Rightarrow>
     (case split_streams out (energy_stream_sizes self) of
        Inl e \<Rightarrow> Inl e
      | Inr [] \<Rightarrow> Inl IndexError
      | Inr (erg # _) \<Rightarrow>
     (case call (pitch_model self) (attrs (pitch_model self)) x lengths of
        Inl e \<Rightarrow> Inl e
      | Inr (out, lf0_residual) \<Rightarrow>
     (case split_streams out (pitch_stream_sizes self) of
        Inl e \<Rightarrow> Inl e
      | Inr streams \<Rightarrow>
     (case unpack_pitch (length (pitch_stream_sizes self)) streams of
        Inl e \<Rightarrow> Inl e
      | Inr (lf0, vuv, vibs) \<Rightarrow>
     (case call (timbre_model self) (attrs (timbre_model self)) x lengths of
        Inl e \<Rightarrow> Inl e
      | Inr out \<Rightarrow>
     (case split_streams out (timbre_stream_sizes self) of
        Inl e \<Rightarrow> Inl e
      | Inr [mgc, bap] \<Rightarrow>
          (case cat_last [erg, mgc] of
             Inl e \<Rightarrow> Inl e
           | Inr mgc \<Rightarrow>
               (case cat_last ([mgc, lf0, vuv, bap] @ vibs) of
                  Inl e \<Rightarrow> Inl e
                | Inr out \<Rightarrow> Inr (out, lf0_residual)))
      | Inr _ \<Rightarrow> Inl ValueError)))))))"

definition forward ::
  "MultistreamParametricModel \<Rightarrow> tensor3 \<Rightarrow> lengths
     \<Rightarrow> (error + (tensor3 \<times> tensor3)) \<times> MultistreamParametricModel" where
  "forward self x lengths =
     (let self = set_lf0_params self in (forward_body self x lengths, self))"

definition inference ::
  "MultistreamParametricModel \<Rightarrow> tensor3 \<Rightarrow> lengths
     \<Rightarrow> (error + tensor3) \<times> MultistreamParametricModel" where
  "inference self x lengths =
     (case forward self x lengths of
        (Inl e, self') \<Rightarrow> (Inl e, self')
      | (Inr (out, _), self') \<Rightarrow> (Inr out, self'))"

text \<open>
  A residual log-F0 predictor seen as a module: its attribute dictionary holds the six
  log-F0 attributes, and its call runs the forward step with the values the dictionary
  holds then. A missing attribute is Python's AttributeError; an index that is not an
  integer is a TypeError.
\<close>

definition lf0_attrs :: "'a lf0_params_scheme \<Rightarrow> attributes" where
  "lf0_attrs p =
     [''in_lf0_idx'' \<mapsto> PyInt (in_lf0_idx p),
      ''in_lf0_min'' \<mapsto> PyFloat (in_lf0_min p),
      ''in_lf0_max'' \<mapsto> PyFloat (in_lf0_max p),
      ''out_lf0_idx'' \<mapsto> PyInt (out_lf0_idx p),
      ''out_lf0_mean'' \<mapsto> PyFloat (out_lf0_mean p),
      ''out_lf0_scale'' \<mapsto> PyFloat (out_lf0_scale p)]"

definition get_int :: "attributes \<Rightarrow> string \<Rightarrow> error + int" where
  "get_int a name =
     (case a name of
        None \<Rightarrow> Inl AttributeError
      | Some (PyInt i) \<Rightarrow> Inr i
      | Some (PyFloat r) \<Rightarrow> Inl TypeError)"

definition get_float :: "attributes \<Rightarrow> string \<Rightarrow> error + real" where
  "get_float a name =
     (case a name of
        None \<Rightarrow> Inl AttributeError
      | Some (PyInt i) \<Rightarrow> Inr (of_int i)
      | Some (PyFloat r) \<Rightarrow> Inr r)"

definition with_lf0_attrs ::
  "attributes \<Rightarrow> 'a lf0_params_scheme \<Rightarrow> error + 'a lf0_params_scheme" where
  "with_lf0_attrs a self =
     (case get_int a ''in_lf0_idx'' of Inl e \<Rightarrow> Inl e | Inr ii \<Rightarrow>
     (case get_float a ''in_lf0_min'' of Inl e \<Rightarrow> Inl e | Inr imin \<Rightarrow>
     (case get_float a ''in_lf0_max'' of Inl e \<Rightarrow> Inl e | Inr imax \<Rightarrow>
     (case get_int a ''out_lf0_idx'' of Inl e \<Rightarrow> Inl e | Inr oi \<Rightarrow>
     (case get_float a ''out_lf0_mean'' of Inl e \<Rightarrow> Inl e | Inr omean \<Rightarrow>
     (case get_float a ''out_lf0_scale'' of Inl e \<Rightarrow> Inl e | Inr oscale \<Rightarrow>
        Inr (self\<lparr>in_lf0_idx := ii, in_lf0_min := imin, in_lf0_max := imax,
                  out_lf0_idx := oi, out_lf0_mean := omean, out_lf0_scale := oscale\<rparr>)))))))"

definition ResF0VariancePredictor_module ::
  "ResF0VariancePredictor \<Rightarrow> (tensor3 \<times> tensor3) py_module" where
  "ResF0VariancePredictor_module p =
     \<lparr>attrs = lf0_attrs p,
      call = (\<lambda>a x lengths.
        case with_lf0_attrs a p of
          Inl e \<Rightarrow> Inl e
        | Inr self \<Rightarrow> ResF0VariancePredictor_forward self x lengths)\<rparr>"

section \<open>The predictors of the module, side by side\<close>

text \<open>
  The classes of the module that define \<^verbatim>\<open>inference\<close> and can be deterministic.
  \<open>deterministic\<close> is \<^verbatim>\<open>use_mdn = False\<close> for a class that has the flag; LSTMRNNSAR and
  ResF0VariancePredictor have no mixture-density layer at all. \<open>predictor_trajectory\<close> is
  what \<^verbatim>\<open>forward\<close> returns, its first component for a residual log-F0 predictor.
  Conv1dResnetSAR inherits \<^verbatim>\<open>forward\<close> from Conv1dResnet and LSTMRNNSAR from LSTMRNN.
\<close>

datatype predictor =
    P_Conv1dResnet Conv1dResnet
  | P_Conv1dResnetSAR Conv1dResnetSAR
  | P_LSTMRNNSAR LSTMRNNSAR
  | P_ResF0Conv1dResnet ResF0Conv1dResnet
  | P_ResSkipF0FFConvLSTM ResSkipF0FFConvLSTM
  | P_ResF0VariancePredictor ResF0VariancePredictor

fun deterministic :: "predictor \<Rightarrow> bool" where
  "deterministic (P_Conv1dResnet m) = (\<not> Conv1dResnet.use_mdn m)"
| "deterministic (P_Conv1dResnetSAR m) = (\<not> Conv1dResnet.use_mdn m)"
| "deterministic (P_LSTMRNNSAR m) = True"
| "deterministic (P_ResF0Conv1dResnet m) = (\<not> ResF0Conv1dResnet.use_mdn m)"
| "deterministic (P_ResSkipF0FFConvLSTM m) = (\<not> ResSkipF0FFConvLSTM.use_mdn m)"
| "deterministic (P_ResF0VariancePredictor m) = True"

fun shallow_ar :: "predictor \<Rightarrow> bool" where
  "shallow_ar (P_Conv1dResnetSAR m) = True"
| "shallow_ar (P_LSTMRNNSAR m) = True"
| "shallow_ar _ = False"

fun predictor_trajectory :: "predictor \<Rightarrow> tensor3 \<Rightarrow> lengths \<Rightarrow> error + pyout" where
  "predictor_trajectory (P_Conv1dResnet m) x lengths = Conv1dResnet_forward m x lengths"
| "predictor_trajectory (P_Conv1dResnetSAR m) x lengths = Conv1dResnet_forward m x lengths"
| "predictor_trajectory (P_LSTMRNNSAR m) x lengths =
     (case LSTMRNN_forward m x lengths of Inl e \<Rightarrow> Inl e | Inr out \<Rightarrow> Inr (Tensor out))"
| "predictor_trajectory (P_ResF0Conv1dResnet m) x lengths =
     (case ResF0Conv1dResnet_forward m x lengths of Inl e \<Rightarrow> Inl e | Inr r \<Rightarrow> Inr (fst r))"
| "predictor_trajectory (P_ResSkipF0FFConvLSTM m) x lengths =
     (case ResSkipF0FFConvLSTM_forward m x lengths of Inl e \<Rightarrow> Inl e | Inr r \<Rightarrow> Inr (fst r))"
| "predictor_trajectory (P_ResF0VariancePredictor m) x lengths =
     (case ResF0VariancePredictor_forward m x lengths of
        Inl e \<Rightarrow> Inl e | Inr r \<Rightarrow> Inr (Tensor (fst r)))"

fun predictor_inference :: "mdn_resolver \<Rightarrow> predictor \<Rightarrow> tensor3 \<Rightarrow> lengths \<Rightarrow> error + pyout" where
  "predictor_inference mp (P_Conv1dResnet m) x lengths = Conv1dResnet_inference mp m x lengths"
| "predictor_inference mp (P_Conv1dResnetSAR m) x lengths =
     (case Conv1dResnetSAR_inference m x lengths of Inl e \<Rightarrow> Inl e | Inr out \<Rightarrow> Inr (Tensor out))"
| "predictor_inference mp (P_LSTMRNNSAR m) x lengths =
     (case LSTMRNNSAR_inference m x lengths of Inl e \<Rightarrow> Inl e | Inr out \<Rightarrow> Inr (Tensor out))"
| "predictor_inference mp (P_ResF0Conv1dResnet m) x lengths =
     ResF0Conv1dResnet_inference mp m x lengths"
| "predictor_inference mp (P_ResSkipF0FFConvLSTM m) x lengths =
     ResSkipF0FFConvLSTM_inference mp m x lengths"
| "predictor_inference mp (P_ResF0VariancePredictor m) x lengths =
     (case ResF0VariancePredictor_inference m x lengths of
        Inl e \<Rightarrow> Inl e | Inr out \<Rightarrow> Inr (Tensor out))"


section \<open>Properties of the residual log-F0 prediction\<close>

lemma mapM_Inr:
  "(\<And>x. x \<in> set xs \<Longrightarrow> f x = Inr (g x)) \<Longrightarrow> mapM f xs = Inr (map g xs)"
  by (induction xs) auto

lemma index_last_ok:
  "py_index (length frame) i = Inr k \<Longrightarrow> index_last i frame = Inr (frame ! k)"
  by (simp add: index_last_def)

lemma index_last3_ok:
  assumes "has_shape3 B T C x" "py_index C i = Inr k"
  shows "index_last3 x i = Inr (map (map (\<lambda>f. f ! k)) x)"
  unfolding index_last3_def
  by (rule mapM_Inr, rule mapM_Inr, rule index_last_ok)
     (use assms in \<open>auto simp: has_shape3_def has_shape2_def\<close>)

lemma index_last4_ok:
  assumes "has_shape4 B T G C x" "py_index C i = Inr k"
  shows "index_last4 x i = Inr (map (map (map (\<lambda>f. f ! k))) x)"
  unfolding index_last4_def
  by (rule mapM_Inr, rule mapM_Inr, rule mapM_Inr, rule index_last_ok)
     (use assms in \<open>auto simp: has_shape4_def has_shape3_def has_shape2_def\<close>)

lemma broadcast2_same:
  assumes "length xs = length ys"
    and "\<And>x y. (x, y) \<in> set (zip xs ys) \<Longrightarrow> f x y = Inr (g x y)"
  shows "broadcast2 f xs ys = Inr (map2 g xs ys)"
proof -
  have "mapM (\<lambda>(x, y). f x y) (zip xs ys) = Inr (map (\<lambda>(x, y). g x y) (zip xs ys))"
    by (rule mapM_Inr) (use assms(2) in auto)
  then show ?thesis using assms(1) by (simp add: broadcast2_def)
qed

lemma broadcast2_single:
  assumes "\<And>y. y \<in> set ys \<Longrightarrow> f x y = Inr (g x y)"
  shows "broadcast2 f [x] ys = Inr (map (g x) ys)"
proof (cases "length ys = 1")
  case True
  then obtain y where ys: "ys = [y]" by (cases ys) auto
  then show ?thesis using assms by (simp add: broadcast2_def)
next
  case False
  have "mapM (f x) ys = Inr (map (g x) ys)"
    by (rule mapM_Inr) (use assms in auto)
  then show ?thesis using False by (auto simp add: broadcast2_def)
qed



lemma add3_ok:
  assumes "has_shape3 B T 1 X" "has_shape3 B T G Y"
  shows "add3 X Y = Inr (map2 (map2 (\<lambda>a b. map (\<lambda>v. hd a + v) b)) X Y)"
  unfolding add3_def
proof (rule broadcast2_same)
  show "length X = length Y" using assms by (simp add: has_shape3_def)
next
  fix xs ys assume "(xs, ys) \<in> set (zip X Y)"
  then have xs: "has_shape2 T 1 xs" and ys: "has_shape2 T G ys"
    using assms by (auto simp: has_shape3_def dest: set_zip_leftD set_zip_rightD)
  show "broadcast2 (broadcast2 (\<lambda>a b. Inr (a + b))) xs ys
      = Inr (map2 (\<lambda>a b. map (\<lambda>v. hd a + v) b) xs ys)"
  proof (rule broadcast2_same)
    show "length xs = length ys" using xs ys by (simp add: has_shape2_def)
  next
    fix a b assume "(a, b) \<in> set (zip xs ys)"
    then have "length a = 1" using xs by (auto simp: has_shape2_def dest: set_zip_leftD)
    then obtain a0 where a: "a = [a0]" by (cases a) auto
    show "broadcast2 (\<lambda>a b. Inr (a + b)) a b = Inr (map (\<lambda>v. hd a + v) b)"
      unfolding a by (simp add: broadcast2_single)
  qed
qed

lemma has_shape3_sel:
  "has_shape3 B T C x \<Longrightarrow> has_shape3 B T 1 (map (map (\<lambda>f. [g f])) x)"
  by (auto simp: has_shape3_def has_shape2_def)

lemma has_shape4_sel:
  "has_shape4 B T G C x \<Longrightarrow> has_shape3 B T G (map (map (map g)) x)"
  by (auto simp: has_shape4_def has_shape3_def has_shape2_def)


lemma predict_lf0_T3:
  assumes "has_shape3 B T Cin in_feats" "has_shape3 B T C o3"
    and "py_index Cin in_idx = Inr i"
    and "py_index C out_idx = Inr k"
  shows "predict_lf0_with_residual in_feats (T3 o3) in_idx in_min in_max
            out_idx out_mean out_scale max_cent =
          Inr (map2 (\<lambda>xs ys. map2 (\<lambda>xf yf.
                   [((xf ! i * (in_max - in_min) + in_min)
                      + max_cent * ln 2 / 1200 * tanh (yf ! k) - out_mean)
                     / out_scale]) xs ys) in_feats o3,
               map (map (\<lambda>yf. [max_cent * ln 2 / 1200 * tanh (yf ! k)])) o3)"
proof -
  note sel = index_last3_ok[OF assms(1,3)]
  note raw = index_last3_ok[OF assms(2,4)]
  let ?d = "\<lambda>v. v * (in_max - in_min) + in_min"
  let ?r = "\<lambda>v. max_cent * ln 2 / 1200 * tanh v"
  have X: "has_shape3 B T 1 (map (map (\<lambda>f. [?d (f ! i)])) in_feats)"
    by (rule has_shape3_sel[OF assms(1)])
  have Y: "has_shape3 B T 1 (map (map (\<lambda>f. [?r (f ! k)])) o3)"
    by (rule has_shape3_sel[OF assms(2)])
  show ?thesis
    using add3_ok[OF X Y]
    by (simp add: predict_lf0_with_residual_def sel raw unsqueeze_last_def map3_def
        o_def zip_map1 zip_map2 split_def)
qed

lemma predict_lf0_T4:
  assumes "has_shape3 B T Cin in_feats" "has_shape4 B T G C o4"
    and "py_index Cin in_idx = Inr i"
    and "py_index C out_idx = Inr k"
  shows "predict_lf0_with_residual in_feats (T4 o4) in_idx in_min in_max
            out_idx out_mean out_scale max_cent =
          Inr (map2 (\<lambda>xs ys. map2 (\<lambda>xf comps. map (\<lambda>c.
                   ((xf ! i * (in_max - in_min) + in_min)
                      + max_cent * ln 2 / 1200 * tanh (c ! k) - out_mean)
                     / out_scale) comps) xs ys) in_feats o4,
               map (map (map (\<lambda>c. max_cent * ln 2 / 1200 * tanh (c ! k)))) o4)"
proof -
  note sel = index_last3_ok[OF assms(1,3)]
  note raw = index_last4_ok[OF assms(2,4)]
  let ?d = "\<lambda>v. v * (in_max - in_min) + in_min"
  let ?r = "\<lambda>v. max_cent * ln 2 / 1200 * tanh v"
  have X: "has_shape3 B T 1 (map (map (\<lambda>f. [?d (f ! i)])) in_feats)"
    by (rule has_shape3_sel[OF assms(1)])
  have Y: "has_shape3 B T G (map (map (map (\<lambda>f. ?r (f ! k)))) o4)"
    by (rule has_shape4_sel[OF assms(2)])
  show ?thesis
    using add3_ok[OF X Y]
    by (simp add: predict_lf0_with_residual_def sel raw unsqueeze_last_def map3_def
        o_def zip_map1 zip_map2 split_def)
qed

text \<open>
  Claim C1. On a well-shaped input batch and raw output, with valid column indices,
  \<^verbatim>\<open>predict_lf0_with_residual\<close> returns, at every batch element and frame, the corrected
  pitch \<open>((input[in_lf0_idx] * (in_lf0_max - in_lf0_min) + in_lf0_min) + max_ratio *
  tanh(raw[out_lf0_idx]) - out_lf0_mean) / out_lf0_scale\<close> with \<open>max_ratio =
  residual_f0_max_cent * ln 2 / 1200\<close>: the de-normalization is linear and the residual is
  added to the de-normalized value. For a 4-axis raw output the same transform is applied
  to every mixture component. \<open>i\<close> and \<open>k\<close> are the columns the two Python indices address.
\<close>

theorem predict_lf0_with_residual_formula:
  assumes "has_shape3 B T Cin in_feats"
    and "py_index Cin in_idx = Inr i"
    and "py_index C out_idx = Inr k"
    and "out_scale \<noteq> 0"
  shows
    "(has_shape3 B T C o3 \<longrightarrow>
        predict_lf0_with_residual in_feats (T3 o3) in_idx in_min in_max
            out_idx out_mean out_scale max_cent =
          Inr (map2 (\<lambda>xs ys. map2 (\<lambda>xf yf.
                   [((xf ! i * (in_max - in_min) + in_min)
                      + max_cent * ln 2 / 1200 * tanh (yf ! k) - out_mean)
                     / out_scale]) xs ys) in_feats o3,
               map (map (\<lambda>yf. [max_cent * ln 2 / 1200 * tanh (yf ! k)])) o3))
   \<and> (has_shape4 B T G C o4 \<longrightarrow>
        predict_lf0_with_residual in_feats (T4 o4) in_idx in_min in_max
            out_idx out_mean out_scale max_cent =
          Inr (map2 (\<lambda>xs ys. map2 (\<lambda>xf comps. map (\<lambda>c.
                   ((xf ! i * (in_max - in_min) + in_min)
                      + max_cent * ln 2 / 1200 * tanh (c ! k) - out_mean)
                     / out_scale) comps) xs ys) in_feats o4,
               map (map (map (\<lambda>c. max_cent * ln 2 / 1200 * tanh (c ! k)))) o4))"
  using assms(1-3) by (simp add: predict_lf0_T3 predict_lf0_T4)

theorem predict_lf0_with_residual_formula_witness:
  "predict_lf0_with_residual [[[7, 1/2], [7, 1]]] (T3 [[[0, 9], [3, 9]]]) 1 5 6 (-2) 2 4 600 =
     Inr ([[[((1/2 * (6 - 5) + 5) + 600 * ln 2 / 1200 * tanh 0 - 2) / 4],
            [((1 * (6 - 5) + 5) + 600 * ln 2 / 1200 * tanh 3 - 2) / 4]]],
          [[[600 * ln 2 / 1200 * tanh 0], [600 * ln 2 / 1200 * tanh 3]]])
   \<and> predict_lf0_with_residual [[[7, 1/2], [7, 1]]] (T4 [[[[0, 9], [1, 9]], [[3, 9], [2, 9]]]])
        1 5 6 (-2) 2 4 600 =
     Inr ([[[((1/2 * (6 - 5) + 5) + 600 * ln 2 / 1200 * tanh 0 - 2) / 4,
             ((1/2 * (6 - 5) + 5) + 600 * ln 2 / 1200 * tanh 1 - 2) / 4],
            [((1 * (6 - 5) + 5) + 600 * ln 2 / 1200 * tanh 3 - 2) / 4,
             ((1 * (6 - 5) + 5) + 600 * ln 2 / 1200 * tanh 2 - 2) / 4]]],
          [[[600 * ln 2 / 1200 * tanh 0, 600 * ln 2 / 1200 * tanh 1],
            [600 * ln 2 / 1200 * tanh 3, 600 * ln 2 / 1200 * tanh 2]]])"
  using predict_lf0_with_residual_formula[of 1 2 2 "[[[7, 1/2], [7, 1]]]" 1 1 2 "-2" 0 4
      "[[[0, 9], [3, 9]]]" 5 6 2 600 2 "[[[[0, 9], [1, 9]], [[3, 9], [2, 9]]]]"]
  by (simp add: has_shape4_def has_shape3_def has_shape2_def py_index_def)

lemma abs_scaled_tanh_le: "\<bar>600 * ln 2 / 1200 * tanh (v::real)\<bar> \<le> 600 * ln 2 / 1200"
proof -
  have "\<bar>tanh v\<bar> \<le> 1"
    using tanh_real_lt_1[of v] tanh_real_gt_neg1[of v] by (simp add: abs_le_iff)
  moreover have "(0::real) \<le> 600 * ln 2 / 1200" by simp
  ultimately have "\<bar>tanh v\<bar> * (600 * ln 2 / 1200) \<le> 1 * (600 * ln 2 / 1200)"
    by (rule mult_right_mono)
  then show ?thesis by (simp add: abs_mult mult.commute)
qed

lemma predict_residual_bounded:
  assumes "predict_lf0_with_residual in_feats out_feats in_idx in_min in_max
             out_idx out_mean out_scale 600 = Inr (pred, resid)"
  shows "\<forall>s \<in> set resid. \<forall>f \<in> set s. \<forall>r \<in> set f. \<bar>r\<bar> \<le> 600 * ln 2 / 1200"
proof -
  from assms obtain raw where "resid = map3 (\<lambda>v. 600 * ln 2 / 1200 * tanh v) raw"
    by (auto simp: predict_lf0_with_residual_def Let_def split: sum.splits)
  then show ?thesis
    using abs_scaled_tanh_le by (auto simp: map3_def)
qed

lemma predict_single_frame:
  assumes "py_index (length xf) in_idx = Inr i" "py_index (length yf) out_idx = Inr k"
  shows "predict_lf0_with_residual [[xf]] (T3 [[yf[k := v]]]) in_idx in_min in_max
            out_idx out_mean out_scale max_cent
         = Inr ([[[((xf ! i * (in_max - in_min) + in_min)
                      + max_cent * ln 2 / 1200 * tanh v - out_mean) / out_scale]]],
                [[[max_cent * ln 2 / 1200 * tanh v]]])"
proof -
  have k: "k < length yf"
    using assms(2) by (auto simp: py_index_def split: if_splits)
  have "has_shape3 1 1 (length xf) [[xf]]" "has_shape3 1 1 (length yf) [[yf[k := v]]]"
    by (simp_all add: has_shape3_def has_shape2_def)
  from predict_lf0_T3[OF this assms] show ?thesis using k by simp
qed


lemma predict_T3_zero_residual:
  assumes sh: "has_shape3 B T Cin in_feats" "has_shape3 B T C o3"
    and idx: "py_index Cin in_idx = Inr i" "py_index C out_idx = Inr k"
    and res: "predict_lf0_with_residual in_feats (T3 o3) in_idx in_min in_max
               out_idx out_mean out_scale max_cent = Inr (pred, resid)"
    and bt: "b < B" "t < T" and zero: "o3 ! b ! t ! k = 0"
  shows "resid ! b ! t = [0]
       \<and> pred ! b ! t = [((in_feats ! b ! t ! i * (in_max - in_min) + in_min) - out_mean) / out_scale]"
proof -
  have lb: "length in_feats = B" "length o3 = B"
    using sh by (simp_all add: has_shape3_def)
  have lt: "length (in_feats ! b) = T" "length (o3 ! b) = T"
    using sh bt lb by (auto simp: has_shape3_def has_shape2_def)
  from res predict_lf0_T3[OF sh idx, of in_min in_max out_mean out_scale max_cent]
  have pred: "pred = map2 (\<lambda>xs ys. map2 (\<lambda>xf yf.
                   [((xf ! i * (in_max - in_min) + in_min)
                      + max_cent * ln 2 / 1200 * tanh (yf ! k) - out_mean)
                     / out_scale]) xs ys) in_feats o3"
    and resid: "resid = map (map (\<lambda>yf. [max_cent * ln 2 / 1200 * tanh (yf ! k)])) o3"
    by simp_all
  show ?thesis
    using bt lb lt zero by (simp add: pred resid)
qed

text \<open>
  Claim C2. With \<^verbatim>\<open>residual_f0_max_cent = 600\<close>: where the raw residual is 0 the bounded
  residual is 0 and the corrected pitch is the linearly de-normalized score pitch,
  renormalized by \<open>out_mean\<close> and \<open>out_scale\<close>; whatever the raw output, every entry of
  the bounded residual has magnitude at most \<open>600 * ln 2 / 1200\<close>; and as the raw
  residual of a frame tends to plus or minus infinity, the bounded residual tends to plus
  or minus that limit.
\<close>

theorem bounded_residual_600:
  assumes "has_shape3 B T Cin in_feats" "has_shape3 B T C o3"
    and "py_index Cin in_idx = Inr i" "py_index C out_idx = Inr k"
    and "length xf = Cin" "length yf = C"
    and "out_scale \<noteq> 0"
  shows
    "(\<exists>pred resid.
        predict_lf0_with_residual in_feats (T3 o3) in_idx in_min in_max
          out_idx out_mean out_scale 600 = Inr (pred, resid)
      \<and> (\<forall>b t. b < B \<and> t < T \<and> o3 ! b ! t ! k = 0 \<longrightarrow>
             resid ! b ! t = [0]
           \<and> pred ! b ! t =
               [((in_feats ! b ! t ! i * (in_max - in_min) + in_min) - out_mean) / out_scale]))
   \<and> (\<forall>out_feats pred resid.
        predict_lf0_with_residual in_feats out_feats in_idx in_min in_max
          out_idx out_mean out_scale 600 = Inr (pred, resid) \<longrightarrow>
        (\<forall>s \<in> set resid. \<forall>f \<in> set s. \<forall>r \<in> set f. \<bar>r\<bar> \<le> 600 * ln 2 / 1200))
   \<and> ((\<lambda>v. case predict_lf0_with_residual [[xf]] (T3 [[yf[k := v]]]) in_idx in_min in_max
                  out_idx out_mean out_scale 600 of
              Inl e \<Rightarrow> 0 | Inr (pred, resid) \<Rightarrow> resid ! 0 ! 0 ! 0)
         \<longlongrightarrow> 600 * ln 2 / 1200) at_top
   \<and> ((\<lambda>v. case predict_lf0_with_residual [[xf]] (T3 [[yf[k := v]]]) in_idx in_min in_max
                  out_idx out_mean out_scale 600 of
              Inl e \<Rightarrow> 0 | Inr (pred, resid) \<Rightarrow> resid ! 0 ! 0 ! 0)
         \<longlongrightarrow> - (600 * ln 2 / 1200)) at_bot"
proof (intro conjI)
  show "\<exists>pred resid.
        predict_lf0_with_residual in_feats (T3 o3) in_idx in_min in_max
          out_idx out_mean out_scale 600 = Inr (pred, resid)
      \<and> (\<forall>b t. b < B \<and> t < T \<and> o3 ! b ! t ! k = 0 \<longrightarrow>
             resid ! b ! t = [0]
           \<and> pred ! b ! t =
               [((in_feats ! b ! t ! i * (in_max - in_min) + in_min) - out_mean) / out_scale])"
    using predict_lf0_T3[OF assms(1-4), of in_min in_max out_mean out_scale 600]
      predict_T3_zero_residual[OF assms(1-4)]
    by blast
next
  show "\<forall>out_feats pred resid.
        predict_lf0_with_residual in_feats out_feats in_idx in_min in_max
          out_idx out_mean out_scale 600 = Inr (pred, resid) \<longrightarrow>
        (\<forall>s \<in> set resid. \<forall>f \<in> set s. \<forall>r \<in> set f. \<bar>r\<bar> \<le> 600 * ln 2 / 1200)"
    using predict_residual_bounded by blast
next
  have eq: "(\<lambda>v. case predict_lf0_with_residual [[xf]] (T3 [[yf[k := v]]]) in_idx in_min in_max
                  out_idx out_mean out_scale 600 of
              Inl e \<Rightarrow> 0 | Inr (pred, resid) \<Rightarrow> resid ! 0 ! 0 ! 0)
        = (\<lambda>v. 600 * ln 2 / 1200 * tanh v)"
    using assms(3-6) by (simp add: predict_single_frame)
  have "((\<lambda>v::real. 600 * ln 2 / 1200 * tanh v) \<longlongrightarrow> 600 * ln 2 / 1200 * 1) at_top"
    by (intro tendsto_mult tendsto_const tanh_real_at_top)
  then show "((\<lambda>v. case predict_lf0_with_residual [[xf]] (T3 [[yf[k := v]]]) in_idx in_min in_max
                  out_idx out_mean out_scale 600 of
              Inl e \<Rightarrow> 0 | Inr (pred, resid) \<Rightarrow> resid ! 0 ! 0 ! 0)
         \<longlongrightarrow> 600 * ln 2 / 1200) at_top"
    by (simp add: eq)
  have "((\<lambda>v::real. 600 * ln 2 / 1200 * tanh v) \<longlongrightarrow> 600 * ln 2 / 1200 * (- 1)) at_bot"
    by (intro tendsto_mult tendsto_const tanh_real_at_bot)
  then show "((\<lambda>v. case predict_lf0_with_residual [[xf]] (T3 [[yf[k := v]]]) in_idx in_min in_max
                  out_idx out_mean out_scale 600 of
              Inl e \<Rightarrow> 0 | Inr (pred, resid) \<Rightarrow> resid ! 0 ! 0 ! 0)
         \<longlongrightarrow> - (600 * ln 2 / 1200)) at_bot"
    by (simp add: eq)
qed

theorem bounded_residual_600_witness:
  "(\<exists>pred resid.
       predict_lf0_with_residual [[[7, 1/2]]] (T3 [[[0, 9]]]) 1 5 6 (-2) 2 4 600 = Inr (pred, resid)
     \<and> resid ! 0 ! 0 = [0] \<and> pred ! 0 ! 0 = [((1/2 * (6 - 5) + 5) - 2) / 4])
   \<and> \<bar>600 * ln 2 / 1200 * tanh 3\<bar> \<le> 600 * ln 2 / (1200::real)
   \<and> ((\<lambda>v. case predict_lf0_with_residual [[[7, 1/2]]] (T3 [[[0, 9][0 := v]]]) 1 5 6 (-2) 2 4 600 of
              Inl e \<Rightarrow> 0 | Inr (pred, resid) \<Rightarrow> resid ! 0 ! 0 ! 0)
         \<longlongrightarrow> 600 * ln 2 / 1200) at_top"
proof -
  have sh: "has_shape3 1 1 2 [[[7, 1/2 :: real]]]" "has_shape3 1 1 2 [[[0, 9 :: real]]]"
    by (simp_all add: has_shape3_def has_shape2_def)
  have idx: "py_index 2 1 = Inr 1" "py_index 2 (-2) = Inr 0"
    by (simp_all add: py_index_def)
  have len: "length [7, 1/2 :: real] = 2" "length [0, 9 :: real] = 2" by simp_all
  have sc: "(4::real) \<noteq> 0" by simp
  note th = bounded_residual_600[OF sh idx len sc, of 5 6 2]
  from th obtain pred resid where
    r: "predict_lf0_with_residual [[[7, 1/2]]] (T3 [[[0, 9]]]) 1 5 6 (-2) 2 4 600 = Inr (pred, resid)"
    and z: "\<forall>b t. b < 1 \<and> t < 1 \<and> [[[0, 9 :: real]]] ! b ! t ! 0 = 0 \<longrightarrow>
             resid ! b ! t = [0]
           \<and> pred ! b ! t = [(([[[7, 1/2]]] ! b ! t ! 1 * (6 - 5) + 5) - 2) / 4]"
    by blast
  from z have z0: "resid ! 0 ! 0 = [0] \<and> pred ! 0 ! 0 = [((1/2 * (6 - 5) + 5) - 2) / 4]"
    by simp
  have sh3: "has_shape3 1 1 2 [[[3, 9 :: real]]]"
    by (simp add: has_shape3_def has_shape2_def)
  have "predict_lf0_with_residual [[[7, 1/2]]] (T3 [[[3, 9]]]) 1 5 6 (-2) 2 4 600
          = Inr ([[[((1/2 * (6 - 5) + 5) + 600 * ln 2 / 1200 * tanh 3 - 2) / 4]]],
                 [[[600 * ln 2 / 1200 * tanh 3]]])"
    using predict_lf0_T3[OF sh(1) sh3 idx, of 5 6 2 4 600] by simp
  with th have bnd: "\<bar>600 * ln 2 / 1200 * tanh 3\<bar> \<le> 600 * ln 2 / (1200::real)"
    by fastforce
  from th have lim: "((\<lambda>v. case predict_lf0_with_residual [[[7, 1/2]]] (T3 [[[0, 9][0 := v]]]) 1 5 6 (-2) 2 4 600 of
              Inl e \<Rightarrow> 0 | Inr (pred, resid) \<Rightarrow> resid ! 0 ! 0 ! 0)
         \<longlongrightarrow> 600 * ln 2 / 1200) at_top"
    by blast
  show ?thesis using r z0 bnd lim by blast
qed

lemma py_index_less: "py_index n i = Inr k \<Longrightarrow> k < n"
  by (auto simp: py_index_def split: if_splits)

lemma put_last_ok: "py_index (length frame) i = Inr k \<Longrightarrow> put_last i frame v = frame[k := v]"
  by (simp add: put_last_def)

lemma expand_to_same: "length v = n \<Longrightarrow> expand_to n v = Inr v"
  by (simp add: expand_to_def)

lemma expand2_same:
  assumes "length v = n" "\<And>r. r \<in> set v \<Longrightarrow> length r = m"
  shows "expand2 n m v = Inr v"
proof -
  have "mapM (expand_to m) v = Inr (map (\<lambda>r. r) v)"
    by (rule mapM_Inr) (simp add: assms(2) expand_to_same)
  then show ?thesis by (simp add: expand2_def expand_to_same assms(1))
qed

lemma expand3_same:
  assumes "length v = n" "\<And>s. s \<in> set v \<Longrightarrow> length s = m"
    "\<And>s r. s \<in> set v \<Longrightarrow> r \<in> set s \<Longrightarrow> length r = g"
  shows "expand3 n m g v = Inr v"
proof -
  have "mapM (expand2 m g) v = Inr (map (\<lambda>r. r) v)"
    by (rule mapM_Inr) (simp add: assms(2,3) expand2_same)
  then show ?thesis by (simp add: expand3_def expand_to_same assms(1))
qed

lemma dim1_shape: "has_shape3 B T C x \<Longrightarrow> 0 < B \<Longrightarrow> dim1 x = T"
  by (cases x) (auto simp: has_shape3_def has_shape2_def dim1_def)

lemma dim1_shape4: "has_shape4 B T G C x \<Longrightarrow> 0 < B \<Longrightarrow> dim1 x = T"
  by (cases x) (auto simp: has_shape4_def has_shape3_def dim1_def)

lemma dim2_shape4: "has_shape4 B T G C x \<Longrightarrow> 0 < B \<Longrightarrow> 0 < T \<Longrightarrow> dim2 x = G"
  by (cases x; cases "hd x")
     (auto simp: has_shape4_def has_shape3_def has_shape2_def dim1_def dim2_def)

lemma setitem_last3_ok:
  assumes mu: "has_shape3 B T C mu" and v: "has_shape2 B T v2" and idx: "py_index C idx = Inr k"
  shows "setitem_last3 mu idx (T2 v2) = Inr (map2 (map2 (\<lambda>frame x. frame[k := x])) mu v2)"
proof -
  have e: "expand2 (length mu) (dim1 mu) v2 = Inr v2"
  proof (rule expand2_same)
    show "length v2 = length mu" using mu v by (simp add: has_shape3_def has_shape2_def)
  next
    fix r assume r: "r \<in> set v2"
    then have "0 < B" using v by (cases v2) (auto simp: has_shape2_def)
    then show "length r = dim1 mu" using dim1_shape[OF mu] v r by (simp add: has_shape2_def)
  qed
  have p: "map2 (map2 (put_last idx)) mu v2 = map2 (map2 (\<lambda>frame x. frame[k := x])) mu v2"
  proof -
    have "\<And>s r f x. (s, r) \<in> set (zip mu v2) \<Longrightarrow> (f, x) \<in> set (zip s r)
            \<Longrightarrow> put_last idx f x = f[k := x]"
      using mu idx
      by (auto simp: has_shape3_def has_shape2_def put_last_ok dest!: set_zip_leftD)
    then show ?thesis by (auto intro!: map_cong simp: split_def)
  qed
  show ?thesis
    by (simp add: setitem_last3_def index_last3_ok[OF mu idx] e p)
qed


lemma has_shape2_map2:
  assumes "has_shape2 T C1 xs" "has_shape2 T C2 ys"
    and "\<And>a b. a \<in> set xs \<Longrightarrow> b \<in> set ys \<Longrightarrow> length (f a b) = G"
  shows "has_shape2 T G (map2 f xs ys)"
  using assms
  by (auto simp: has_shape2_def dest: set_zip_leftD set_zip_rightD)

lemma has_shape3_map2:
  assumes "has_shape3 B T C1 x" "has_shape3 B T C2 y"
    and "\<And>a b. length (f a b) = G"
  shows "has_shape3 B T G (map2 (map2 f) x y)"
proof -
  have "has_shape2 T G (map2 f xs ys)" if "(xs, ys) \<in> set (zip x y)" for xs ys
  proof (rule has_shape2_map2)
    show "has_shape2 T C1 xs" using that assms(1) by (auto simp: has_shape3_def dest: set_zip_leftD)
    show "has_shape2 T C2 ys" using that assms(2) by (auto simp: has_shape3_def dest: set_zip_rightD)
  qed (rule assms(3))
  then show ?thesis
    using assms(1,2) by (auto simp: has_shape3_def)
qed

lemma has_shape3_map2_4:
  assumes "has_shape3 B T C1 x" "has_shape4 B T G C2 y"
  shows "has_shape3 B T G (map2 (map2 (\<lambda>a comps. map (f a) comps)) x y)"
proof -
  have "has_shape2 T G (map2 (\<lambda>a comps. map (f a) comps) xs ys)"
    if "(xs, ys) \<in> set (zip x y)" for xs ys
  proof (rule has_shape2_map2)
    show "has_shape2 T C1 xs" using that assms(1) by (auto simp: has_shape3_def dest: set_zip_leftD)
    have "has_shape3 T G C2 ys"
      using that assms(2) by (auto simp: has_shape4_def dest: set_zip_rightD)
    then show "has_shape2 T G ys" "\<And>a b. a \<in> set xs \<Longrightarrow> b \<in> set ys \<Longrightarrow> length (map (f a) b) = G"
      by (auto simp: has_shape3_def has_shape2_def)
  qed
  then show ?thesis
    using assms(1,2) by (auto simp: has_shape3_def has_shape4_def)
qed

lemma squeeze_last_1:
  "has_shape3 B T 1 x \<Longrightarrow> squeeze_last x = T2 (map (map hd) x)"
  by (auto simp: squeeze_last_def has_shape3_def has_shape2_def)

lemma squeeze_last_not1:
  assumes "has_shape3 B T G x" "0 < B" "0 < T" "G \<noteq> 1"
  shows "squeeze_last x = T3 x"
proof -
  from assms obtain s where s: "s \<in> set x" by (cases x) (auto simp: has_shape3_def)
  with assms obtain f where "f \<in> set s" by (cases s) (auto simp: has_shape3_def has_shape2_def)
  with s assms have "\<exists>s \<in> set x. \<exists>f \<in> set s. length f \<noteq> 1"
    by (auto simp: has_shape3_def has_shape2_def)
  then show ?thesis by (auto simp: squeeze_last_def)
qed

lemma has_shape2_hd: "has_shape3 B T G x \<Longrightarrow> has_shape2 B T (map (map hd) x)"
  by (auto simp: has_shape3_def has_shape2_def)

lemma inject_lf0_ok:
  assumes x: "has_shape3 B T Cin x" and mu: "has_shape3 B T C mu"
    and ii: "py_index Cin (in_lf0_idx p) = Inr i" and oi: "py_index C (out_lf0_idx p) = Inr k"
  shows "\<exists>pred resid.
           predict_lf0_with_residual x (T3 mu) (in_lf0_idx p) (in_lf0_min p) (in_lf0_max p)
             (out_lf0_idx p) (out_lf0_mean p) (out_lf0_scale p) 600 = Inr (pred, resid)
         \<and> has_shape3 B T 1 pred
         \<and> inject_lf0 p x mu = Inr (map2 (map2 (\<lambda>f pv. f[k := hd pv])) mu pred, resid)"
proof -
  define pred where "pred = map2 (map2 (\<lambda>xf yf.
                   [((xf ! i * (in_lf0_max p - in_lf0_min p) + in_lf0_min p)
                      + 600 * ln 2 / 1200 * tanh (yf ! k) - out_lf0_mean p)
                     / out_lf0_scale p])) x mu"
  define resid where "resid = map (map (\<lambda>yf. [600 * ln 2 / 1200 * tanh (yf ! k)])) mu"
  have r: "predict_lf0_with_residual x (T3 mu) (in_lf0_idx p) (in_lf0_min p) (in_lf0_max p)
             (out_lf0_idx p) (out_lf0_mean p) (out_lf0_scale p) 600 = Inr (pred, resid)"
    using predict_lf0_T3[OF x mu ii oi] by (simp add: pred_def resid_def)
  have sh: "has_shape3 B T 1 pred"
    unfolding pred_def by (rule has_shape3_map2[OF x mu]) simp
  have "inject_lf0 p x mu = Inr (map2 (map2 (\<lambda>f pv. f[k := hd pv])) mu pred, resid)"
    by (simp add: inject_lf0_def r squeeze_last_1[OF sh]
        setitem_last3_ok[OF mu has_shape2_hd[OF sh] oi] zip_map2 split_def o_def)
  with r sh show ?thesis by blast
qed


lemma mapM_Inr_D: "mapM f xs = Inr ys \<Longrightarrow> x \<in> set xs \<Longrightarrow> \<exists>y. f x = Inr y"
  by (induction xs arbitrary: ys) (auto split: sum.splits)

lemma put_last4_ok:
  assumes mu: "has_shape4 B T G C mu" and idx: "py_index C idx = Inr k"
  shows "map2 (map2 (map2 (put_last idx))) mu w = map2 (map2 (map2 (\<lambda>c v. c[k := v]))) mu w"
proof -
  have "\<And>s r cs vs f x. (s, r) \<in> set (zip mu w) \<Longrightarrow> (cs, vs) \<in> set (zip s r)
          \<Longrightarrow> (f, x) \<in> set (zip cs vs) \<Longrightarrow> put_last idx f x = f[k := x]"
    using mu idx
    by (auto simp: has_shape4_def has_shape3_def has_shape2_def put_last_ok dest!: set_zip_leftD)
  then show ?thesis by (auto intro!: map_cong simp: split_def)
qed

lemma setitem_last4_ok:
  assumes mu: "has_shape4 B T G C mu" and v: "has_shape3 B T G v3" and idx: "py_index C idx = Inr k"
    and pos: "0 < B" "0 < T"
  shows "setitem_last4 mu idx (T3 v3) = Inr (map2 (map2 (map2 (\<lambda>c v. c[k := v]))) mu v3)"
proof -
  have e: "expand3 (length mu) (dim1 mu) (dim2 mu) v3 = Inr v3"
    using mu v pos
    by (intro expand3_same)
       (auto simp: dim1_shape4[OF mu] dim2_shape4[OF mu] has_shape4_def has_shape3_def has_shape2_def)
  show ?thesis
    by (simp add: setitem_last4_def index_last4_ok[OF mu idx] e put_last4_ok[OF mu idx])
qed

lemma setitem_last4_squeezed:
  assumes mu: "has_shape4 B T 1 C mu" and v: "has_shape3 B T 1 pred" and idx: "py_index C idx = Inr k"
    and pos: "0 < B" "0 < T"
    and ok: "setitem_last4 mu idx (T2 (map (map hd) pred)) = Inr mu'"
  shows "mu' = map2 (map2 (map2 (\<lambda>c v. c[k := v]))) mu pred"
proof -
  let ?v2 = "map (map hd) pred"
  have d: "dim1 mu = T" "dim2 mu = 1" "length mu = B"
    using dim1_shape4[OF mu] dim2_shape4[OF mu] pos mu by (simp_all add: has_shape4_def)
  from ok obtain w where e: "expand2 T 1 ?v2 = Inr w"
    and mu': "mu' = map2 (map2 (map2 (put_last idx))) mu (replicate B w)"
    by (auto simp: setitem_last4_def index_last4_ok[OF mu idx] d split: sum.splits)
  from e obtain w0 where m: "mapM (expand_to 1) ?v2 = Inr w0" and w: "expand_to T w0 = Inr w"
    by (auto simp: expand2_def split: sum.splits)
  from v pos obtain s where s: "s \<in> set pred" "length s = T"
    by (cases pred) (auto simp: has_shape3_def has_shape2_def)
  then have "map hd s \<in> set ?v2" by auto
  from mapM_Inr_D[OF m this] s(2) have T1: "T = 1"
    by (auto simp: expand_to_def split: if_splits)
  have rows: "\<And>r. r \<in> set ?v2 \<Longrightarrow> length r = 1"
    using v T1 by (auto simp: has_shape3_def has_shape2_def)
  have "mapM (expand_to 1) ?v2 = Inr (map (\<lambda>r. r) ?v2)"
    by (rule mapM_Inr) (simp add: rows expand_to_same)
  with m have w0: "w0 = ?v2" by simp
  have lv: "length ?v2 = B" using v by (simp add: has_shape3_def)
  from w have B1: "B = 1" and ww: "w = ?v2"
    using lv T1 by (auto simp: w0 expand_to_def split: if_splits)
  from v B1 T1 obtain a where pred: "pred = [[[a]]]"
    by (cases pred; cases "hd pred"; cases "hd (hd pred)")
       (auto simp: has_shape3_def has_shape2_def)
  show ?thesis
    by (simp add: mu' ww B1 pred put_last4_ok[OF mu idx])
qed

lemma inject_lf0_mdn_ok:
  assumes x: "has_shape3 B T Cin x" and mu: "has_shape4 B T G C mu"
    and ii: "py_index Cin (in_lf0_idx p) = Inr i" and oi: "py_index C (out_lf0_idx p) = Inr k"
    and pos: "0 < B" "0 < T"
  shows "\<exists>pred resid.
           predict_lf0_with_residual x (T4 mu) (in_lf0_idx p) (in_lf0_min p) (in_lf0_max p)
             (out_lf0_idx p) (out_lf0_mean p) (out_lf0_scale p) 600 = Inr (pred, resid)
         \<and> has_shape3 B T G pred
         \<and> (G \<noteq> 1 \<longrightarrow>
              inject_lf0_mdn p x mu = Inr (map2 (map2 (map2 (\<lambda>c v. c[k := v]))) mu pred, resid))
         \<and> (\<forall>mu' r. inject_lf0_mdn p x mu = Inr (mu', r) \<longrightarrow>
              mu' = map2 (map2 (map2 (\<lambda>c v. c[k := v]))) mu pred \<and> r = resid)"
proof -
  define pred where "pred = map2 (map2 (\<lambda>xf comps. map (\<lambda>c.
                   ((xf ! i * (in_lf0_max p - in_lf0_min p) + in_lf0_min p)
                      + 600 * ln 2 / 1200 * tanh (c ! k) - out_lf0_mean p)
                     / out_lf0_scale p) comps)) x mu"
  define resid where "resid = map (map (map (\<lambda>c. 600 * ln 2 / 1200 * tanh (c ! k)))) mu"
  have r: "predict_lf0_with_residual x (T4 mu) (in_lf0_idx p) (in_lf0_min p) (in_lf0_max p)
             (out_lf0_idx p) (out_lf0_mean p) (out_lf0_scale p) 600 = Inr (pred, resid)"
    using predict_lf0_T4[OF x mu ii oi] by (simp add: pred_def resid_def)
  have sh: "has_shape3 B T G pred"
    unfolding pred_def by (rule has_shape3_map2_4[OF x mu])
  have a: "inject_lf0_mdn p x mu = Inr (map2 (map2 (map2 (\<lambda>c v. c[k := v]))) mu pred, resid)"
    if "G \<noteq> 1"
    by (simp add: inject_lf0_mdn_def r squeeze_last_not1[OF sh pos that]
        setitem_last4_ok[OF mu sh oi pos])
  have b: "mu' = map2 (map2 (map2 (\<lambda>c v. c[k := v]))) mu pred \<and> r' = resid"
    if h: "inject_lf0_mdn p x mu = Inr (mu', r')" for mu' r'
  proof (cases "G = 1")
    case False
    with a h show ?thesis by simp
  next
    case True
    from h have "setitem_last4 mu (out_lf0_idx p) (T2 (map (map hd) pred)) = Inr mu'" and "r' = resid"
      using sh by (auto simp: True inject_lf0_mdn_def r squeeze_last_1 split: sum.splits)
    with setitem_last4_squeezed[OF _ _ oi pos, of mu pred mu'] mu sh True
    show ?thesis by simp
  qed
  from r sh a b show ?thesis by blast
qed

lemma has_shape2_upd:
  assumes "has_shape2 T C s" "has_shape2 T G r"
  shows "has_shape2 T C (map2 (\<lambda>f pv. f[k := g pv]) s r)"
  by (rule has_shape2_map2[OF assms]) (use assms(1) in \<open>auto simp: has_shape2_def\<close>)

lemma has_shape3_upd:
  assumes "has_shape3 B T C raw" "has_shape3 B T G pred"
  shows "has_shape3 B T C (map2 (map2 (\<lambda>f pv. f[k := g pv])) raw pred)"
proof -
  have "has_shape2 T C (map2 (\<lambda>f pv. f[k := g pv]) s r)" if "(s, r) \<in> set (zip raw pred)" for s r
    using that assms
    by (intro has_shape2_upd) (auto simp: has_shape3_def dest: set_zip_leftD set_zip_rightD)
  then show ?thesis using assms by (auto simp: has_shape3_def)
qed

lemma has_shape4_upd:
  assumes "has_shape4 B T G C mu" "has_shape3 B T G pred"
  shows "has_shape4 B T G C (map2 (map2 (map2 (\<lambda>c v. c[k := v]))) mu pred)"
proof -
  have "has_shape3 T G C (map2 (map2 (\<lambda>c v. c[k := v])) s r)" if "(s, r) \<in> set (zip mu pred)" for s r
  proof -
    have s: "has_shape3 T G C s" and r: "has_shape2 T G r"
      using that assms by (auto simp: has_shape4_def has_shape3_def dest: set_zip_leftD set_zip_rightD)
    have "has_shape2 G C (map2 (\<lambda>c v. c[k := v]) cs vs)" if "(cs, vs) \<in> set (zip s r)" for cs vs
    proof -
      have "has_shape2 G C cs" "length vs = G"
        using that s r by (auto simp: has_shape3_def has_shape2_def dest: set_zip_leftD set_zip_rightD)
      then show ?thesis
        by (auto simp: has_shape2_def dest: set_zip_leftD)
    qed
    moreover have "length s = length r" "length s = T"
      using s r by (simp_all add: has_shape3_def has_shape2_def)
    ultimately show ?thesis by (auto simp: has_shape3_def)
  qed
  moreover have "length mu = length pred" "length mu = B"
    using assms by (simp_all add: has_shape4_def has_shape3_def)
  ultimately show ?thesis by (auto simp: has_shape4_def)
qed


lemma inject_lf0_frame:
  assumes "has_shape3 B T Cin x" "has_shape3 B T C raw"
    and "py_index Cin (in_lf0_idx p) = Inr i" "py_index C (out_lf0_idx p) = Inr k"
  shows "\<exists>pred resid.
           predict_lf0_with_residual x (T3 raw) (in_lf0_idx p) (in_lf0_min p) (in_lf0_max p)
             (out_lf0_idx p) (out_lf0_mean p) (out_lf0_scale p) 600 = Inr (pred, resid)
         \<and> inject_lf0 p x raw = Inr (map2 (map2 (\<lambda>f pv. f[k := hd pv])) raw pred, resid)
         \<and> has_shape3 B T C (map2 (map2 (\<lambda>f pv. f[k := hd pv])) raw pred)"
  using inject_lf0_ok[OF assms] has_shape3_upd[OF assms(2)] by blast

lemma inject_lf0_mdn_frame:
  assumes "has_shape3 B T Cin x" "has_shape4 B T G C mu"
    and "py_index Cin (in_lf0_idx p) = Inr i" "py_index C (out_lf0_idx p) = Inr k"
    and "0 < B" "0 < T"
  shows "\<exists>pred resid.
           predict_lf0_with_residual x (T4 mu) (in_lf0_idx p) (in_lf0_min p) (in_lf0_max p)
             (out_lf0_idx p) (out_lf0_mean p) (out_lf0_scale p) 600 = Inr (pred, resid)
         \<and> has_shape4 B T G C (map2 (map2 (map2 (\<lambda>c v. c[k := v]))) mu pred)
         \<and> (G \<noteq> 1 \<longrightarrow>
              inject_lf0_mdn p x mu = Inr (map2 (map2 (map2 (\<lambda>c v. c[k := v]))) mu pred, resid))
         \<and> (\<forall>mu' r. inject_lf0_mdn p x mu = Inr (mu', r) \<longrightarrow>
              mu' = map2 (map2 (map2 (\<lambda>c v. c[k := v]))) mu pred \<and> r = resid)"
  using inject_lf0_mdn_ok[OF assms] has_shape4_upd[OF assms(2)] by blast

text \<open>
  Claim C3. In the forward step of each residual log-F0 predictor (ResF0Conv1dResnet,
  ResSkipF0FFConvLSTM, ResF0VariancePredictor), on a well-shaped batch whose raw network
  output has the batch and time sizes of the input: the returned output is the raw output
  with column \<open>k\<close> (the column \<^verbatim>\<open>out_lf0_idx\<close> addresses) of every frame replaced by the
  corrected pitch that \<^verbatim>\<open>predict_lf0_with_residual\<close> computes, so it has the shape of the
  raw output and every other column is unchanged. With \<^verbatim>\<open>use_mdn\<close> the same holds for the
  component means \<open>mu\<close> whenever the step returns, and it returns when the number of mixture
  components is not one.
\<close>

theorem residual_forward_frame:
  assumes "has_shape3 B T Cin x"
  shows
    "(\<forall>h. \<not> ResF0Conv1dResnet.use_mdn m1
          \<and> ResF0Conv1dResnet.model m1 (transpose12 x) = Inr h
          \<and> has_shape3 B T C (transpose12 h)
          \<and> py_index Cin (in_lf0_idx m1) = Inr i \<and> py_index C (out_lf0_idx m1) = Inr k \<longrightarrow>
        (\<exists>pred resid.
           predict_lf0_with_residual x (T3 (transpose12 h)) (in_lf0_idx m1) (in_lf0_min m1)
             (in_lf0_max m1) (out_lf0_idx m1) (out_lf0_mean m1) (out_lf0_scale m1) 600
             = Inr (pred, resid)
         \<and> ResF0Conv1dResnet_forward m1 x lengths
             = Inr (Tensor (map2 (map2 (\<lambda>f pv. f[k := hd pv])) (transpose12 h) pred), resid)
         \<and> has_shape3 B T C (map2 (map2 (\<lambda>f pv. f[k := hd pv])) (transpose12 h) pred)))
   \<and> (\<forall>h log_pi log_sigma mu. ResF0Conv1dResnet.use_mdn m1
          \<and> ResF0Conv1dResnet.model m1 (transpose12 x) = Inr h
          \<and> ResF0Conv1dResnet.mdn_layer m1 (transpose12 h) = Inr (log_pi, log_sigma, mu)
          \<and> has_shape4 B T G C mu \<and> 0 < B \<and> 0 < T
          \<and> py_index Cin (in_lf0_idx m1) = Inr i \<and> py_index C (out_lf0_idx m1) = Inr k \<longrightarrow>
        (\<exists>pred resid.
           predict_lf0_with_residual x (T4 mu) (in_lf0_idx m1) (in_lf0_min m1)
             (in_lf0_max m1) (out_lf0_idx m1) (out_lf0_mean m1) (out_lf0_scale m1) 600
             = Inr (pred, resid)
         \<and> has_shape4 B T G C (map2 (map2 (map2 (\<lambda>c v. c[k := v]))) mu pred)
         \<and> (G \<noteq> 1 \<longrightarrow> ResF0Conv1dResnet_forward m1 x lengths
               = Inr (Mdn log_pi log_sigma (map2 (map2 (map2 (\<lambda>c v. c[k := v]))) mu pred), resid))
         \<and> (\<forall>out r. ResF0Conv1dResnet_forward m1 x lengths = Inr (out, r) \<longrightarrow>
               out = Mdn log_pi log_sigma (map2 (map2 (map2 (\<lambda>c v. c[k := v]))) mu pred)
             \<and> r = resid)))
   \<and> (\<forall>out raw. \<not> ResSkipF0FFConvLSTM.use_mdn m2
          \<and> ResSkipF0FFConvLSTM_hidden m2 x lengths = Inr out
          \<and> ResSkipF0FFConvLSTM.fc m2 out = Inr raw
          \<and> has_shape3 B T C raw
          \<and> py_index Cin (in_lf0_idx m2) = Inr i \<and> py_index C (out_lf0_idx m2) = Inr k \<longrightarrow>
        (\<exists>pred resid.
           predict_lf0_with_residual x (T3 raw) (in_lf0_idx m2) (in_lf0_min m2)
             (in_lf0_max m2) (out_lf0_idx m2) (out_lf0_mean m2) (out_lf0_scale m2) 600
             = Inr (pred, resid)
         \<and> ResSkipF0FFConvLSTM_forward m2 x lengths
             = Inr (Tensor (map2 (map2 (\<lambda>f pv. f[k := hd pv])) raw pred), resid)
         \<and> has_shape3 B T C (map2 (map2 (\<lambda>f pv. f[k := hd pv])) raw pred)))
   \<and> (\<forall>out log_pi log_sigma mu. ResSkipF0FFConvLSTM.use_mdn m2
          \<and> ResSkipF0FFConvLSTM_hidden m2 x lengths = Inr out
          \<and> ResSkipF0FFConvLSTM.mdn_layer m2 out = Inr (log_pi, log_sigma, mu)
          \<and> has_shape4 B T G C mu \<and> 0 < B \<and> 0 < T
          \<and> py_index Cin (in_lf0_idx m2) = Inr i \<and> py_index C (out_lf0_idx m2) = Inr k \<longrightarrow>
        (\<exists>pred resid.
           predict_lf0_with_residual x (T4 mu) (in_lf0_idx m2) (in_lf0_min m2)
             (in_lf0_max m2) (out_lf0_idx m2) (out_lf0_mean m2) (out_lf0_scale m2) 600
             = Inr (pred, resid)
         \<and> has_shape4 B T G C (map2 (map2 (map2 (\<lambda>c v. c[k := v]))) mu pred)
         \<and> (G \<noteq> 1 \<longrightarrow> ResSkipF0FFConvLSTM_forward m2 x lengths
               = Inr (Mdn log_pi log_sigma (map2 (map2 (map2 (\<lambda>c v. c[k := v]))) mu pred), resid))
         \<and> (\<forall>out' r. ResSkipF0FFConvLSTM_forward m2 x lengths = Inr (out', r) \<longrightarrow>
               out' = Mdn log_pi log_sigma (map2 (map2 (map2 (\<lambda>c v. c[k := v]))) mu pred)
             \<and> r = resid)))
   \<and> (\<forall>h raw. ResF0VariancePredictor.conv m3 (transpose12 x) = Inr h
          \<and> ResF0VariancePredictor.fc m3 (transpose12 h) = Inr raw
          \<and> has_shape3 B T C raw
          \<and> py_index Cin (in_lf0_idx m3) = Inr i \<and> py_index C (out_lf0_idx m3) = Inr k \<longrightarrow>
        (\<exists>pred resid.
           predict_lf0_with_residual x (T3 raw) (in_lf0_idx m3) (in_lf0_min m3)
             (in_lf0_max m3) (out_lf0_idx m3) (out_lf0_mean m3) (out_lf0_scale m3) 600
             = Inr (pred, resid)
         \<and> ResF0VariancePredictor_forward m3 x lengths
             = Inr (map2 (map2 (\<lambda>f pv. f[k := hd pv])) raw pred, resid)
         \<and> has_shape3 B T C (map2 (map2 (\<lambda>f pv. f[k := hd pv])) raw pred)))"
proof (intro conjI allI impI; elim conjE)
  fix h
  assume a: "\<not> ResF0Conv1dResnet.use_mdn m1" "ResF0Conv1dResnet.model m1 (transpose12 x) = Inr h"
    "has_shape3 B T C (transpose12 h)" "py_index Cin (in_lf0_idx m1) = Inr i"
    "py_index C (out_lf0_idx m1) = Inr k"
  from inject_lf0_frame[OF assms a(3,4,5)] a(1,2)
  show "\<exists>pred resid.
           predict_lf0_with_residual x (T3 (transpose12 h)) (in_lf0_idx m1) (in_lf0_min m1)
             (in_lf0_max m1) (out_lf0_idx m1) (out_lf0_mean m1) (out_lf0_scale m1) 600
             = Inr (pred, resid)
         \<and> ResF0Conv1dResnet_forward m1 x lengths
             = Inr (Tensor (map2 (map2 (\<lambda>f pv. f[k := hd pv])) (transpose12 h) pred), resid)
         \<and> has_shape3 B T C (map2 (map2 (\<lambda>f pv. f[k := hd pv])) (transpose12 h) pred)"
    by (auto simp: ResF0Conv1dResnet_forward_def)
next
  fix h log_pi log_sigma mu
  assume a: "ResF0Conv1dResnet.use_mdn m1" "ResF0Conv1dResnet.model m1 (transpose12 x) = Inr h"
    "ResF0Conv1dResnet.mdn_layer m1 (transpose12 h) = Inr (log_pi, log_sigma, mu)"
    "has_shape4 B T G C mu" "0 < B" "0 < T" "py_index Cin (in_lf0_idx m1) = Inr i"
    "py_index C (out_lf0_idx m1) = Inr k"
  from inject_lf0_mdn_frame[OF assms a(4,7,8,5,6)] obtain pred resid where
    p: "predict_lf0_with_residual x (T4 mu) (in_lf0_idx m1) (in_lf0_min m1)
             (in_lf0_max m1) (out_lf0_idx m1) (out_lf0_mean m1) (out_lf0_scale m1) 600
             = Inr (pred, resid)"
    "has_shape4 B T G C (map2 (map2 (map2 (\<lambda>c v. c[k := v]))) mu pred)"
    "G \<noteq> 1 \<longrightarrow>
              inject_lf0_mdn m1 x mu = Inr (map2 (map2 (map2 (\<lambda>c v. c[k := v]))) mu pred, resid)"
    "\<forall>mu' r. inject_lf0_mdn m1 x mu = Inr (mu', r) \<longrightarrow>
              mu' = map2 (map2 (map2 (\<lambda>c v. c[k := v]))) mu pred \<and> r = resid"
    by blast
  have "G \<noteq> 1 \<longrightarrow> ResF0Conv1dResnet_forward m1 x lengths
               = Inr (Mdn log_pi log_sigma (map2 (map2 (map2 (\<lambda>c v. c[k := v]))) mu pred), resid)"
    using p(3) a(1,2,3) by (simp add: ResF0Conv1dResnet_forward_def)
  moreover have "\<forall>out r. ResF0Conv1dResnet_forward m1 x lengths = Inr (out, r) \<longrightarrow>
               out = Mdn log_pi log_sigma (map2 (map2 (map2 (\<lambda>c v. c[k := v]))) mu pred)
             \<and> r = resid"
    using p(4) a(1,2,3) by (auto simp: ResF0Conv1dResnet_forward_def split: sum.splits)
  ultimately show "\<exists>pred resid.
           predict_lf0_with_residual x (T4 mu) (in_lf0_idx m1) (in_lf0_min m1)
             (in_lf0_max m1) (out_lf0_idx m1) (out_lf0_mean m1) (out_lf0_scale m1) 600
             = Inr (pred, resid)
         \<and> has_shape4 B T G C (map2 (map2 (map2 (\<lambda>c v. c[k := v]))) mu pred)
         \<and> (G \<noteq> 1 \<longrightarrow> ResF0Conv1dResnet_forward m1 x lengths
               = Inr (Mdn log_pi log_sigma (map2 (map2 (map2 (\<lambda>c v. c[k := v]))) mu pred), resid))
         \<and> (\<forall>out r. ResF0Conv1dResnet_forward m1 x lengths = Inr (out, r) \<longrightarrow>
               out = Mdn log_pi log_sigma (map2 (map2 (map2 (\<lambda>c v. c[k := v]))) mu pred)
             \<and> r = resid)"
    using p(1,2) by blast
next
  fix out raw
  assume a: "\<not> ResSkipF0FFConvLSTM.use_mdn m2" "ResSkipF0FFConvLSTM_hidden m2 x lengths = Inr out"
    "ResSkipF0FFConvLSTM.fc m2 out = Inr raw"
    "has_shape3 B T C raw" "py_index Cin (in_lf0_idx m2) = Inr i"
    "py_index C (out_lf0_idx m2) = Inr k"
  from inject_lf0_frame[OF assms a(4,5,6)] a(1,2,3)
  show "\<exists>pred resid.
           predict_lf0_with_residual x (T3 raw) (in_lf0_idx m2) (in_lf0_min m2)
             (in_lf0_max m2) (out_lf0_idx m2) (out_lf0_mean m2) (out_lf0_scale m2) 600
             = Inr (pred, resid)
         \<and> ResSkipF0FFConvLSTM_forward m2 x lengths
             = Inr (Tensor (map2 (map2 (\<lambda>f pv. f[k := hd pv])) raw pred), resid)
         \<and> has_shape3 B T C (map2 (map2 (\<lambda>f pv. f[k := hd pv])) raw pred)"
    by (auto simp: ResSkipF0FFConvLSTM_forward_def)
next
  fix out log_pi log_sigma mu
  assume a: "ResSkipF0FFConvLSTM.use_mdn m2" "ResSkipF0FFConvLSTM_hidden m2 x lengths = Inr out"
    "ResSkipF0FFConvLSTM.mdn_layer m2 out = Inr (log_pi, log_sigma, mu)"
    "has_shape4 B T G C mu" "0 < B" "0 < T" "py_index Cin (in_lf0_idx m2) = Inr i"
    "py_index C (out_lf0_idx m2) = Inr k"
  from inject_lf0_mdn_frame[OF assms a(4,7,8,5,6)] obtain pred resid where
    p: "predict_lf0_with_residual x (T4 mu) (in_lf0_idx m2) (in_lf0_min m2)
             (in_lf0_max m2) (out_lf0_idx m2) (out_lf0_mean m2) (out_lf0_scale m2) 600
             = Inr (pred, resid)"
    "has_shape4 B T G C (map2 (map2 (map2 (\<lambda>c v. c[k := v]))) mu pred)"
    "G \<noteq> 1 \<longrightarrow>
              inject_lf0_mdn m2 x mu = Inr (map2 (map2 (map2 (\<lambda>c v. c[k := v]))) mu pred, resid)"
    "\<forall>mu' r. inject_lf0_mdn m2 x mu = Inr (mu', r) \<longrightarrow>
              mu' = map2 (map2 (map2 (\<lambda>c v. c[k := v]))) mu pred \<and> r = resid"
    by blast
  have "G \<noteq> 1 \<longrightarrow> ResSkipF0FFConvLSTM_forward m2 x lengths
               = Inr (Mdn log_pi log_sigma (map2 (map2 (map2 (\<lambda>c v. c[k := v]))) mu pred), resid)"
    using p(3) a(1,2,3) by (simp add: ResSkipF0FFConvLSTM_forward_def)
  moreover have "\<forall>out' r. ResSkipF0FFConvLSTM_forward m2 x lengths = Inr (out', r) \<longrightarrow>
               out' = Mdn log_pi log_sigma (map2 (map2 (map2 (\<lambda>c v. c[k := v]))) mu pred)
             \<and> r = resid"
    using p(4) a(1,2,3) by (auto simp: ResSkipF0FFConvLSTM_forward_def split: sum.splits)
  ultimately show "\<exists>pred resid.
           predict_lf0_with_residual x (T4 mu) (in_lf0_idx m2) (in_lf0_min m2)
             (in_lf0_max m2) (out_lf0_idx m2) (out_lf0_mean m2) (out_lf0_scale m2) 600
             = Inr (pred, resid)
         \<and> has_shape4 B T G C (map2 (map2 (map2 (\<lambda>c v. c[k := v]))) mu pred)
         \<and> (G \<noteq> 1 \<longrightarrow> ResSkipF0FFConvLSTM_forward m2 x lengths
               = Inr (Mdn log_pi log_sigma (map2 (map2 (map2 (\<lambda>c v. c[k := v]))) mu pred), resid))
         \<and> (\<forall>out' r. ResSkipF0FFConvLSTM_forward m2 x lengths = Inr (out', r) \<longrightarrow>
               out' = Mdn log_pi log_sigma (map2 (map2 (map2 (\<lambda>c v. c[k := v]))) mu pred)
             \<and> r = resid)"
    using p(1,2) by blast
next
  fix h raw
  assume a: "ResF0VariancePredictor.conv m3 (transpose12 x) = Inr h"
    "ResF0VariancePredictor.fc m3 (transpose12 h) = Inr raw"
    "has_shape3 B T C raw" "py_index Cin (in_lf0_idx m3) = Inr i"
    "py_index C (out_lf0_idx m3) = Inr k"
  from inject_lf0_frame[OF assms a(3,4,5)] a(1,2)
  show "\<exists>pred resid.
           predict_lf0_with_residual x (T3 raw) (in_lf0_idx m3) (in_lf0_min m3)
             (in_lf0_max m3) (out_lf0_idx m3) (out_lf0_mean m3) (out_lf0_scale m3) 600
             = Inr (pred, resid)
         \<and> ResF0VariancePredictor_forward m3 x lengths
             = Inr (map2 (map2 (\<lambda>f pv. f[k := hd pv])) raw pred, resid)
         \<and> has_shape3 B T C (map2 (map2 (\<lambda>f pv. f[k := hd pv])) raw pred)"
    by (auto simp: ResF0VariancePredictor_forward_def)
qed


theorem residual_forward_frame_witness:
  "ResF0VariancePredictor_forward
     \<lparr>in_lf0_idx = 1, in_lf0_min = 5, in_lf0_max = 6, out_lf0_idx = 0, out_lf0_mean = 2,
      out_lf0_scale = 4, ResF0VariancePredictor.conv = Inr, ResF0VariancePredictor.fc = Inr\<rparr>
     [[[7, 1/2]]] None
   = Inr ([[[((1/2 * (6 - 5) + 5) + 600 * ln 2 / 1200 * tanh 7 - 2) / 4, 1/2]]],
          [[[600 * ln 2 / 1200 * tanh 7]]])"
proof -
  let ?m = "\<lparr>in_lf0_idx = 1, in_lf0_min = 5, in_lf0_max = 6, out_lf0_idx = 0, out_lf0_mean = 2,
      out_lf0_scale = 4, ResF0VariancePredictor.conv = Inr, ResF0VariancePredictor.fc = Inr\<rparr>"
  let ?x = "[[[7, 1/2 :: real]]]"
  have sh: "has_shape3 1 1 2 ?x"
    by (simp add: has_shape3_def has_shape2_def)
  have idx: "py_index 2 1 = Inr 1" "py_index 2 0 = Inr 0"
    by (simp_all add: py_index_def)
  have tr: "transpose12 (transpose12 ?x) = ?x"
    by (simp add: transpose12_def)
  note th = residual_forward_frame[OF sh, where ?m3.0 = ?m and C = 2 and i = 1 and k = 0
      and lengths = None]
  then have "\<forall>h raw. ResF0VariancePredictor.conv ?m (transpose12 ?x) = Inr h
          \<and> ResF0VariancePredictor.fc ?m (transpose12 h) = Inr raw
          \<and> has_shape3 1 1 2 raw
          \<and> py_index 2 (in_lf0_idx ?m) = Inr 1 \<and> py_index 2 (out_lf0_idx ?m) = Inr 0 \<longrightarrow>
        (\<exists>pred resid.
           predict_lf0_with_residual ?x (T3 raw) (in_lf0_idx ?m) (in_lf0_min ?m)
             (in_lf0_max ?m) (out_lf0_idx ?m) (out_lf0_mean ?m) (out_lf0_scale ?m) 600
             = Inr (pred, resid)
         \<and> ResF0VariancePredictor_forward ?m ?x None
             = Inr (map2 (map2 (\<lambda>f pv. f[0 := hd pv])) raw pred, resid)
         \<and> has_shape3 1 1 2 (map2 (map2 (\<lambda>f pv. f[0 := hd pv])) raw pred))"
    by blast
  from this[rule_format, of "transpose12 ?x" ?x] sh idx tr
  obtain pred resid where
    p: "predict_lf0_with_residual ?x (T3 ?x) 1 5 6 0 2 4 600 = Inr (pred, resid)"
    and f: "ResF0VariancePredictor_forward ?m ?x None
             = Inr (map2 (map2 (\<lambda>f pv. f[0 := hd pv])) ?x pred, resid)"
    by auto
  from p predict_lf0_T3[OF sh sh idx, of 5 6 2 4 600]
  have "pred = [[[((1/2 * (6 - 5) + 5) + 600 * ln 2 / 1200 * tanh 7 - 2) / 4]]]"
    "resid = [[[600 * ln 2 / 1200 * tanh 7]]]"
    by simp_all
  with f show ?thesis by simp
qed

section \<open>Properties of the multistream composer\<close>

lemma set_lf0_params_attrs:
  assumes "attrs (pitch_model m) ''out_lf0_mean'' \<noteq> None"
  shows "attrs (pitch_model (set_lf0_params m)) ''in_lf0_idx'' = Some (PyInt (in_lf0_idx m))"
    and "attrs (pitch_model (set_lf0_params m)) ''in_lf0_min'' = Some (PyFloat (in_lf0_min m))"
    and "attrs (pitch_model (set_lf0_params m)) ''in_lf0_max'' = Some (PyFloat (in_lf0_max m))"
    and "attrs (pitch_model (set_lf0_params m)) ''out_lf0_mean'' = Some (PyFloat (out_lf0_mean m))"
    and "attrs (pitch_model (set_lf0_params m)) ''out_lf0_scale'' = Some (PyFloat (out_lf0_scale m))"
  using assms by (simp_all add: set_lf0_params_def)

lemma set_lf0_params_other:
  assumes "n \<notin> {''in_lf0_idx'', ''in_lf0_min'', ''in_lf0_max'', ''out_lf0_mean'', ''out_lf0_scale''}"
  shows "attrs (pitch_model (set_lf0_params m)) n = attrs (pitch_model m) n"
  using assms by (simp add: set_lf0_params_def)

lemma set_lf0_params_absent:
  "attrs (pitch_model m) ''out_lf0_mean'' = None \<Longrightarrow> set_lf0_params m = m"
  by (simp add: set_lf0_params_def)

lemma set_lf0_params_overrides:
  assumes "attrs (pitch_model m) ''out_lf0_mean'' \<noteq> None"
  shows "set_lf0_params (m\<lparr>pitch_model := (pitch_model m)\<lparr>attrs := (attrs (pitch_model m))
             (''in_lf0_idx'' \<mapsto> v1, ''in_lf0_min'' \<mapsto> v2, ''in_lf0_max'' \<mapsto> v3,
              ''out_lf0_mean'' \<mapsto> v4, ''out_lf0_scale'' \<mapsto> v5)\<rparr>\<rparr>)
   = set_lf0_params m"
  using assms by (simp add: set_lf0_params_def fun_upd_twist)

text \<open>
  Claim C5. A pitch model capable of residual correction stores \<^verbatim>\<open>out_lf0_mean\<close>: every
  residual log-F0 predictor of the module sets the six log-F0 attributes in its constructor,
  and \<^verbatim>\<open>out_lf0_mean\<close> is the attribute \<^verbatim>\<open>_set_lf0_params\<close> tests. For such a pitch model,
  every forward and inference call leaves the pitch model with the composer's
  \<^verbatim>\<open>in_lf0_idx\<close>, \<^verbatim>\<open>in_lf0_min\<close>, \<^verbatim>\<open>in_lf0_max\<close>, \<^verbatim>\<open>out_lf0_mean\<close> and \<^verbatim>\<open>out_lf0_scale\<close>,
  and the values these five attributes had before the call do not influence the result:
  the pitch predictor is invoked after they are overwritten. The pitch model's
  \<^verbatim>\<open>out_lf0_idx\<close> is what it was, whatever the pitch model; a pitch model that does not
  store \<^verbatim>\<open>out_lf0_mean\<close> is left as it is.
\<close>

theorem set_lf0_params_before_pitch:
  "(attrs (pitch_model m) ''out_lf0_mean'' \<noteq> None \<longrightarrow>
      attrs (pitch_model (snd (forward m x lengths))) ''in_lf0_idx'' = Some (PyInt (in_lf0_idx m))
    \<and> attrs (pitch_model (snd (forward m x lengths))) ''in_lf0_min'' = Some (PyFloat (in_lf0_min m))
    \<and> attrs (pitch_model (snd (forward m x lengths))) ''in_lf0_max'' = Some (PyFloat (in_lf0_max m))
    \<and> attrs (pitch_model (snd (forward m x lengths))) ''out_lf0_mean'' = Some (PyFloat (out_lf0_mean m))
    \<and> attrs (pitch_model (snd (forward m x lengths))) ''out_lf0_scale'' = Some (PyFloat (out_lf0_scale m))
    \<and> (\<forall>v1 v2 v3 v4 v5.
          fst (forward (m\<lparr>pitch_model := (pitch_model m)\<lparr>attrs := (attrs (pitch_model m))
                 (''in_lf0_idx'' \<mapsto> v1, ''in_lf0_min'' \<mapsto> v2, ''in_lf0_max'' \<mapsto> v3,
                  ''out_lf0_mean'' \<mapsto> v4, ''out_lf0_scale'' \<mapsto> v5)\<rparr>\<rparr>) x lengths)
          = fst (forward m x lengths)))
   \<and> (attrs (pitch_model m) ''out_lf0_mean'' = None \<longrightarrow> snd (forward m x lengths) = m)
   \<and> attrs (pitch_model (snd (forward m x lengths))) ''out_lf0_idx''
       = attrs (pitch_model m) ''out_lf0_idx''
   \<and> snd (inference m x lengths) = snd (forward m x lengths)"
proof (intro conjI impI allI)
  show "attrs (pitch_model (snd (forward m x lengths))) ''out_lf0_idx''
       = attrs (pitch_model m) ''out_lf0_idx''"
    by (simp add: forward_def Let_def set_lf0_params_other)
  show "snd (inference m x lengths) = snd (forward m x lengths)"
    by (simp add: inference_def split: prod.splits sum.splits)
  show "snd (forward m x lengths) = m" if "attrs (pitch_model m) ''out_lf0_mean'' = None"
    using that by (simp add: forward_def Let_def set_lf0_params_absent)
next
  assume h: "attrs (pitch_model m) ''out_lf0_mean'' \<noteq> None"
  note a = set_lf0_params_attrs[OF h]
  show "attrs (pitch_model (snd (forward m x lengths))) ''in_lf0_idx'' = Some (PyInt (in_lf0_idx m))"
    "attrs (pitch_model (snd (forward m x lengths))) ''in_lf0_min'' = Some (PyFloat (in_lf0_min m))"
    "attrs (pitch_model (snd (forward m x lengths))) ''in_lf0_max'' = Some (PyFloat (in_lf0_max m))"
    "attrs (pitch_model (snd (forward m x lengths))) ''out_lf0_mean'' = Some (PyFloat (out_lf0_mean m))"
    "attrs (pitch_model (snd (forward m x lengths))) ''out_lf0_scale'' = Some (PyFloat (out_lf0_scale m))"
    by (simp_all add: forward_def Let_def a)
  fix v1 v2 v3 v4 v5
  show "fst (forward (m\<lparr>pitch_model := (pitch_model m)\<lparr>attrs := (attrs (pitch_model m))
                 (''in_lf0_idx'' \<mapsto> v1, ''in_lf0_min'' \<mapsto> v2, ''in_lf0_max'' \<mapsto> v3,
                  ''out_lf0_mean'' \<mapsto> v4, ''out_lf0_scale'' \<mapsto> v5)\<rparr>\<rparr>) x lengths)
          = fst (forward m x lengths)"
    unfolding forward_def Let_def fst_conv set_lf0_params_overrides[OF h] ..
qed

theorem set_lf0_params_before_pitch_witness:
  "attrs (pitch_model (snd (forward
      \<lparr>in_lf0_idx = 300, in_lf0_min = 5, in_lf0_max = 6, out_lf0_idx = 180,
       out_lf0_mean = 2, out_lf0_scale = 4,
       energy_model = \<lparr>attrs = Map.empty, call = (\<lambda>a x l. Inr x)\<rparr>,
       energy_stream_sizes = [1],
       pitch_model = ResF0VariancePredictor_module
         \<lparr>in_lf0_idx = 7, in_lf0_min = 0, in_lf0_max = 1, out_lf0_idx = 0, out_lf0_mean = 9,
          out_lf0_scale = 1, ResF0VariancePredictor.conv = Inr,
          ResF0VariancePredictor.fc = Inr\<rparr>,
       pitch_stream_sizes = [1, 1],
       timbre_model = \<lparr>attrs = Map.empty, call = (\<lambda>a x l. Inr x)\<rparr>,
       timbre_stream_sizes = [1, 1]\<rparr> [[[0]]] None)))
   = [''in_lf0_idx'' \<mapsto> PyInt 300, ''in_lf0_min'' \<mapsto> PyFloat 5, ''in_lf0_max'' \<mapsto> PyFloat 6,
      ''out_lf0_idx'' \<mapsto> PyInt 0, ''out_lf0_mean'' \<mapsto> PyFloat 2, ''out_lf0_scale'' \<mapsto> PyFloat 4]"
proof -
  let ?m = "\<lparr>in_lf0_idx = 300, in_lf0_min = 5, in_lf0_max = 6, out_lf0_idx = 180,
       out_lf0_mean = 2, out_lf0_scale = 4,
       energy_model = \<lparr>attrs = Map.empty, call = (\<lambda>a x l. Inr x)\<rparr>,
       energy_stream_sizes = [1],
       pitch_model = ResF0VariancePredictor_module
         \<lparr>in_lf0_idx = 7, in_lf0_min = 0, in_lf0_max = 1, out_lf0_idx = 0, out_lf0_mean = 9,
          out_lf0_scale = 1, ResF0VariancePredictor.conv = Inr,
          ResF0VariancePredictor.fc = Inr\<rparr>,
       pitch_stream_sizes = [1, 1],
       timbre_model = \<lparr>attrs = Map.empty, call = (\<lambda>a x l. Inr x)\<rparr>,
       timbre_stream_sizes = [1, 1]\<rparr>"
  let ?a = "attrs (pitch_model (snd (forward ?m [[[0]]] None)))"
  have h: "attrs (pitch_model ?m) ''out_lf0_mean'' \<noteq> None"
    by (simp add: ResF0VariancePredictor_module_def lf0_attrs_def)
  from set_lf0_params_before_pitch[of ?m "[[[0]]]" None] h
  have five: "?a ''in_lf0_idx'' = Some (PyInt 300)" "?a ''in_lf0_min'' = Some (PyFloat 5)"
    "?a ''in_lf0_max'' = Some (PyFloat 6)" "?a ''out_lf0_mean'' = Some (PyFloat 2)"
    "?a ''out_lf0_scale'' = Some (PyFloat 4)"
    and idx: "?a ''out_lf0_idx'' = attrs (pitch_model ?m) ''out_lf0_idx''"
    by simp_all
  have rest: "?a k = None" if "k \<notin> {''in_lf0_idx'', ''in_lf0_min'', ''in_lf0_max'',
      ''out_lf0_idx'', ''out_lf0_mean'', ''out_lf0_scale''}" for k
    using that
    by (simp add: forward_def Let_def set_lf0_params_def ResF0VariancePredictor_module_def
        lf0_attrs_def)
  have i0: "?a ''out_lf0_idx'' = Some (PyInt 0)"
    using idx by (simp add: ResF0VariancePredictor_module_def lf0_attrs_def)
  show ?thesis
  proof (rule ext)
    fix k
    show "?a k = [''in_lf0_idx'' \<mapsto> PyInt 300, ''in_lf0_min'' \<mapsto> PyFloat 5,
        ''in_lf0_max'' \<mapsto> PyFloat 6, ''out_lf0_idx'' \<mapsto> PyInt 0, ''out_lf0_mean'' \<mapsto> PyFloat 2,
        ''out_lf0_scale'' \<mapsto> PyFloat 4] k"
      using five i0 rest[of k] by (auto simp: fun_upd_def)
  qed
qed

text \<open>
  Claim C10. \<^verbatim>\<open>inference\<close> returns the first component of what \<^verbatim>\<open>forward\<close> returns on
  the same input, and raises what \<^verbatim>\<open>forward\<close> raises; only the pitch residual is dropped,
  and the model is left in the same state.
\<close>

theorem inference_is_forward_output:
  "fst (inference m x lengths)
     = (case fst (forward m x lengths) of Inl e \<Rightarrow> Inl e | Inr r \<Rightarrow> Inr (fst r))
   \<and> snd (inference m x lengths) = snd (forward m x lengths)"
  by (simp add: inference_def split: prod.splits sum.splits)

theorem inference_is_forward_output_witness:
  "fst (forward
      \<lparr>in_lf0_idx = 300, in_lf0_min = 5, in_lf0_max = 6, out_lf0_idx = 180,
       out_lf0_mean = 2, out_lf0_scale = 4,
       energy_model = \<lparr>attrs = Map.empty, call = (\<lambda>a x l. Inr x)\<rparr>,
       energy_stream_sizes = [2],
       pitch_model = \<lparr>attrs = Map.empty, call = (\<lambda>a x l. Inr (x, [[[9]]]))\<rparr>,
       pitch_stream_sizes = [1, 1],
       timbre_model = \<lparr>attrs = Map.empty, call = (\<lambda>a x l. Inr x)\<rparr>,
       timbre_stream_sizes = [1, 1]\<rparr> [[[1, 2]]] None) = Inr ([[[1, 2, 1, 1, 2, 2]]], [[[9]]])
   \<and> fst (inference
      \<lparr>in_lf0_idx = 300, in_lf0_min = 5, in_lf0_max = 6, out_lf0_idx = 180,
       out_lf0_mean = 2, out_lf0_scale = 4,
       energy_model = \<lparr>attrs = Map.empty, call = (\<lambda>a x l. Inr x)\<rparr>,
       energy_stream_sizes = [2],
       pitch_model = \<lparr>attrs = Map.empty, call = (\<lambda>a x l. Inr (x, [[[9]]]))\<rparr>,
       pitch_stream_sizes = [1, 1],
       timbre_model = \<lparr>attrs = Map.empty, call = (\<lambda>a x l. Inr x)\<rparr>,
       timbre_stream_sizes = [1, 1]\<rparr> [[[1, 2]]] None) = Inr [[[1, 2, 1, 1, 2, 2]]]"
proof -
  let ?m = "\<lparr>in_lf0_idx = 300, in_lf0_min = 5, in_lf0_max = 6, out_lf0_idx = 180,
       out_lf0_mean = 2, out_lf0_scale = 4,
       energy_model = \<lparr>attrs = Map.empty, call = (\<lambda>a x l. Inr x)\<rparr>,
       energy_stream_sizes = [2],
       pitch_model = \<lparr>attrs = Map.empty, call = (\<lambda>a x l. Inr (x, [[[9]]]))\<rparr>,
       pitch_stream_sizes = [1, 1],
       timbre_model = \<lparr>attrs = Map.empty, call = (\<lambda>a x l. Inr x)\<rparr>,
       timbre_stream_sizes = [1, 1]\<rparr>"
  have f: "fst (forward ?m [[[1, 2]]] None) = Inr ([[[1, 2, 1, 1, 2, 2]]], [[[9]]])"
    by (simp add: forward_def Let_def set_lf0_params_def forward_body_def split_streams_def
        stream_slice_def unpack_pitch_def cat2_last_def upt_rec)
  with inference_is_forward_output[of ?m "[[[1, 2]]]" None] show ?thesis
    by simp
qed

section \<open>Inference against forward\<close>

text \<open>
  Claim C9, as the code has it. For a deterministic predictor that is not a shallow-AR
  variant (Conv1dResnet, ResF0Conv1dResnet and ResSkipF0FFConvLSTM with
  \<^verbatim>\<open>use_mdn = False\<close>, ResF0VariancePredictor), \<^verbatim>\<open>inference\<close> returns exactly the
  trajectory of \<^verbatim>\<open>forward\<close>, the first component of its pair for a residual log-F0
  predictor, and raises what \<^verbatim>\<open>forward\<close> raises. The shallow-AR variants Conv1dResnetSAR
  and LSTMRNNSAR pass that trajectory through \<^verbatim>\<open>_shallow_ar_inference\<close>.
\<close>

theorem deterministic_inference_is_forward:
  "(deterministic p \<and> \<not> shallow_ar p \<longrightarrow>
      predictor_inference mp p x lengths = predictor_trajectory p x lengths)
   \<and> (deterministic (P_Conv1dResnetSAR c) \<longrightarrow>
        predictor_inference mp (P_Conv1dResnetSAR c) x lengths =
          (case predictor_trajectory (P_Conv1dResnetSAR c) x lengths of
             Inl e \<Rightarrow> Inl e
           | Inr (Tensor out) \<Rightarrow>
               (case shallow_ar_inference out (Conv1dResnetSAR.stream_sizes c)
                       (Conv1dResnetSAR.analysis_filts c) of
                  Inl e \<Rightarrow> Inl e | Inr y \<Rightarrow> Inr (Tensor y))
           | Inr other \<Rightarrow> Inr other))
   \<and> predictor_inference mp (P_LSTMRNNSAR r) x lengths =
          (case predictor_trajectory (P_LSTMRNNSAR r) x lengths of
             Inl e \<Rightarrow> Inl e
           | Inr (Tensor out) \<Rightarrow>
               (case shallow_ar_inference out (LSTMRNNSAR.stream_sizes r)
                       (LSTMRNNSAR.analysis_filts r) of
                  Inl e \<Rightarrow> Inl e | Inr y \<Rightarrow> Inr (Tensor y))
           | Inr other \<Rightarrow> Inr other)"
proof (intro conjI impI)
  assume "deterministic p \<and> \<not> shallow_ar p"
  then show "predictor_inference mp p x lengths = predictor_trajectory p x lengths"
    by (cases p)
       (auto simp: Conv1dResnet_inference_def ResF0Conv1dResnet_inference_def
          ResSkipF0FFConvLSTM_inference_def ResF0VariancePredictor_inference_def
          split: sum.splits)
next
  assume "deterministic (P_Conv1dResnetSAR c)"
  then show "predictor_inference mp (P_Conv1dResnetSAR c) x lengths =
          (case predictor_trajectory (P_Conv1dResnetSAR c) x lengths of
             Inl e \<Rightarrow> Inl e
           | Inr (Tensor out) \<Rightarrow>
               (case shallow_ar_inference out (Conv1dResnetSAR.stream_sizes c)
                       (Conv1dResnetSAR.analysis_filts c) of
                  Inl e \<Rightarrow> Inl e | Inr y \<Rightarrow> Inr (Tensor y))
           | Inr other \<Rightarrow> Inr other)"
    by (auto simp: Conv1dResnetSAR_inference_def Conv1dResnet_forward_def Let_def
          split: sum.splits)
next
  show "predictor_inference mp (P_LSTMRNNSAR r) x lengths =
          (case predictor_trajectory (P_LSTMRNNSAR r) x lengths of
             Inl e \<Rightarrow> Inl e
           | Inr (Tensor out) \<Rightarrow>
               (case shallow_ar_inference out (LSTMRNNSAR.stream_sizes r)
                       (LSTMRNNSAR.analysis_filts r) of
                  Inl e \<Rightarrow> Inl e | Inr y \<Rightarrow> Inr (Tensor y))
           | Inr other \<Rightarrow> Inr other)"
    by (auto simp: LSTMRNNSAR_inference_def split: sum.splits)
qed

theorem deterministic_inference_is_forward_witness:
  "predictor_inference (\<lambda>log_pi log_sigma mu. Inl ValueError)
     (P_ResF0VariancePredictor
        \<lparr>in_lf0_idx = 1, in_lf0_min = 5, in_lf0_max = 6, out_lf0_idx = 0, out_lf0_mean = 2,
         out_lf0_scale = 4, ResF0VariancePredictor.conv = Inr, ResF0VariancePredictor.fc = Inr\<rparr>)
     [[[7, 1/2]]] None
   = predictor_trajectory
     (P_ResF0VariancePredictor
        \<lparr>in_lf0_idx = 1, in_lf0_min = 5, in_lf0_max = 6, out_lf0_idx = 0, out_lf0_mean = 2,
         out_lf0_scale = 4, ResF0VariancePredictor.conv = Inr, ResF0VariancePredictor.fc = Inr\<rparr>)
     [[[7, 1/2]]] None"
  using deterministic_inference_is_forward[of
      "P_ResF0VariancePredictor
        \<lparr>in_lf0_idx = 1, in_lf0_min = 5, in_lf0_max = 6, out_lf0_idx = 0, out_lf0_mean = 2,
         out_lf0_scale = 4, ResF0VariancePredictor.conv = Inr, ResF0VariancePredictor.fc = Inr\<rparr>"]
  by simp

text \<open>The claim as written covers every deterministic predictor of the module. It fails
  on Conv1dResnetSAR, which is built with \<^verbatim>\<open>use_mdn = False\<close>: with one stream of width
  one and the learned coefficients \<open>[1/2, 7]\<close> (the lag-0 entry is replaced by 1), forward
  returns the network output and inference returns it filtered.\<close>

theorem sar_inference_counterexample:
  "deterministic (P_Conv1dResnetSAR
      \<lparr>Conv1dResnet.use_mdn = False, Conv1dResnet.model = Inr,
       Conv1dResnet.mdn_layer = (\<lambda>h. Inl ValueError),
       Conv1dResnetSAR.stream_sizes = [1],
       Conv1dResnetSAR.analysis_filts = [\<lparr>weight = [[1/2, 7]]\<rparr>]\<rparr>)
   \<and> predictor_trajectory (P_Conv1dResnetSAR
      \<lparr>Conv1dResnet.use_mdn = False, Conv1dResnet.model = Inr,
       Conv1dResnet.mdn_layer = (\<lambda>h. Inl ValueError),
       Conv1dResnetSAR.stream_sizes = [1],
       Conv1dResnetSAR.analysis_filts = [\<lparr>weight = [[1/2, 7]]\<rparr>]\<rparr>) [[[1], [1]]] None
     = Inr (Tensor [[[1], [1]]])
   \<and> predictor_inference (\<lambda>log_pi log_sigma mu. Inl ValueError) (P_Conv1dResnetSAR
      \<lparr>Conv1dResnet.use_mdn = False, Conv1dResnet.model = Inr,
       Conv1dResnet.mdn_layer = (\<lambda>h. Inl ValueError),
       Conv1dResnetSAR.stream_sizes = [1],
       Conv1dResnetSAR.analysis_filts = [\<lparr>weight = [[1/2, 7]]\<rparr>]\<rparr>) [[[1], [1]]] None
     = Inr (Tensor [[[1], [1/2]]])"
  by (simp add: Conv1dResnet_forward_def Conv1dResnetSAR_inference_def transpose12_def
      shallow_ar_inference_def split_streams_def stream_slice_def sar_stream_def
      sar_channel_def get_filt_coefs_def lfilter_def dot_def dim1_def Let_def upt_rec)

section \<open>Streams: splitting and joining\<close>

lemma has_shape3_imp2: "has_shape3 B T C x \<Longrightarrow> has_shape2 B T x"
  by (auto simp: has_shape3_def has_shape2_def)

lemma has_shape2_nth: "has_shape2 B T x \<Longrightarrow> b < B \<Longrightarrow> length (x ! b) = T"
  by (auto simp: has_shape2_def)

lemma has_shape2_length: "has_shape2 B T x \<Longrightarrow> length x = B"
  by (simp add: has_shape2_def)

lemma has_shape3_nth:
  assumes "has_shape3 B T C x" "b < B" "t < T"
  shows "length (x ! b) = T" and "length (x ! b ! t) = C"
proof -
  have "x ! b \<in> set x" using assms by (simp add: has_shape3_def)
  then have s: "has_shape2 T C (x ! b)" using assms by (simp add: has_shape3_def)
  then show "length (x ! b) = T" by (simp add: has_shape2_def)
  then have "x ! b ! t \<in> set (x ! b)" using assms by simp
  then show "length (x ! b ! t) = C" using s by (simp add: has_shape2_def)
qed

lemma cat2_last_ok:
  assumes "has_shape2 B T a" "has_shape2 B T b"
  shows "cat2_last a b = Inr (map2 (map2 (@)) a b)"
    and "has_shape2 B T (map2 (map2 (@)) a b)"
    and "\<And>i t. i < B \<Longrightarrow> t < T \<Longrightarrow> map2 (map2 (@)) a b ! i ! t = a ! i ! t @ b ! i ! t"
proof -
  have l: "length a = B" "length b = B" using assms by (simp_all add: has_shape2_def)
  have r: "\<And>s s'. (s, s') \<in> set (zip a b) \<Longrightarrow> length s = T \<and> length s' = T"
    using assms by (auto simp: has_shape2_def dest: set_zip_leftD set_zip_rightD)
  show "cat2_last a b = Inr (map2 (map2 (@)) a b)"
    using l r by (auto simp: cat2_last_def)
  show "has_shape2 B T (map2 (map2 (@)) a b)"
    using l r by (auto simp: has_shape2_def)
  show "map2 (map2 (@)) a b ! i ! t = a ! i ! t @ b ! i ! t" if "i < B" "t < T" for i t
    using that l has_shape2_nth[OF assms(1) that(1)] has_shape2_nth[OF assms(2) that(1)]
    by simp
qed

lemma cat_last_ok:
  assumes "ts \<noteq> []" "\<And>x. x \<in> set ts \<Longrightarrow> has_shape2 B T x"
  shows "\<exists>r. cat_last ts = Inr r \<and> has_shape2 B T r
           \<and> (\<forall>b < B. \<forall>t < T. r ! b ! t = concat (map (\<lambda>x. x ! b ! t) ts))"
  using assms
proof (induction ts rule: cat_last.induct)
  case 1
  then show ?case by simp
next
  case (2 a)
  then show ?case by simp
next
  case (3 a b rest)
  have a: "has_shape2 B T a" and b: "has_shape2 B T b" using 3(3) by simp_all
  note c = cat2_last_ok[OF a b]
  have "\<exists>r. cat_last (map2 (map2 (@)) a b # rest) = Inr r \<and> has_shape2 B T r
           \<and> (\<forall>i < B. \<forall>t < T. r ! i ! t = concat (map (\<lambda>x. x ! i ! t) (map2 (map2 (@)) a b # rest)))"
    by (rule 3(1)[OF c(1)]) (use c(2) 3(3) in auto)
  then show ?case
    using c(1,3) by auto
qed

lemma split_streams_ok:
  assumes "has_shape3 B T (sum_list sizes) inp"
  shows "split_streams inp sizes
           = Inr (map (\<lambda>k. map (map (stream_slice sizes k)) inp) [0..<length sizes])"
  using assms by (auto simp: split_streams_def has_shape3_def has_shape2_def)

lemma slice_stream_shape:
  assumes "has_shape3 B T C inp"
  shows "has_shape2 B T (map (map f) inp)"
  using assms by (auto simp: has_shape3_def has_shape2_def)

lemma slice_stream_nth:
  assumes "has_shape3 B T C inp" "b < B" "t < T"
  shows "map (map f) inp ! b ! t = f (inp ! b ! t)"
  using assms has_shape3_nth(1)[OF assms] by (simp add: has_shape3_def)


lemma unpack_pitch_ok:
  assumes "n = 2 \<or> n = 3 \<or> n = 4"
  shows "unpack_pitch n (map S [0..<n]) = Inr (S 0, S 1, map S [2..<n])"
  using assms by (auto simp: unpack_pitch_def upt_rec eval_nat_numeral)

lemma unpack_pitch_bad:
  assumes "n \<noteq> 2" "n \<noteq> 3" "n \<noteq> 4"
  shows "unpack_pitch n (map S [0..<n]) = Inl ValueError"
  using assms
  by (auto simp: unpack_pitch_def split: list.splits dest!: arg_cong[where f = length])

lemma forward_body_order:
  assumes E: "call (energy_model m) (attrs (energy_model m)) x lengths = Inr eo"
      "has_shape3 B T (sum_list (energy_stream_sizes m)) eo" "energy_stream_sizes m \<noteq> []"
    and P: "call (pitch_model m) (attrs (pitch_model m)) x lengths = Inr (po, resid)"
      "has_shape3 B T (sum_list (pitch_stream_sizes m)) po"
    and Tm: "call (timbre_model m) (attrs (timbre_model m)) x lengths = Inr tmo"
      "has_shape3 B T (sum_list (timbre_stream_sizes m)) tmo" "length (timbre_stream_sizes m) = 2"
    and n: "length (pitch_stream_sizes m) = 2 \<or> length (pitch_stream_sizes m) = 3
          \<or> length (pitch_stream_sizes m) = 4"
  shows "\<exists>out. forward_body m x lengths = Inr (out, resid) \<and> has_shape2 B T out
          \<and> (\<forall>b < B. \<forall>t < T. out ! b ! t =
                stream_slice (energy_stream_sizes m) 0 (eo ! b ! t)
                @ stream_slice (timbre_stream_sizes m) 0 (tmo ! b ! t)
                @ stream_slice (pitch_stream_sizes m) 0 (po ! b ! t)
                @ stream_slice (pitch_stream_sizes m) 1 (po ! b ! t)
                @ stream_slice (timbre_stream_sizes m) 1 (tmo ! b ! t)
                @ concat (map (\<lambda>k. stream_slice (pitch_stream_sizes m) k (po ! b ! t))
                            [2..<length (pitch_stream_sizes m)]))"
proof -
  let ?es = "energy_stream_sizes m" and ?ps = "pitch_stream_sizes m" and ?ts = "timbre_stream_sizes m"
  let ?SE = "\<lambda>k. map (map (stream_slice ?es k)) eo"
  let ?SP = "\<lambda>k. map (map (stream_slice ?ps k)) po"
  let ?ST = "\<lambda>k. map (map (stream_slice ?ts k)) tmo"
  from E(3) obtain e0 es' where es: "?es = e0 # es'" by (cases ?es) auto
  have "[0..<length ?es] = 0 # [1..<length ?es]"
    by (subst upt_rec) (simp add: es)
  then have se: "split_streams eo ?es = Inr (?SE 0 # map ?SE [1..<length ?es])"
    unfolding split_streams_ok[OF E(2)] by simp
  have sp: "split_streams po ?ps = Inr (map ?SP [0..<length ?ps])"
    by (rule split_streams_ok[OF P(2)])
  have st: "split_streams tmo ?ts = Inr [?ST 0, ?ST 1]"
    by (simp add: split_streams_ok[OF Tm(2)] Tm(3) upt_rec)
  note up = unpack_pitch_ok[OF n, of ?SP]
  have shE: "has_shape2 B T (?SE 0)" by (rule slice_stream_shape[OF E(2)])
  have shT: "\<And>k. has_shape2 B T (?ST k)" by (rule slice_stream_shape[OF Tm(2)])
  have shP: "\<And>k. has_shape2 B T (?SP k)" by (rule slice_stream_shape[OF P(2)])
  note c1 = cat2_last_ok[OF shE shT[of 0]]
  let ?mgc = "map2 (map2 (@)) (?SE 0) (?ST 0)"
  let ?all = "[?mgc, ?SP 0, ?SP 1, ?ST 1] @ map ?SP [2..<length ?ps]"
  have "\<exists>r. cat_last ?all = Inr r \<and> has_shape2 B T r
           \<and> (\<forall>b < B. \<forall>t < T. r ! b ! t = concat (map (\<lambda>x. x ! b ! t) ?all))"
    by (rule cat_last_ok) (use c1(2) shT shP in auto)
  then obtain r where r: "cat_last ?all = Inr r" "has_shape2 B T r"
    "\<forall>b < B. \<forall>t < T. r ! b ! t = concat (map (\<lambda>x. x ! b ! t) ?all)" by blast
  have fb: "forward_body m x lengths = Inr (r, resid)"
    using r(1) by (simp add: forward_body_def E(1) P(1) Tm(1) se sp st up c1(1))
  have pt: "r ! b ! t =
                stream_slice ?es 0 (eo ! b ! t) @ stream_slice ?ts 0 (tmo ! b ! t)
                @ stream_slice ?ps 0 (po ! b ! t) @ stream_slice ?ps 1 (po ! b ! t)
                @ stream_slice ?ts 1 (tmo ! b ! t)
                @ concat (map (\<lambda>k. stream_slice ?ps k (po ! b ! t)) [2..<length ?ps])"
    if "b < B" "t < T" for b t
    using r(3) that
    by (simp add: c1(3) slice_stream_nth[OF E(2)] slice_stream_nth[OF P(2)]
        slice_stream_nth[OF Tm(2)] o_def)
  from fb r(2) pt show ?thesis by blast
qed

lemma forward_body_bad_arity:
  assumes E: "call (energy_model m) (attrs (energy_model m)) x lengths = Inr eo"
      "has_shape3 B T (sum_list (energy_stream_sizes m)) eo" "energy_stream_sizes m \<noteq> []"
    and P: "call (pitch_model m) (attrs (pitch_model m)) x lengths = Inr (po, resid)"
      "has_shape3 B T (sum_list (pitch_stream_sizes m)) po"
    and n: "length (pitch_stream_sizes m) \<noteq> 2" "length (pitch_stream_sizes m) \<noteq> 3"
      "length (pitch_stream_sizes m) \<noteq> 4"
  shows "forward_body m x lengths = Inl ValueError"
proof -
  let ?es = "energy_stream_sizes m" and ?ps = "pitch_stream_sizes m"
  let ?SE = "\<lambda>k. map (map (stream_slice ?es k)) eo"
  let ?SP = "\<lambda>k. map (map (stream_slice ?ps k)) po"
  from E(3) obtain e0 es' where es: "?es = e0 # es'" by (cases ?es) auto
  have "[0..<length ?es] = 0 # [1..<length ?es]"
    by (subst upt_rec) (simp add: es)
  then have se: "split_streams eo ?es = Inr (?SE 0 # map ?SE [1..<length ?es])"
    unfolding split_streams_ok[OF E(2)] by simp
  have sp: "split_streams po ?ps = Inr (map ?SP [0..<length ?ps])"
    by (rule split_streams_ok[OF P(2)])
  show ?thesis
    by (simp add: forward_body_def E(1) P(1) se sp unpack_pitch_bad[OF n, of ?SP])
qed

lemma predict_T3_nth:
  assumes sh: "has_shape3 B T Cin in_feats" "has_shape3 B T C o3"
    and idx: "py_index Cin in_idx = Inr i" "py_index C out_idx = Inr k"
    and res: "predict_lf0_with_residual in_feats (T3 o3) in_idx in_min in_max
               out_idx out_mean out_scale max_cent = Inr (pred, resid)"
    and bt: "b < B" "t < T"
  shows "pred ! b ! t = [((in_feats ! b ! t ! i * (in_max - in_min) + in_min)
                          + max_cent * ln 2 / 1200 * tanh (o3 ! b ! t ! k) - out_mean) / out_scale]"
    and "resid ! b ! t = [max_cent * ln 2 / 1200 * tanh (o3 ! b ! t ! k)]"
proof -
  have lb: "length in_feats = B" "length o3 = B"
    using sh by (simp_all add: has_shape3_def)
  have lt: "length (in_feats ! b) = T" "length (o3 ! b) = T"
    using has_shape3_nth(1)[OF sh(1) bt] has_shape3_nth(1)[OF sh(2) bt] by simp_all
  from res predict_lf0_T3[OF sh idx, of in_min in_max out_mean out_scale max_cent]
  have pred: "pred = map2 (\<lambda>xs ys. map2 (\<lambda>xf yf.
                   [((xf ! i * (in_max - in_min) + in_min)
                      + max_cent * ln 2 / 1200 * tanh (yf ! k) - out_mean)
                     / out_scale]) xs ys) in_feats o3"
    and resid: "resid = map (map (\<lambda>yf. [max_cent * ln 2 / 1200 * tanh (yf ! k)])) o3"
    by simp_all
  show "pred ! b ! t = [((in_feats ! b ! t ! i * (in_max - in_min) + in_min)
                          + max_cent * ln 2 / 1200 * tanh (o3 ! b ! t ! k) - out_mean) / out_scale]"
    using bt lb lt by (simp add: pred)
  show "resid ! b ! t = [max_cent * ln 2 / 1200 * tanh (o3 ! b ! t ! k)]"
    using bt lb lt by (simp add: resid)
qed

lemma residual_module_attrs:
  assumes "pitch_model m = ResF0VariancePredictor_module p"
  shows "with_lf0_attrs (attrs (pitch_model (set_lf0_params m))) p
         = Inr (p\<lparr>in_lf0_idx := in_lf0_idx m, in_lf0_min := in_lf0_min m,
                  in_lf0_max := in_lf0_max m, out_lf0_idx := out_lf0_idx p,
                  out_lf0_mean := out_lf0_mean m, out_lf0_scale := out_lf0_scale m\<rparr>)"
  by (simp add: assms set_lf0_params_def ResF0VariancePredictor_module_def lf0_attrs_def
      with_lf0_attrs_def get_int_def get_float_def)

lemma residual_module_call:
  assumes "pitch_model m = ResF0VariancePredictor_module p"
  shows "call (pitch_model (set_lf0_params m)) (attrs (pitch_model (set_lf0_params m))) x lengths
         = ResF0VariancePredictor_forward
             (p\<lparr>in_lf0_idx := in_lf0_idx m, in_lf0_min := in_lf0_min m,
                in_lf0_max := in_lf0_max m, out_lf0_idx := out_lf0_idx p,
                out_lf0_mean := out_lf0_mean m, out_lf0_scale := out_lf0_scale m\<rparr>) x lengths"
proof -
  have "call (pitch_model (set_lf0_params m)) = call (ResF0VariancePredictor_module p)"
    by (simp add: set_lf0_params_def assms)
  then show ?thesis
    using residual_module_attrs[OF assms]
    by (simp add: ResF0VariancePredictor_module_def)
qed


lemma variance_forward_column:
  assumes x: "has_shape3 B T Cin x" and raw: "has_shape3 B T C raw"
    and net: "ResF0VariancePredictor.conv q (transpose12 x) = Inr h"
      "ResF0VariancePredictor.fc q (transpose12 h) = Inr raw"
    and idx: "py_index Cin (in_lf0_idx q) = Inr i" "py_index C (out_lf0_idx q) = Inr k"
  shows "\<exists>po resid. ResF0VariancePredictor_forward q x lengths = Inr (po, resid)
           \<and> has_shape3 B T C po
           \<and> (\<forall>b < B. \<forall>t < T. po ! b ! t ! k =
                 ((x ! b ! t ! i * (in_lf0_max q - in_lf0_min q) + in_lf0_min q)
                   + 600 * ln 2 / 1200 * tanh (raw ! b ! t ! k) - out_lf0_mean q) / out_lf0_scale q)"
proof -
  from inject_lf0_ok[OF x raw idx] obtain pred resid where
    p: "predict_lf0_with_residual x (T3 raw) (in_lf0_idx q) (in_lf0_min q) (in_lf0_max q)
             (out_lf0_idx q) (out_lf0_mean q) (out_lf0_scale q) 600 = Inr (pred, resid)"
    and sh: "has_shape3 B T 1 pred"
    and inj: "inject_lf0 q x raw = Inr (map2 (map2 (\<lambda>f pv. f[k := hd pv])) raw pred, resid)"
    by blast
  let ?po = "map2 (map2 (\<lambda>f pv. f[k := hd pv])) raw pred"
  have f: "ResF0VariancePredictor_forward q x lengths = Inr (?po, resid)"
    by (simp add: ResF0VariancePredictor_forward_def net inj)
  have s: "has_shape3 B T C ?po" by (rule has_shape3_upd[OF raw sh])
  have k: "k < C" by (rule py_index_less[OF idx(2)])
  have "?po ! b ! t ! k =
                 ((x ! b ! t ! i * (in_lf0_max q - in_lf0_min q) + in_lf0_min q)
                   + 600 * ln 2 / 1200 * tanh (raw ! b ! t ! k) - out_lf0_mean q) / out_lf0_scale q"
    if bt: "b < B" "t < T" for b t
  proof -
    have lb: "length raw = B" "length pred = B"
      using raw sh by (simp_all add: has_shape3_def)
    have lt: "length (raw ! b) = T" "length (pred ! b) = T" "length (raw ! b ! t) = C"
      using has_shape3_nth[OF raw bt] has_shape3_nth(1)[OF sh bt] by simp_all
    have "?po ! b ! t = (raw ! b ! t)[k := hd (pred ! b ! t)]"
      using bt lb lt by simp
    then show ?thesis
      using k lt(3) predict_T3_nth(1)[OF x raw idx p bt] by simp
  qed
  with f s show ?thesis by blast
qed

lemma forward_scenario:
  assumes pm: "pitch_model m = ResF0VariancePredictor_module p"
    and sizes: "energy_stream_sizes m = [1]" "timbre_stream_sizes m = [179, 15]"
      "pitch_stream_sizes m = [1, 1, 3]"
    and x: "has_shape3 B T Cin x" and ii: "py_index Cin (in_lf0_idx m) = Inr i"
    and oi: "out_lf0_idx p = 0"
    and E: "call (energy_model m) (attrs (energy_model m)) x lengths = Inr eo" "has_shape3 B T 1 eo"
    and Tm: "call (timbre_model m) (attrs (timbre_model m)) x lengths = Inr tmo"
      "has_shape3 B T 194 tmo"
    and net: "ResF0VariancePredictor.conv p (transpose12 x) = Inr h"
      "ResF0VariancePredictor.fc p (transpose12 h) = Inr raw" "has_shape3 B T 5 raw"
  shows "\<exists>out resid. fst (forward m x lengths) = Inr (out, resid) \<and> has_shape3 B T 200 out
           \<and> (\<forall>b < B. \<forall>t < T. out ! b ! t ! 180 =
                 ((x ! b ! t ! i * (in_lf0_max m - in_lf0_min m) + in_lf0_min m)
                   + 600 * ln 2 / 1200 * tanh (raw ! b ! t ! 0) - out_lf0_mean m) / out_lf0_scale m)"
proof -
  let ?m = "set_lf0_params m"
  let ?q = "p\<lparr>in_lf0_idx := in_lf0_idx m, in_lf0_min := in_lf0_min m,
                in_lf0_max := in_lf0_max m, out_lf0_idx := out_lf0_idx p,
                out_lf0_mean := out_lf0_mean m, out_lf0_scale := out_lf0_scale m\<rparr>"
  have same: "energy_model ?m = energy_model m" "timbre_model ?m = timbre_model m"
    "energy_stream_sizes ?m = [1]" "timbre_stream_sizes ?m = [179, 15]"
    "pitch_stream_sizes ?m = [1, 1, 3]"
    by (simp_all add: set_lf0_params_def sizes)
  have k0: "py_index 5 0 = Inr 0" by (simp add: py_index_def)
  have "\<exists>po resid. ResF0VariancePredictor_forward ?q x lengths = Inr (po, resid)
           \<and> has_shape3 B T 5 po
           \<and> (\<forall>b < B. \<forall>t < T. po ! b ! t ! 0 =
                 ((x ! b ! t ! i * (in_lf0_max ?q - in_lf0_min ?q) + in_lf0_min ?q)
                   + 600 * ln 2 / 1200 * tanh (raw ! b ! t ! 0) - out_lf0_mean ?q) / out_lf0_scale ?q)"
    by (rule variance_forward_column[OF x net(3), where h = h])
       (simp_all add: net ii oi k0)
  then obtain po resid where
    P: "call (pitch_model ?m) (attrs (pitch_model ?m)) x lengths = Inr (po, resid)"
    and po: "has_shape3 B T 5 po"
    and col: "\<forall>b < B. \<forall>t < T. po ! b ! t ! 0 =
                 ((x ! b ! t ! i * (in_lf0_max m - in_lf0_min m) + in_lf0_min m)
                   + 600 * ln 2 / 1200 * tanh (raw ! b ! t ! 0) - out_lf0_mean m) / out_lf0_scale m"
    unfolding residual_module_call[OF pm] by auto
  have "\<exists>out. forward_body ?m x lengths = Inr (out, resid) \<and> has_shape2 B T out
          \<and> (\<forall>b < B. \<forall>t < T. out ! b ! t =
                stream_slice (energy_stream_sizes ?m) 0 (eo ! b ! t)
                @ stream_slice (timbre_stream_sizes ?m) 0 (tmo ! b ! t)
                @ stream_slice (pitch_stream_sizes ?m) 0 (po ! b ! t)
                @ stream_slice (pitch_stream_sizes ?m) 1 (po ! b ! t)
                @ stream_slice (timbre_stream_sizes ?m) 1 (tmo ! b ! t)
                @ concat (map (\<lambda>k. stream_slice (pitch_stream_sizes ?m) k (po ! b ! t))
                            [2..<length (pitch_stream_sizes ?m)]))"
    by (rule forward_body_order[where eo = eo and po = po and tmo = tmo])
       (use E Tm P po in \<open>simp_all add: same\<close>)
  then obtain out where
    fb: "forward_body ?m x lengths = Inr (out, resid)" and sh2: "has_shape2 B T out"
    and fr: "\<forall>b < B. \<forall>t < T. out ! b ! t =
                stream_slice (energy_stream_sizes ?m) 0 (eo ! b ! t)
                @ stream_slice (timbre_stream_sizes ?m) 0 (tmo ! b ! t)
                @ stream_slice (pitch_stream_sizes ?m) 0 (po ! b ! t)
                @ stream_slice (pitch_stream_sizes ?m) 1 (po ! b ! t)
                @ stream_slice (timbre_stream_sizes ?m) 1 (tmo ! b ! t)
                @ concat (map (\<lambda>k. stream_slice (pitch_stream_sizes ?m) k (po ! b ! t))
                            [2..<length (pitch_stream_sizes ?m)])"
    by blast
  have frame: "length (out ! b ! t) = 200 \<and> out ! b ! t ! 180 = po ! b ! t ! 0"
    if bt: "b < B" "t < T" for b t
  proof -
    have l: "length (eo ! b ! t) = 1" "length (tmo ! b ! t) = 194" "length (po ! b ! t) = 5"
      using has_shape3_nth(2)[OF E(2) bt] has_shape3_nth(2)[OF Tm(2) bt]
        has_shape3_nth(2)[OF po bt] by simp_all
    have u: "[2..<length [1, 1, 3::nat]] = [2::nat]" by (simp add: upt_rec)
    have "out ! b ! t = take 1 (eo ! b ! t) @ take 179 (tmo ! b ! t)
            @ take 1 (po ! b ! t) @ take 1 (drop 1 (po ! b ! t))
            @ take 15 (drop 179 (tmo ! b ! t)) @ take 3 (drop 2 (po ! b ! t))"
      using fr bt unfolding same u by (simp add: stream_slice_def numeral_2_eq_2)
    then show ?thesis
      using l by (simp add: nth_append)
  qed
  have "has_shape3 B T 200 out"
    unfolding has_shape3_def has_shape2_def
  proof (intro conjI ballI)
    show "length out = B" using sh2 by (simp add: has_shape2_def)
  next
    fix s assume s: "s \<in> set out"
    then show "length s = T" using sh2 by (simp add: has_shape2_def)
  next
    fix s f assume s: "s \<in> set out" and f: "f \<in> set s"
    from s obtain b where b: "b < length out" "s = out ! b" by (auto simp: in_set_conv_nth)
    from f obtain t where t: "t < length s" "f = s ! t" by (auto simp: in_set_conv_nth)
    have "b < B" "t < T" using b t s sh2 by (auto simp: has_shape2_def)
    from frame[OF this] show "length f = 200" by (simp add: b t)
  qed
  moreover have "fst (forward m x lengths) = Inr (out, resid)"
    by (simp add: forward_def Let_def fb)
  ultimately show ?thesis using frame col by auto
qed


lemma set_lf0_params_same:
  "energy_model (set_lf0_params m) = energy_model m"
  "timbre_model (set_lf0_params m) = timbre_model m"
  "energy_stream_sizes (set_lf0_params m) = energy_stream_sizes m"
  "pitch_stream_sizes (set_lf0_params m) = pitch_stream_sizes m"
  "timbre_stream_sizes (set_lf0_params m) = timbre_stream_sizes m"
  "call (pitch_model (set_lf0_params m)) = call (pitch_model m)"
  by (simp_all add: set_lf0_params_def)

text \<open>
  Claim C4. Whenever the three sub-models return outputs of the widths their stream sizes
  declare, \<^verbatim>\<open>forward\<close> with a pitch stream list of 2, 3 or 4 entries returns, at every
  frame, the energy level, then the spectral-envelope residual, then log-F0, then
  voiced/unvoiced, then aperiodicity, then the remaining pitch streams (vibrato, vibrato
  flag) in their order; with any other number of pitch streams it raises ValueError when it
  unpacks them. In particular, with energy width 1, timbre widths \<open>[179, 15]\<close>, pitch widths
  \<open>[1, 1, 3]\<close> and a residual log-F0 pitch predictor whose own \<^verbatim>\<open>out_lf0_idx\<close> is 0, the
  output frames have width 200 and column 180 is the log-F0 corrected with the composer's
  normalization parameters.
\<close>

theorem multistream_join_order:
  "(\<forall>eo po tmo resid.
      call (energy_model m) (attrs (energy_model m)) x lengths = Inr eo
    \<and> has_shape3 B T (sum_list (energy_stream_sizes m)) eo \<and> energy_stream_sizes m \<noteq> []
    \<and> call (pitch_model m) (attrs (pitch_model (set_lf0_params m))) x lengths = Inr (po, resid)
    \<and> has_shape3 B T (sum_list (pitch_stream_sizes m)) po
    \<and> call (timbre_model m) (attrs (timbre_model m)) x lengths = Inr tmo
    \<and> has_shape3 B T (sum_list (timbre_stream_sizes m)) tmo
    \<and> length (timbre_stream_sizes m) = 2
    \<and> (length (pitch_stream_sizes m) = 2 \<or> length (pitch_stream_sizes m) = 3
         \<or> length (pitch_stream_sizes m) = 4) \<longrightarrow>
      (\<exists>out. fst (forward m x lengths) = Inr (out, resid) \<and> has_shape2 B T out
          \<and> (\<forall>b < B. \<forall>t < T. out ! b ! t =
                stream_slice (energy_stream_sizes m) 0 (eo ! b ! t)
                @ stream_slice (timbre_stream_sizes m) 0 (tmo ! b ! t)
                @ stream_slice (pitch_stream_sizes m) 0 (po ! b ! t)
                @ stream_slice (pitch_stream_sizes m) 1 (po ! b ! t)
                @ stream_slice (timbre_stream_sizes m) 1 (tmo ! b ! t)
                @ concat (map (\<lambda>k. stream_slice (pitch_stream_sizes m) k (po ! b ! t))
                            [2..<length (pitch_stream_sizes m)]))))
   \<and> (\<forall>eo po resid.
      call (energy_model m) (attrs (energy_model m)) x lengths = Inr eo
    \<and> has_shape3 B T (sum_list (energy_stream_sizes m)) eo \<and> energy_stream_sizes m \<noteq> []
    \<and> call (pitch_model m) (attrs (pitch_model (set_lf0_params m))) x lengths = Inr (po, resid)
    \<and> has_shape3 B T (sum_list (pitch_stream_sizes m)) po
    \<and> length (pitch_stream_sizes m) \<noteq> 2 \<and> length (pitch_stream_sizes m) \<noteq> 3
    \<and> length (pitch_stream_sizes m) \<noteq> 4 \<longrightarrow>
      fst (forward m x lengths) = Inl ValueError)
   \<and> (\<forall>p eo tmo h raw i Cin.
      pitch_model m = ResF0VariancePredictor_module p \<and> out_lf0_idx p = 0
    \<and> energy_stream_sizes m = [1] \<and> timbre_stream_sizes m = [179, 15]
    \<and> pitch_stream_sizes m = [1, 1, 3]
    \<and> has_shape3 B T Cin x \<and> py_index Cin (in_lf0_idx m) = Inr i
    \<and> call (energy_model m) (attrs (energy_model m)) x lengths = Inr eo \<and> has_shape3 B T 1 eo
    \<and> call (timbre_model m) (attrs (timbre_model m)) x lengths = Inr tmo
    \<and> has_shape3 B T 194 tmo
    \<and> ResF0VariancePredictor.conv p (transpose12 x) = Inr h
    \<and> ResF0VariancePredictor.fc p (transpose12 h) = Inr raw \<and> has_shape3 B T 5 raw \<longrightarrow>
      (\<exists>out resid. fst (forward m x lengths) = Inr (out, resid) \<and> has_shape3 B T 200 out
           \<and> (\<forall>b < B. \<forall>t < T. out ! b ! t ! 180 =
                 ((x ! b ! t ! i * (in_lf0_max m - in_lf0_min m) + in_lf0_min m)
                   + 600 * ln 2 / 1200 * tanh (raw ! b ! t ! 0) - out_lf0_mean m)
                 / out_lf0_scale m)))"
proof (intro conjI allI impI; elim conjE)
  fix eo po tmo resid
  assume a: "call (energy_model m) (attrs (energy_model m)) x lengths = Inr eo"
    "has_shape3 B T (sum_list (energy_stream_sizes m)) eo" "energy_stream_sizes m \<noteq> []"
    "call (pitch_model m) (attrs (pitch_model (set_lf0_params m))) x lengths = Inr (po, resid)"
    "has_shape3 B T (sum_list (pitch_stream_sizes m)) po"
    "call (timbre_model m) (attrs (timbre_model m)) x lengths = Inr tmo"
    "has_shape3 B T (sum_list (timbre_stream_sizes m)) tmo"
    "length (timbre_stream_sizes m) = 2"
    "length (pitch_stream_sizes m) = 2 \<or> length (pitch_stream_sizes m) = 3
         \<or> length (pitch_stream_sizes m) = 4"
  have "\<exists>out. forward_body (set_lf0_params m) x lengths = Inr (out, resid) \<and> has_shape2 B T out
          \<and> (\<forall>b < B. \<forall>t < T. out ! b ! t =
                stream_slice (energy_stream_sizes (set_lf0_params m)) 0 (eo ! b ! t)
                @ stream_slice (timbre_stream_sizes (set_lf0_params m)) 0 (tmo ! b ! t)
                @ stream_slice (pitch_stream_sizes (set_lf0_params m)) 0 (po ! b ! t)
                @ stream_slice (pitch_stream_sizes (set_lf0_params m)) 1 (po ! b ! t)
                @ stream_slice (timbre_stream_sizes (set_lf0_params m)) 1 (tmo ! b ! t)
                @ concat (map (\<lambda>k. stream_slice (pitch_stream_sizes (set_lf0_params m)) k (po ! b ! t))
                            [2..<length (pitch_stream_sizes (set_lf0_params m))]))"
    by (rule forward_body_order) (use a in \<open>simp_all add: set_lf0_params_same\<close>)
  then show "\<exists>out. fst (forward m x lengths) = Inr (out, resid) \<and> has_shape2 B T out
          \<and> (\<forall>b < B. \<forall>t < T. out ! b ! t =
                stream_slice (energy_stream_sizes m) 0 (eo ! b ! t)
                @ stream_slice (timbre_stream_sizes m) 0 (tmo ! b ! t)
                @ stream_slice (pitch_stream_sizes m) 0 (po ! b ! t)
                @ stream_slice (pitch_stream_sizes m) 1 (po ! b ! t)
                @ stream_slice (timbre_stream_sizes m) 1 (tmo ! b ! t)
                @ concat (map (\<lambda>k. stream_slice (pitch_stream_sizes m) k (po ! b ! t))
                            [2..<length (pitch_stream_sizes m)]))"
    unfolding set_lf0_params_same by (simp add: forward_def Let_def)
next
  fix eo po resid
  assume a: "call (energy_model m) (attrs (energy_model m)) x lengths = Inr eo"
    "has_shape3 B T (sum_list (energy_stream_sizes m)) eo" "energy_stream_sizes m \<noteq> []"
    "call (pitch_model m) (attrs (pitch_model (set_lf0_params m))) x lengths = Inr (po, resid)"
    "has_shape3 B T (sum_list (pitch_stream_sizes m)) po"
    "length (pitch_stream_sizes m) \<noteq> 2" "length (pitch_stream_sizes m) \<noteq> 3"
    "length (pitch_stream_sizes m) \<noteq> 4"
  have "forward_body (set_lf0_params m) x lengths = Inl ValueError"
    by (rule forward_body_bad_arity[where eo = eo and po = po and resid = resid and B = B and T = T])
       (use a in \<open>simp_all add: set_lf0_params_same\<close>)
  then show "fst (forward m x lengths) = Inl ValueError"
    by (simp add: forward_def Let_def)
next
  fix p eo tmo h raw i Cin
  assume pm: "pitch_model m = ResF0VariancePredictor_module p" and oi: "out_lf0_idx p = 0"
    and sizes: "energy_stream_sizes m = [1]" "timbre_stream_sizes m = [179, 15]"
      "pitch_stream_sizes m = [1, 1, 3]"
    and x: "has_shape3 B T Cin x" and ii: "py_index Cin (in_lf0_idx m) = Inr i"
    and E: "call (energy_model m) (attrs (energy_model m)) x lengths = Inr eo"
      "has_shape3 B T 1 eo"
    and Tm: "call (timbre_model m) (attrs (timbre_model m)) x lengths = Inr tmo"
      "has_shape3 B T 194 tmo"
    and net: "ResF0VariancePredictor.conv p (transpose12 x) = Inr h"
      "ResF0VariancePredictor.fc p (transpose12 h) = Inr raw" "has_shape3 B T 5 raw"
  show "\<exists>out resid. fst (forward m x lengths) = Inr (out, resid) \<and> has_shape3 B T 200 out
           \<and> (\<forall>b < B. \<forall>t < T. out ! b ! t ! 180 =
                 ((x ! b ! t ! i * (in_lf0_max m - in_lf0_min m) + in_lf0_min m)
                   + 600 * ln 2 / 1200 * tanh (raw ! b ! t ! 0) - out_lf0_mean m)
                 / out_lf0_scale m)"
    by (rule forward_scenario[OF pm sizes x ii oi E Tm net])
qed


theorem multistream_join_order_witness:
  "\<exists>out resid.
     fst (forward
      \<lparr>in_lf0_idx = 0, in_lf0_min = 539/100, in_lf0_max = 649/100, out_lf0_idx = 180,
       out_lf0_mean = 595/100, out_lf0_scale = 1/4,
       energy_model = \<lparr>attrs = Map.empty, call = (\<lambda>a x l. Inr [[[8]]])\<rparr>,
       energy_stream_sizes = [1],
       pitch_model = ResF0VariancePredictor_module
         \<lparr>in_lf0_idx = 300, in_lf0_min = 0, in_lf0_max = 1, out_lf0_idx = 0, out_lf0_mean = 0,
          out_lf0_scale = 1, ResF0VariancePredictor.conv = Inr,
          ResF0VariancePredictor.fc = (\<lambda>h. Inr [[[0, 1, 2, 3, 4]]])\<rparr>,
       pitch_stream_sizes = [1, 1, 3],
       timbre_model = \<lparr>attrs = Map.empty, call = (\<lambda>a x l. Inr [[replicate 194 0]])\<rparr>,
       timbre_stream_sizes = [179, 15]\<rparr> [[[1/2]]] None) = Inr (out, resid)
   \<and> has_shape3 1 1 200 out
   \<and> out ! 0 ! 0 ! 180 = ((1/2 * (649/100 - 539/100) + 539/100) - 595/100) / (1/4)"
proof -
  let ?p = "\<lparr>in_lf0_idx = 300, in_lf0_min = 0, in_lf0_max = 1, out_lf0_idx = 0, out_lf0_mean = 0,
          out_lf0_scale = 1, ResF0VariancePredictor.conv = Inr,
          ResF0VariancePredictor.fc = (\<lambda>h. Inr [[[0, 1, 2, 3, 4 :: real]]])\<rparr>"
  let ?m = "\<lparr>in_lf0_idx = 0, in_lf0_min = 539/100, in_lf0_max = 649/100, out_lf0_idx = 180,
       out_lf0_mean = 595/100, out_lf0_scale = 1/4,
       energy_model = \<lparr>attrs = Map.empty, call = (\<lambda>a x l. Inr [[[8]]])\<rparr>,
       energy_stream_sizes = [1],
       pitch_model = ResF0VariancePredictor_module
         \<lparr>in_lf0_idx = 300, in_lf0_min = 0, in_lf0_max = 1, out_lf0_idx = 0, out_lf0_mean = 0,
          out_lf0_scale = 1, ResF0VariancePredictor.conv = Inr,
          ResF0VariancePredictor.fc = (\<lambda>h. Inr [[[0, 1, 2, 3, 4]]])\<rparr>,
       pitch_stream_sizes = [1, 1, 3],
       timbre_model = \<lparr>attrs = Map.empty, call = (\<lambda>a x l. Inr [[replicate 194 0]])\<rparr>,
       timbre_stream_sizes = [179, 15]\<rparr>"
  let ?x = "[[[1/2 :: real]]]"
  have sh: "has_shape3 1 1 1 ?x" "has_shape3 1 1 1 [[[8 :: real]]]"
    "has_shape3 1 1 194 [[replicate 194 (0 :: real)]]" "has_shape3 1 1 5 [[[0, 1, 2, 3, 4 :: real]]]"
    by (simp_all add: has_shape3_def has_shape2_def)
  have idx: "py_index 1 0 = Inr 0" by (simp add: py_index_def)
  from multistream_join_order[of ?m ?x None 1 1]
  have "\<forall>p eo tmo h raw i Cin.
      pitch_model ?m = ResF0VariancePredictor_module p \<and> out_lf0_idx p = 0
    \<and> energy_stream_sizes ?m = [1] \<and> timbre_stream_sizes ?m = [179, 15]
    \<and> pitch_stream_sizes ?m = [1, 1, 3]
    \<and> has_shape3 1 1 Cin ?x \<and> py_index Cin (in_lf0_idx ?m) = Inr i
    \<and> call (energy_model ?m) (attrs (energy_model ?m)) ?x None = Inr eo \<and> has_shape3 1 1 1 eo
    \<and> call (timbre_model ?m) (attrs (timbre_model ?m)) ?x None = Inr tmo
    \<and> has_shape3 1 1 194 tmo
    \<and> ResF0VariancePredictor.conv p (transpose12 ?x) = Inr h
    \<and> ResF0VariancePredictor.fc p (transpose12 h) = Inr raw \<and> has_shape3 1 1 5 raw \<longrightarrow>
      (\<exists>out resid. fst (forward ?m ?x None) = Inr (out, resid) \<and> has_shape3 1 1 200 out
           \<and> (\<forall>b < 1. \<forall>t < 1. out ! b ! t ! 180 =
                 ((?x ! b ! t ! i * (in_lf0_max ?m - in_lf0_min ?m) + in_lf0_min ?m)
                   + 600 * ln 2 / 1200 * tanh (raw ! b ! t ! 0) - out_lf0_mean ?m)
                 / out_lf0_scale ?m))"
    by blast
  from this[rule_format, of ?p 1 0 "[[[8]]]" "[[replicate 194 0]]" "transpose12 ?x"
      "[[[0, 1, 2, 3, 4]]]"] sh idx
  show ?thesis by simp
qed

section \<open>Shallow autoregressive filtering: analysis and synthesis\<close>

lemma map_nth_upt: "map (\<lambda>j. g (xs ! j)) [0..<length xs] = map g xs"
  by (rule nth_equalityI) simp_all

lemma transpose_rect:
  assumes "\<And>f. f \<in> set seq \<Longrightarrow> length f = C" "seq \<noteq> []"
  shows "transpose seq = map (\<lambda>c. map (\<lambda>f. f ! c) seq) [0..<C]"
proof -
  have "transpose seq = map (\<lambda>i. map (\<lambda>j. seq ! j ! i) [0..<length seq]) [0..<C]"
    by (rule transpose_rectangle) (use assms in auto)
  also have "\<dots> = map (\<lambda>c. map (\<lambda>f. f ! c) seq) [0..<C]"
  proof (rule map_cong[OF refl])
    fix i
    show "map (\<lambda>j. seq ! j ! i) [0..<length seq] = map (\<lambda>f. f ! i) seq"
      by (rule map_nth_upt[of "\<lambda>f. f ! i" seq])
  qed
  finally show ?thesis .
qed

lemma transpose_rect_rows:
  assumes "\<And>ch. ch \<in> set M \<Longrightarrow> length ch = T" "M \<noteq> []"
  shows "length (transpose M) = T"
    and "\<And>f. f \<in> set (transpose M) \<Longrightarrow> length f = length M"
    and "j < length M \<Longrightarrow> map (\<lambda>f. f ! j) (transpose M) = M ! j"
proof -
  note t = transpose_rect[OF assms]
  show "length (transpose M) = T" by (simp add: t)
  show "length f = length M" if "f \<in> set (transpose M)" for f
  proof -
    from that have "f \<in> set (map (\<lambda>c. map (\<lambda>f. f ! c) M) [0..<T])" by (simp only: t)
    then show ?thesis by auto
  qed
  show "map (\<lambda>f. f ! j) (transpose M) = M ! j" if "j < length M"
  proof (rule nth_equalityI)
    have l: "length (M ! j) = T" using assms(1) that by simp
    show "length (map (\<lambda>f. f ! j) (transpose M)) = length (M ! j)"
      by (simp add: t l)
    fix i assume "i < length (map (\<lambda>f. f ! j) (transpose M))"
    then have "i < T" by (simp add: t)
    then show "map (\<lambda>f. f ! j) (transpose M) ! i = M ! j ! i"
      using that by (simp add: t)
  qed
qed


lemma transpose_transpose_rect:
  assumes "\<And>f. f \<in> set seq \<Longrightarrow> length f = C" "seq \<noteq> []" "0 < C"
  shows "transpose (map (\<lambda>c. map (\<lambda>f. f ! c) seq) [0..<C]) = seq"
proof -
  let ?M = "map (\<lambda>c. map (\<lambda>f. f ! c) seq) [0..<C]"
  have M: "\<And>ch. ch \<in> set ?M \<Longrightarrow> length ch = length seq" "?M \<noteq> []"
    using assms(3) by auto
  have t: "transpose ?M = map (\<lambda>t. map (\<lambda>ch. ch ! t) ?M) [0..<length seq]"
    by (rule transpose_rect[OF M])
  show ?thesis
  proof (rule nth_equalityI)
    show "length (transpose ?M) = length seq" by (simp add: t)
    fix i assume "i < length (transpose ?M)"
    then have i: "i < length seq" by (simp add: t)
    then have l: "length (seq ! i) = C" using assms(1) by simp
    have "transpose ?M ! i = map (\<lambda>c. seq ! i ! c) [0..<C]"
      using i by (simp add: t o_def)
    also have "\<dots> = seq ! i"
      using map_nth[of "seq ! i"] l by simp
    finally show "transpose ?M ! i = seq ! i" .
  qed
qed

lemma dot_zeros: "dot (replicate n 0) h = 0"
proof (induction n arbitrary: h)
  case 0
  then show ?case by (simp add: dot_def)
next
  case (Suc n)
  then show ?case by (cases h) (simp_all add: dot_def)
qed

lemma dot_Cons: "dot (a # c) (x # h) = a * x + dot c h"
  by (simp add: dot_def)

lemma fir_scan_length: "length (fir_scan c h xs) = length xs"
  by (induction xs arbitrary: h) simp_all

lemma lfilter_scan_length: "length (lfilter_scan a b xh yh xs) = length xs"
  by (induction xs arbitrary: xh yh) (simp_all add: Let_def)

lemma lfilter_fir_inverse:
  "lfilter_scan (1 # c) (1 # replicate (length c) 0) uh xh (fir_scan (1 # c) xh xs) = xs"
  by (induction xs arbitrary: uh xh) (simp_all add: Let_def dot_Cons dot_zeros)

lemma unit_impulse: "n \<noteq> 0 \<Longrightarrow> (replicate n (0::real))[0 := 1] = 1 # replicate (n - 1) 0"
  by (cases n) simp_all

lemma sum_list_take_Suc:
  "k < length sizes \<Longrightarrow> sum_list (take (Suc k) sizes) = sum_list (take k sizes) + (sizes ! k :: nat)"
  by (simp add: take_Suc_conv_app_nth)

lemma sum_list_take_mono:
  "i \<le> j \<Longrightarrow> sum_list (take i sizes) \<le> sum_list (take j (sizes :: nat list))"
proof (induction j)
  case 0
  then show ?case by simp
next
  case (Suc j)
  show ?case
  proof (cases "i = Suc j")
    case True
    then show ?thesis by simp
  next
    case False
    with Suc have le: "sum_list (take i sizes) \<le> sum_list (take j sizes)" by simp
    show ?thesis
    proof (cases "j < length sizes")
      case True
      then show ?thesis using le by (simp add: sum_list_take_Suc)
    next
      case False
      then show ?thesis using le by simp
    qed
  qed
qed

lemma concat_ranges_length:
  "n \<le> length sizes \<Longrightarrow>
     length (concat (map (\<lambda>k. map (G k) [0..<sizes ! k]) [0..<n])) = sum_list (take n sizes)"
  by (induction n) (simp_all add: sum_list_take_Suc)

lemma concat_ranges_nth:
  assumes "n \<le> length sizes" "k < n" "c < sizes ! k"
  shows "concat (map (\<lambda>k. map (G k) [0..<sizes ! k]) [0..<n]) ! (sum_list (take k sizes) + c) = G k c"
  using assms
proof (induction n)
  case 0
  then show ?case by simp
next
  case (Suc n)
  have len: "length (concat (map (\<lambda>k. map (G k) [0..<sizes ! k]) [0..<n])) = sum_list (take n sizes)"
    using Suc.prems(1) by (simp add: concat_ranges_length)
  show ?case
  proof (cases "k = n")
    case True
    then show ?thesis using Suc.prems len by (simp add: nth_append)
  next
    case False
    then have k: "k < n" using Suc.prems(2) by simp
    have "sum_list (take (Suc k) sizes) \<le> sum_list (take n sizes)"
      by (rule sum_list_take_mono) (use k in simp)
    then have "sum_list (take k sizes) + c < sum_list (take n sizes)"
      using Suc.prems k by (simp add: sum_list_take_Suc)
    then show ?thesis
      using Suc.IH[OF _ k Suc.prems(3)] Suc.prems(1) len by (simp add: nth_append)
  qed
qed

lemma concat_ranges_map:
  "n \<le> length sizes \<Longrightarrow>
     concat (map (\<lambda>k. map (\<lambda>c. g (sum_list (take k sizes) + c)) [0..<sizes ! k]) [0..<n])
       = map g [0..<sum_list (take n sizes)]"
proof (induction n)
  case 0
  then show ?case by simp
next
  case (Suc n)
  let ?s = "sum_list (take n sizes)"
  have a: "map (\<lambda>c. g (?s + c)) [0..<sizes ! n] = map g [?s..<?s + sizes ! n]"
    by (rule nth_equalityI) simp_all
  have b: "[0..<?s + sizes ! n] = [0..<?s] @ [?s..<?s + sizes ! n]"
    by (rule upt_add_eq_append) simp
  have n: "n < length sizes" "n \<le> length sizes" using Suc.prems by simp_all
  have "concat (map (\<lambda>k. map (\<lambda>c. g (sum_list (take k sizes) + c)) [0..<sizes ! k]) [0..<Suc n])
        = map g [0..<?s] @ map g [?s..<?s + sizes ! n]"
    using Suc.IH[OF n(2)] a by simp
  also have "\<dots> = map g [0..<sum_list (take (Suc n) sizes)]"
    unfolding sum_list_take_Suc[OF n(1)] b by simp
  finally show ?case .
qed

lemma stream_slice_frame:
  assumes "length f = sum_list sizes" "k < length sizes"
  shows "length (stream_slice sizes k f) = sizes ! k"
    and "c < sizes ! k \<Longrightarrow> stream_slice sizes k f ! c = f ! (sum_list (take k sizes) + c)"
proof -
  have "sum_list (take (Suc k) sizes) \<le> sum_list (take (length sizes) sizes)"
    by (rule sum_list_take_mono) (use assms(2) in simp)
  then have le: "sum_list (take k sizes) + sizes ! k \<le> length f"
    using assms by (simp add: sum_list_take_Suc)
  then show "length (stream_slice sizes k f) = sizes ! k"
    by (simp add: stream_slice_def)
  show "stream_slice sizes k f ! c = f ! (sum_list (take k sizes) + c)" if "c < sizes ! k"
    using that le by (simp add: stream_slice_def)
qed

lemma transpose_stream:
  assumes "\<And>f. f \<in> set seq \<Longrightarrow> length f = sum_list sizes" "seq \<noteq> []" "k < length sizes"
  shows "transpose (map (stream_slice sizes k) seq)
         = map (\<lambda>c. map (\<lambda>f. f ! (sum_list (take k sizes) + c)) seq) [0..<sizes ! k]"
proof -
  have "transpose (map (stream_slice sizes k) seq)
        = map (\<lambda>c. map (\<lambda>f. f ! c) (map (stream_slice sizes k) seq)) [0..<sizes ! k]"
    by (rule transpose_rect) (use assms stream_slice_frame(1) in auto)
  also have "\<dots> = map (\<lambda>c. map (\<lambda>f. f ! (sum_list (take k sizes) + c)) seq) [0..<sizes ! k]"
    using assms(1,3) by (auto simp: stream_slice_frame(2))
  finally show ?thesis .
qed

lemma sar_channel_ok:
  assumes "c < length a" "a ! c \<noteq> []"
  shows "sar_channel a os c
         = Inr (map (\<lambda>s. lfilter_scan (rev (a ! c)) ((replicate (length (a ! c)) 0)[0 := 1]) [] []
                        (s ! c)) os)"
  using assms by (simp add: sar_channel_def lfilter_def Let_def o_def)

lemma sar_stream_ok:
  assumes "sidx < length filts" "\<And>s. s \<in> set os \<Longrightarrow> length s = w"
    and "w \<le> length (get_filt_coefs (filts ! sidx))"
    and "\<And>c. c < w \<Longrightarrow> get_filt_coefs (filts ! sidx) ! c \<noteq> []"
  shows "sar_stream filts sidx os
         = Inr (map (\<lambda>s. map (\<lambda>c. lfilter_scan (rev (get_filt_coefs (filts ! sidx) ! c))
                   ((replicate (length (get_filt_coefs (filts ! sidx) ! c)) 0)[0 := 1]) [] []
                   (s ! c)) [0..<w]) os)"
proof (cases "os = []")
  case True
  then show ?thesis using assms(1) by (simp add: sar_stream_def dim1_def)
next
  case False
  let ?a = "get_filt_coefs (filts ! sidx)"
  let ?F = "\<lambda>c. lfilter_scan (rev (?a ! c)) ((replicate (length (?a ! c)) 0)[0 := 1]) [] []"
  from False assms(2) have d: "dim1 os = w" by (cases os) (auto simp: dim1_def)
  have m: "mapM (sar_channel ?a os) [0..<w] = Inr (map (\<lambda>c. map (\<lambda>s. ?F c (s ! c)) os) [0..<w])"
    by (rule mapM_Inr) (use assms(3,4) in \<open>simp add: sar_channel_ok\<close>)
  have "map (\<lambda>b. map (\<lambda>r. r ! b) (map (\<lambda>c. map (\<lambda>s. ?F c (s ! c)) os) [0..<w])) [0..<length os]
        = map (\<lambda>s. map (\<lambda>c. ?F c (s ! c)) [0..<w]) os"
    by (rule nth_equalityI) simp_all
  then show ?thesis
    using assms(1) by (simp add: sar_stream_def d m Let_def)
qed

lemma cat2_dim1_ok:
  assumes "length a = B" "length b = B"
    and "\<And>s ch. s \<in> set a \<Longrightarrow> ch \<in> set s \<Longrightarrow> length ch = T"
    and "\<And>s ch. s \<in> set b \<Longrightarrow> ch \<in> set s \<Longrightarrow> length ch = T"
  shows "cat2_dim1 a b = Inr (map2 (@) a b)"
proof -
  have "length ch = length ch'"
    if "(s, s') \<in> set (zip a b)" "ch \<in> set s" "ch' \<in> set s'" for s s' ch ch'
    using assms(3)[OF set_zip_leftD[OF that(1)] that(2)]
      assms(4)[OF set_zip_rightD[OF that(1)] that(3)] by simp
  then show ?thesis
    using assms(1,2) by (auto simp: cat2_dim1_def)
qed

lemma cat_dim1_ok:
  assumes "ts \<noteq> []" "\<And>x. x \<in> set ts \<Longrightarrow> length x = B"
    and "\<And>x s ch. x \<in> set ts \<Longrightarrow> s \<in> set x \<Longrightarrow> ch \<in> set s \<Longrightarrow> length ch = T"
  shows "\<exists>r. cat_dim1 ts = Inr r \<and> length r = B
           \<and> (\<forall>b < B. r ! b = concat (map (\<lambda>x. x ! b) ts))"
  using assms
proof (induction ts rule: cat_dim1.induct)
  case 1
  then show ?case by simp
next
  case (2 a)
  then show ?case by simp
next
  case (3 a b rest)
  have l: "length a = B" "length b = B" using 3(3) by simp_all
  have c: "cat2_dim1 a b = Inr (map2 (@) a b)"
    by (rule cat2_dim1_ok[OF l, of T]) (use 3(4) in auto)
  have ch: "length ch = T" if "s \<in> set (map2 (@) a b)" "ch \<in> set s" for s ch
  proof -
    from that(1) obtain s1 s2 where "s = s1 @ s2" "s1 \<in> set a" "s2 \<in> set b"
      by (auto dest: set_zip_leftD set_zip_rightD)
    with that(2) 3(4) show ?thesis by auto
  qed
  have "\<exists>r. cat_dim1 (map2 (@) a b # rest) = Inr r \<and> length r = B
           \<and> (\<forall>i < B. r ! i = concat (map (\<lambda>x. x ! i) (map2 (@) a b # rest)))"
  proof (rule 3(1)[OF c])
    show "map2 (@) a b # rest \<noteq> []" by simp
    show "length x = B" if "x \<in> set (map2 (@) a b # rest)" for x
      using that l 3(3) by auto
    show "length ch = T" if "x \<in> set (map2 (@) a b # rest)" "s \<in> set x" "ch \<in> set s" for x s ch
    proof (cases "x = map2 (@) a b")
      case True
      then show ?thesis using that ch by simp
    next
      case False
      then have "x \<in> set (a # b # rest)" using that(1) by simp
      then show ?thesis using 3(4) that(2,3) by blast
    qed
  qed
  then show ?case using c l by auto
qed

lemma zip_upt_map: "zip [0..<n] (map g [0..<n]) = map (\<lambda>k. (k, g k)) [0..<n]"
  by (rule nth_equalityI) simp_all

lemma has_shape3_seq:
  assumes "has_shape3 B T D out" "seq \<in> set out"
  shows "length seq = T" and "\<And>f. f \<in> set seq \<Longrightarrow> length f = D"
  using assms by (auto simp: has_shape3_def has_shape2_def)

lemma transposed_streams:
  assumes out: "has_shape3 B T (sum_list sizes) out" and T: "0 < T"
  shows "map transpose12 (map (\<lambda>k. map (map (stream_slice sizes k)) out) [0..<length sizes])
         = map (\<lambda>k. map (\<lambda>seq. map (\<lambda>c. map (\<lambda>f. f ! (sum_list (take k sizes) + c)) seq)
                                       [0..<sizes ! k]) out) [0..<length sizes]"
proof -
  have "transpose12 (map (map (stream_slice sizes k)) out)
        = map (\<lambda>seq. map (\<lambda>c. map (\<lambda>f. f ! (sum_list (take k sizes) + c)) seq) [0..<sizes ! k]) out"
    if k: "k < length sizes" for k
  proof -
    have "transpose (map (stream_slice sizes k) seq)
          = map (\<lambda>c. map (\<lambda>f. f ! (sum_list (take k sizes) + c)) seq) [0..<sizes ! k]"
      if "seq \<in> set out" for seq
    proof (rule transpose_stream[OF _ _ k])
      show "seq \<noteq> []" using has_shape3_seq(1)[OF out that] T by auto
      show "\<And>f. f \<in> set seq \<Longrightarrow> length f = sum_list sizes"
        by (rule has_shape3_seq(2)[OF out that])
    qed
    then show ?thesis by (simp add: transpose12_def)
  qed
  then show ?thesis by simp
qed

lemma shallow_ar_whole:
  assumes out: "has_shape3 B T (sum_list sizes) out" and T: "0 < T" and ne: "sizes \<noteq> []"
    and nf: "length sizes \<le> length filts"
    and ch: "\<And>k. k < length sizes \<Longrightarrow> sizes ! k \<le> length (get_filt_coefs (filts ! k))"
    and taps: "\<And>k c. k < length sizes \<Longrightarrow> c < sizes ! k \<Longrightarrow> get_filt_coefs (filts ! k) ! c \<noteq> []"
  shows "shallow_ar_inference out sizes filts
         = Inr (map (\<lambda>seq. transpose (concat (map (\<lambda>k. map (\<lambda>c.
                   lfilter_scan (rev (get_filt_coefs (filts ! k) ! c))
                     ((replicate (length (get_filt_coefs (filts ! k) ! c)) 0)[0 := 1]) [] []
                     (map (\<lambda>f. f ! (sum_list (take k sizes) + c)) seq))
                 [0..<sizes ! k]) [0..<length sizes]))) out)"
proof -
  let ?n = "length sizes"
  let ?F = "\<lambda>k c. lfilter_scan (rev (get_filt_coefs (filts ! k) ! c))
                     ((replicate (length (get_filt_coefs (filts ! k) ! c)) 0)[0 := 1]) [] []"
  let ?OS = "\<lambda>k. map (\<lambda>seq. map (\<lambda>c. map (\<lambda>f. f ! (sum_list (take k sizes) + c)) seq)
                                       [0..<sizes ! k]) out"
  let ?R = "\<lambda>k. map (\<lambda>seq. map (\<lambda>c. ?F k c (map (\<lambda>f. f ! (sum_list (take k sizes) + c)) seq))
                                       [0..<sizes ! k]) out"
  let ?M = "\<lambda>seq. concat (map (\<lambda>k. map (\<lambda>c. ?F k c (map (\<lambda>f. f ! (sum_list (take k sizes) + c)) seq))
                 [0..<sizes ! k]) [0..<?n])"
  have sp: "split_streams out sizes = Inr (map (\<lambda>k. map (map (stream_slice sizes k)) out) [0..<?n])"
    by (rule split_streams_ok[OF out])
  note ts = transposed_streams[OF out T]
  have st: "sar_stream filts k (?OS k) = Inr (?R k)" if k: "k < ?n" for k
  proof -
    have "sar_stream filts k (?OS k)
          = Inr (map (\<lambda>s. map (\<lambda>c. ?F k c (s ! c)) [0..<sizes ! k]) (?OS k))"
      by (rule sar_stream_ok) (use k nf ch taps in auto)
    also have "map (\<lambda>s. map (\<lambda>c. ?F k c (s ! c)) [0..<sizes ! k]) (?OS k) = ?R k"
      by (simp add: o_def)
    finally show ?thesis .
  qed
  have mm: "mapM (\<lambda>(sidx, os). sar_stream filts sidx os) (zip [0..<?n] (map ?OS [0..<?n]))
        = Inr (map ?R [0..<?n])"
  proof -
    have "mapM (\<lambda>(sidx, os). sar_stream filts sidx os) (map (\<lambda>k. (k, ?OS k)) [0..<?n])
          = Inr (map (\<lambda>p. ?R (fst p)) (map (\<lambda>k. (k, ?OS k)) [0..<?n]))"
      by (rule mapM_Inr) (use st in auto)
    then show ?thesis by (simp add: zip_upt_map o_def)
  qed
  have "\<exists>r. cat_dim1 (map ?R [0..<?n]) = Inr r \<and> length r = B
           \<and> (\<forall>b < B. r ! b = concat (map (\<lambda>x. x ! b) (map ?R [0..<?n])))"
  proof (rule cat_dim1_ok[where T = T])
    show "map ?R [0..<?n] \<noteq> []" using ne by simp
    show "length x = B" if "x \<in> set (map ?R [0..<?n])" for x
      using that out by (auto simp: has_shape3_def)
    show "length c = T" if "x \<in> set (map ?R [0..<?n])" "s \<in> set x" "c \<in> set s" for x s c
      using that has_shape3_seq(1)[OF out] by (auto simp: lfilter_scan_length)
  qed
  then obtain r where r: "cat_dim1 (map ?R [0..<?n]) = Inr r" "length r = B"
    "\<forall>b < B. r ! b = concat (map (\<lambda>x. x ! b) (map ?R [0..<?n]))" by blast
  have lb: "length out = B" using out by (simp add: has_shape3_def)
  have "r = map ?M out"
  proof (rule nth_equalityI)
    show "length r = length (map ?M out)" using r(2) lb by simp
    fix b assume "b < length r"
    then have b: "b < B" using r(2) by simp
    have "r ! b = concat (map (\<lambda>k. ?R k ! b) [0..<?n])"
      using r(3) b by (simp add: o_def)
    also have "\<dots> = ?M (out ! b)"
      using b lb by simp
    finally show "r ! b = map ?M out ! b" using b lb by simp
  qed
  then have cat: "cat_dim1 (map ?R [0..<?n]) = Inr (map ?M out)" using r(1) by simp
  have e: "transpose12 (map ?M out) = map (\<lambda>seq. transpose (?M seq)) out"
    by (simp add: transpose12_def)
  show ?thesis
    unfolding shallow_ar_inference_def sp sum.case Let_def ts
    by (simp add: mm cat e)
qed

lemma sum_list_pos_ne: "0 < sum_list (sizes :: nat list) \<Longrightarrow> sizes \<noteq> []"
  by auto

lemma transposed_rows_shape:
  assumes "length out = B" "0 < D"
    and "\<And>seq. seq \<in> set out \<Longrightarrow> length (M seq) = D"
    and "\<And>seq ch. seq \<in> set out \<Longrightarrow> ch \<in> set (M seq) \<Longrightarrow> length ch = T"
  shows "has_shape3 B T D (map (\<lambda>seq. transpose (M seq)) out)"
  unfolding has_shape3_def has_shape2_def
proof (intro conjI ballI)
  show "length (map (\<lambda>seq. transpose (M seq)) out) = B" using assms(1) by simp
next
  fix s assume "s \<in> set (map (\<lambda>seq. transpose (M seq)) out)"
  then obtain seq where seq: "seq \<in> set out" "s = transpose (M seq)" by auto
  have ne: "M seq \<noteq> []" using assms(3)[OF seq(1)] assms(2) by auto
  show "length s = T"
    unfolding seq(2) by (rule transpose_rect_rows(1)[OF assms(4)[OF seq(1)] ne])
  fix f assume "f \<in> set s"
  then have "f \<in> set (transpose (M seq))" by (simp only: seq(2))
  from transpose_rect_rows(2)[OF assms(4)[OF seq(1)] ne this]
  show "length f = D" using assms(3)[OF seq(1)] by simp
qed

lemma transposed_rows_column:
  assumes "\<And>ch. ch \<in> set M \<Longrightarrow> length ch = T" "j < length M"
  shows "map (\<lambda>f. f ! j) (transpose M) = M ! j"
proof -
  have "M \<noteq> []" using assms(2) by auto
  from transpose_rect_rows(3)[OF assms(1) this assms(2)] show ?thesis .
qed

lemma stream_rows:
  assumes "ch \<in> set (concat (map (\<lambda>k. map (H k) [0..<w k]) [0..<n]))"
    and "\<And>k c. length (H k c) = T"
  shows "length ch = T"
proof -
  from assms(1) obtain k c where "ch = H k c" by auto
  then show ?thesis by (simp add: assms(2))
qed

text \<open>
  Claim C7. On a \<open>(B, T, D)\<close> output whose width \<open>D\<close> is the sum of the stream sizes, with
  one analysis filter per stream holding at least one coefficient for each dimension of
  its stream, \<^verbatim>\<open>_shallow_ar_inference\<close> returns a tensor of the same shape in which, for
  every batch element, every stream \<open>k\<close> and every dimension \<open>c\<close> of that stream, the column
  at the stream's offset plus \<open>c\<close> is the IIR recursion \<^verbatim>\<open>lfilter\<close> run along time on the
  same column of the input, with the time-reversed coefficients of that dimension as
  denominator and the unit impulse as numerator. Columns stay where the stream layout
  puts them.
\<close>

theorem shallow_ar_inference_iir:
  assumes "has_shape3 B T (sum_list sizes) out" "0 < T" "0 < sum_list sizes"
    and "length sizes \<le> length filts"
    and "\<forall>k < length sizes. sizes ! k \<le> length (get_filt_coefs (filts ! k))
           \<and> (\<forall>c < sizes ! k. get_filt_coefs (filts ! k) ! c \<noteq> [])"
  shows "\<exists>res. shallow_ar_inference out sizes filts = Inr res
           \<and> has_shape3 B T (sum_list sizes) res
           \<and> (\<forall>b < B. \<forall>k < length sizes. \<forall>c < sizes ! k.
                 map (\<lambda>f. f ! (sum_list (take k sizes) + c)) (res ! b)
                 = lfilter_scan (rev (get_filt_coefs (filts ! k) ! c))
                     ((replicate (length (get_filt_coefs (filts ! k) ! c)) 0)[0 := 1]) [] []
                     (map (\<lambda>f. f ! (sum_list (take k sizes) + c)) (out ! b)))"
proof -
  let ?n = "length sizes" and ?D = "sum_list sizes"
  let ?F = "\<lambda>k c. lfilter_scan (rev (get_filt_coefs (filts ! k) ! c))
                     ((replicate (length (get_filt_coefs (filts ! k) ! c)) 0)[0 := 1]) [] []"
  let ?g = "\<lambda>seq k c. map (\<lambda>f. f ! (sum_list (take k sizes) + c)) seq"
  let ?M = "\<lambda>seq. concat (map (\<lambda>k. map (\<lambda>c. ?F k c (?g seq k c)) [0..<sizes ! k]) [0..<?n])"
  let ?res = "map (\<lambda>seq. transpose (?M seq)) out"
  have ne: "sizes \<noteq> []" by (rule sum_list_pos_ne[OF assms(3)])
  have ch: "\<And>k. k < ?n \<Longrightarrow> sizes ! k \<le> length (get_filt_coefs (filts ! k))"
    and taps: "\<And>k c. k < ?n \<Longrightarrow> c < sizes ! k \<Longrightarrow> get_filt_coefs (filts ! k) ! c \<noteq> []"
    using assms(5) by blast+
  have r: "shallow_ar_inference out sizes filts = Inr ?res"
    by (rule shallow_ar_whole[OF assms(1,2) ne assms(4) ch taps])
  have lb: "length out = B" using assms(1) by (simp add: has_shape3_def)
  have lM: "length (?M seq) = ?D" for seq
    using concat_ranges_length[of ?n sizes "\<lambda>k c. ?F k c (?g seq k c)"] by simp
  have rows: "length ch = T" if "seq \<in> set out" "ch \<in> set (?M seq)" for seq ch
  proof (rule stream_rows[where H = "\<lambda>k c. ?F k c (?g seq k c)", OF that(2)])
    show "length (?F k c (?g seq k c)) = T" for k c
      using has_shape3_seq(1)[OF assms(1) that(1)] by (simp add: lfilter_scan_length)
  qed
  have sh: "has_shape3 B T ?D ?res"
    by (rule transposed_rows_shape[OF lb assms(3) lM rows])
  have cols: "?g (?res ! b) k c = ?F k c (?g (out ! b) k c)"
    if b: "b < B" and k: "k < ?n" and c: "c < sizes ! k" for b k c
  proof -
    have mem: "out ! b \<in> set out" using b lb by simp
    have "sum_list (take (Suc k) sizes) \<le> sum_list (take ?n sizes)"
      by (rule sum_list_take_mono) (use k in simp)
    then have j: "sum_list (take k sizes) + c < length (?M (out ! b))"
      unfolding lM using k c by (simp add: sum_list_take_Suc)
    have "?g (transpose (?M (out ! b))) k c = ?M (out ! b) ! (sum_list (take k sizes) + c)"
      by (rule transposed_rows_column[OF rows[OF mem] j])
    also have "\<dots> = ?F k c (?g (out ! b) k c)"
      by (rule concat_ranges_nth[OF le_refl k c])
    finally show ?thesis using b lb by simp
  qed
  from r sh cols show ?thesis by blast
qed


theorem shallow_ar_inference_iir_witness:
  "\<exists>res. shallow_ar_inference [[[1, 2], [1, 2]]] [1, 1]
            [\<lparr>weight = [[1/2, 7]]\<rparr>, \<lparr>weight = [[3, 7]]\<rparr>] = Inr res
     \<and> has_shape3 1 2 2 res
     \<and> map (\<lambda>f. f ! 0) (res ! 0) = [1, 1/2]
     \<and> map (\<lambda>f. f ! 1) (res ! 0) = [2, - 4]"
proof -
  let ?out = "[[[1, 2], [1, 2 :: real]]]"
  let ?filts = "[\<lparr>weight = [[1/2, 7 :: real]]\<rparr>, \<lparr>weight = [[3, 7]]\<rparr>]"
  have sh: "has_shape3 1 2 (sum_list [1, 1]) ?out"
    by (simp add: has_shape3_def has_shape2_def)
  have c: "\<forall>k < length [1, 1 :: nat]. [1, 1] ! k \<le> length (get_filt_coefs (?filts ! k))
           \<and> (\<forall>c < [1, 1] ! k. get_filt_coefs (?filts ! k) ! c \<noteq> [])"
    by (simp add: get_filt_coefs_def less_Suc_eq)
  from shallow_ar_inference_iir[OF sh _ _ _ c]
  obtain res where r: "shallow_ar_inference ?out [1, 1] ?filts = Inr res"
    and s: "has_shape3 1 2 (sum_list [1, 1]) res"
    and cols: "\<forall>b < 1. \<forall>k < length [1, 1 :: nat]. \<forall>c < [1, 1] ! k.
                 map (\<lambda>f. f ! (sum_list (take k [1, 1]) + c)) (res ! b)
                 = lfilter_scan (rev (get_filt_coefs (?filts ! k) ! c))
                     ((replicate (length (get_filt_coefs (?filts ! k) ! c)) 0)[0 := 1]) [] []
                     (map (\<lambda>f. f ! (sum_list (take k [1, 1]) + c)) (?out ! b))"
    by auto
  from cols[rule_format, of 0 0 0] have c0: "map (\<lambda>f. f ! 0) (res ! 0) = [1, 1/2]"
    by (simp add: get_filt_coefs_def dot_def)
  from cols[rule_format, of 0 1 0] have c1: "map (\<lambda>f. f ! 1) (res ! 0) = [2, - 4]"
    by (simp add: get_filt_coefs_def dot_def)
  have two: "sum_list [1, 1 :: nat] = 2" by simp
  note s2 = s[unfolded two]
  show ?thesis
  proof (intro exI[of _ res] conjI)
    show "shallow_ar_inference ?out [1, 1] ?filts = Inr res" by (rule r)
    show "has_shape3 1 2 2 res" by (rule s2)
    show "map (\<lambda>f. f ! 0) (res ! 0) = [1, 1/2]" by (rule c0)
    show "map (\<lambda>f. f ! 1) (res ! 0) = [2, - 4]" by (rule c1)
  qed
qed

lemma dim2_shape3: "has_shape3 B T D y \<Longrightarrow> 0 < B \<Longrightarrow> 0 < T \<Longrightarrow> dim2 y = D"
  by (cases y; cases "hd y") (auto simp: has_shape3_def has_shape2_def dim1_def dim2_def)

lemma transposed_stream:
  assumes out: "has_shape3 B T (sum_list sizes) out" and T: "0 < T" and k: "k < length sizes"
  shows "transpose12 (map (map (stream_slice sizes k)) out)
        = map (\<lambda>seq. map (\<lambda>c. map (\<lambda>f. f ! (sum_list (take k sizes) + c)) seq) [0..<sizes ! k]) out"
proof -
  have "transpose (map (stream_slice sizes k) seq)
          = map (\<lambda>c. map (\<lambda>f. f ! (sum_list (take k sizes) + c)) seq) [0..<sizes ! k]"
    if "seq \<in> set out" for seq
  proof (rule transpose_stream[OF _ _ k])
    show "seq \<noteq> []" using has_shape3_seq(1)[OF out that] T by auto
    show "\<And>f. f \<in> set seq \<Longrightarrow> length f = sum_list sizes"
      by (rule has_shape3_seq(2)[OF out that])
  qed
  then show ?thesis by (simp add: transpose12_def)
qed

lemma map2_upt: "length b = w \<Longrightarrow> map2 f b (map g [0..<w]) = map (\<lambda>c. f (b ! c) (g c)) [0..<w]"
  by (rule nth_equalityI) simp_all

lemma filter_forward_ok:
  assumes "length (get_filt_coefs filt) = w"
  shows "TrTimeInvFIRFilter_forward filt (map (\<lambda>seq. map (g seq) [0..<w]) y)
         = Inr (map (\<lambda>seq. map (\<lambda>c. fir_scan (rev (get_filt_coefs filt ! c)) [] (g seq c)) [0..<w]) y)"
proof -
  have "map2 (\<lambda>w ch. fir_scan (rev w) [] ch) (get_filt_coefs filt) (map (g seq) [0..<w])
        = map (\<lambda>c. fir_scan (rev (get_filt_coefs filt ! c)) [] (g seq c)) [0..<w]" for seq
    by (rule map2_upt[OF assms])
  then show ?thesis
    using assms by (simp add: TrTimeInvFIRFilter_forward_def Let_def o_def)
qed

lemma preprocess_stream_ok:
  assumes y: "has_shape3 B T (sum_list sizes) y" and T: "0 < T" and k: "k < length sizes"
    and kf: "k < length filts" and w: "length (get_filt_coefs (filts ! k)) = sizes ! k"
    and pos: "0 < sizes ! k"
  shows "preprocess_stream filts k (map (map (stream_slice sizes k)) y)
         = Inr (map (\<lambda>seq. map (\<lambda>t. map (\<lambda>c.
                   fir_scan (rev (get_filt_coefs (filts ! k) ! c)) []
                     (map (\<lambda>f. f ! (sum_list (take k sizes) + c)) seq) ! t) [0..<sizes ! k])
                 [0..<T]) y)"
proof -
  let ?g = "\<lambda>seq c. map (\<lambda>f. f ! (sum_list (take k sizes) + c)) seq"
  let ?rows = "\<lambda>seq. map (\<lambda>c. fir_scan (rev (get_filt_coefs (filts ! k) ! c)) [] (?g seq c)) [0..<sizes ! k]"
  have f: "TrTimeInvFIRFilter_forward (filts ! k) (transpose12 (map (map (stream_slice sizes k)) y))
           = Inr (map ?rows y)"
    unfolding transposed_stream[OF y T k] by (rule filter_forward_ok[OF w])
  have "transpose (?rows seq) = map (\<lambda>t. map (\<lambda>ch. ch ! t) (?rows seq)) [0..<T]"
    if "seq \<in> set y" for seq
  proof (rule transpose_rect)
    show "?rows seq \<noteq> []" using pos by simp
    show "length ch = T" if "ch \<in> set (?rows seq)" for ch
      using that has_shape3_seq(1)[OF y \<open>seq \<in> set y\<close>] by (auto simp: fir_scan_length)
  qed
  then have "transpose12 (map ?rows y)
             = map (\<lambda>seq. map (\<lambda>t. map (\<lambda>ch. ch ! t) (?rows seq)) [0..<T]) y"
    by (simp add: transpose12_def)
  also have "\<dots> = map (\<lambda>seq. map (\<lambda>t. map (\<lambda>c.
                   fir_scan (rev (get_filt_coefs (filts ! k) ! c)) [] (?g seq c) ! t) [0..<sizes ! k])
                 [0..<T]) y"
    by (simp add: o_def)
  finally show ?thesis
    using kf by (simp add: preprocess_stream_def f)
qed


lemma preprocess_target_cols:
  assumes y: "has_shape3 B T (sum_list sizes) y" and B: "0 < B" and T: "0 < T"
    and ne: "sizes \<noteq> []" and nf: "length sizes \<le> length filts"
    and w: "\<And>k. k < length sizes \<Longrightarrow> length (get_filt_coefs (filts ! k)) = sizes ! k"
    and pos: "\<And>k. k < length sizes \<Longrightarrow> 0 < sizes ! k"
  shows "\<exists>z. preprocess_target sizes filts y = Inr z \<and> has_shape3 B T (sum_list sizes) z
           \<and> (\<forall>b < B. \<forall>k < length sizes. \<forall>c < sizes ! k.
                 map (\<lambda>f. f ! (sum_list (take k sizes) + c)) (z ! b)
                   = fir_scan (rev (get_filt_coefs (filts ! k) ! c)) []
                       (map (\<lambda>f. f ! (sum_list (take k sizes) + c)) (y ! b)))"
proof -
  let ?n = "length sizes"
  let ?S = "\<lambda>k. map (map (stream_slice sizes k)) y"
  let ?H = "\<lambda>seq k c. fir_scan (rev (get_filt_coefs (filts ! k) ! c)) []
                     (map (\<lambda>f. f ! (sum_list (take k sizes) + c)) seq)"
  let ?P = "\<lambda>k. map (\<lambda>seq. map (\<lambda>t. map (\<lambda>c. ?H seq k c ! t) [0..<sizes ! k]) [0..<T]) y"
  have d: "sum_list sizes = dim2 y" using dim2_shape3[OF y B T] by simp
  have sp: "split_streams y sizes = Inr (map ?S [0..<?n])"
    by (rule split_streams_ok[OF y])
  have st: "preprocess_stream filts k (?S k) = Inr (?P k)" if k: "k < ?n" for k
    by (rule preprocess_stream_ok[OF y T k _ w[OF k] pos[OF k]]) (use k nf in simp)
  have mm: "mapM (\<lambda>(idx, yi). preprocess_stream filts idx yi) (zip [0..<?n] (map ?S [0..<?n]))
        = Inr (map ?P [0..<?n])"
  proof -
    have "mapM (\<lambda>(idx, yi). preprocess_stream filts idx yi) (map (\<lambda>k. (k, ?S k)) [0..<?n])
          = Inr (map (\<lambda>p. ?P (fst p)) (map (\<lambda>k. (k, ?S k)) [0..<?n]))"
      by (rule mapM_Inr) (use st in auto)
    then show ?thesis by (simp add: zip_upt_map o_def)
  qed
  have lb: "length y = B" using y by (simp add: has_shape3_def)
  have "\<exists>r. cat_last (map ?P [0..<?n]) = Inr r \<and> has_shape2 B T r
           \<and> (\<forall>b < B. \<forall>t < T. r ! b ! t = concat (map (\<lambda>x. x ! b ! t) (map ?P [0..<?n])))"
  proof (rule cat_last_ok)
    show "map ?P [0..<?n] \<noteq> []" using ne by simp
    show "has_shape2 B T x" if "x \<in> set (map ?P [0..<?n])" for x
      using that lb by (auto simp: has_shape2_def)
  qed
  then obtain r where r: "cat_last (map ?P [0..<?n]) = Inr r" "has_shape2 B T r"
    "\<forall>b < B. \<forall>t < T. r ! b ! t = concat (map (\<lambda>x. x ! b ! t) (map ?P [0..<?n]))" by blast
  have fr: "r ! b ! t = concat (map (\<lambda>k. map (\<lambda>c. ?H (y ! b) k c ! t) [0..<sizes ! k]) [0..<?n])"
    if b: "b < B" and t: "t < T" for b t
  proof -
    have "r ! b ! t = concat (map (\<lambda>k. ?P k ! b ! t) [0..<?n])"
      using r(3) b t by (simp add: o_def)
    also have "\<dots> = concat (map (\<lambda>k. map (\<lambda>c. ?H (y ! b) k c ! t) [0..<sizes ! k]) [0..<?n])"
      using b t lb by simp
    finally show ?thesis .
  qed
  have lr: "length r = B" and lrb: "\<And>b. b < B \<Longrightarrow> length (r ! b) = T"
    using r(2) by (auto simp: has_shape2_def)
  have sh: "has_shape3 B T (sum_list sizes) r"
    unfolding has_shape3_def has_shape2_def
  proof (intro conjI ballI)
    show "length r = B" by (rule lr)
    fix s assume "s \<in> set r"
    then obtain b where b: "b < B" "s = r ! b" using lr by (auto simp: in_set_conv_nth)
    show "length s = T" using b lrb by simp
    fix f assume "f \<in> set s"
    then obtain t where t: "t < T" "f = r ! b ! t"
      using b lrb by (auto simp: in_set_conv_nth)
    show "length f = sum_list sizes"
      unfolding t(2) fr[OF b(1) t(1)] by (simp add: concat_ranges_length)
  qed
  have col: "map (\<lambda>f. f ! (sum_list (take k sizes) + c)) (r ! b) = ?H (y ! b) k c"
    if b: "b < B" and k: "k < ?n" and c: "c < sizes ! k" for b k c
  proof (rule nth_equalityI)
    have ly: "length (y ! b) = T" using y b lb by (auto simp: has_shape3_def has_shape2_def)
    show "length (map (\<lambda>f. f ! (sum_list (take k sizes) + c)) (r ! b)) = length (?H (y ! b) k c)"
      using lrb[OF b] ly by (simp add: fir_scan_length)
    fix t assume "t < length (map (\<lambda>f. f ! (sum_list (take k sizes) + c)) (r ! b))"
    then have t: "t < T" using lrb[OF b] by simp
    have "r ! b ! t ! (sum_list (take k sizes) + c) = ?H (y ! b) k c ! t"
      unfolding fr[OF b t]
      by (rule concat_ranges_nth[where G = "\<lambda>k c. ?H (y ! b) k c ! t"]) (use k c in simp_all)
    then show "map (\<lambda>f. f ! (sum_list (take k sizes) + c)) (r ! b) ! t = ?H (y ! b) k c ! t"
      using t lrb[OF b] by simp
  qed
  have "preprocess_target sizes filts y = Inr r"
    unfolding preprocess_target_def sp sum.case
    using d mm r(1) by simp
  then show ?thesis using sh col by blast
qed

lemma get_filt_coefs_last:
  assumes "c < length (get_filt_coefs filt)" "get_filt_coefs filt ! c \<noteq> []"
  shows "last (get_filt_coefs filt ! c) = 1"
proof -
  let ?w = "weight filt ! c"
  have c: "c < length (weight filt)" using assms(1) by (simp add: get_filt_coefs_def)
  then have e: "get_filt_coefs filt ! c = ?w[length ?w - 1 := 1]"
    by (simp add: get_filt_coefs_def)
  then have "?w \<noteq> []" using assms(2) by auto
  then show ?thesis unfolding e by (simp add: last_conv_nth)
qed

lemma iir_fir_coefs:
  assumes "a \<noteq> []" "last a = (1::real)"
  shows "lfilter_scan (rev a) ((replicate (length a) 0)[0 := 1]) [] [] (fir_scan (rev a) [] u) = u"
proof -
  have r: "rev a = 1 # rev (butlast a)"
    using assms by (cases a rule: rev_cases) simp_all
  have i: "(replicate (length a) (0::real))[0 := 1] = 1 # replicate (length (rev (butlast a))) 0"
    using assms(1) by (simp add: unit_impulse)
  show ?thesis unfolding r i by (rule lfilter_fir_inverse)
qed

lemma concat_ranges_cong:
  assumes "\<And>k c. k < n \<Longrightarrow> c < sizes ! k \<Longrightarrow> G k c = G' k c"
  shows "concat (map (\<lambda>k. map (G k) [0..<sizes ! k]) [0..<n])
         = concat (map (\<lambda>k. map (G' k) [0..<sizes ! k]) [0..<n])"
proof -
  have "map (\<lambda>k. map (G k) [0..<sizes ! k]) [0..<n] = map (\<lambda>k. map (G' k) [0..<sizes ! k]) [0..<n]"
    using assms by (intro map_cong refl) simp
  then show ?thesis by (simp only:)
qed

text \<open>
  Claim C8. For every \<open>(B, T, D)\<close> trajectory whose width \<open>D\<close> is the sum of the stream
  sizes, with one analysis filter per stream holding one non-empty coefficient row for each
  dimension of its stream, the training-side analysis filter \<^verbatim>\<open>preprocess_target\<close> returns,
  and the inference-side synthesis filter \<^verbatim>\<open>_shallow_ar_inference\<close> applied to its result
  with the same coefficients returns the original trajectory: from zero initial conditions
  the FIR/IIR pair is an exact inverse round trip. Numbers are reals, so that the
  floating-point tolerance of the claim is exact equality here.
\<close>

theorem analysis_synthesis_round_trip:
  assumes "has_shape3 B T (sum_list sizes) y" "0 < B" "0 < T" "sizes \<noteq> []"
    and "length sizes \<le> length filts"
    and "\<forall>k < length sizes. 0 < sizes ! k
           \<and> length (get_filt_coefs (filts ! k)) = sizes ! k
           \<and> (\<forall>c < sizes ! k. get_filt_coefs (filts ! k) ! c \<noteq> [])"
  shows "\<exists>z. preprocess_target sizes filts y = Inr z
           \<and> shallow_ar_inference z sizes filts = Inr y"
proof -
  let ?n = "length sizes"
  let ?col = "\<lambda>k c seq. map (\<lambda>f. f ! (sum_list (take k sizes) + c)) seq"
  let ?F = "\<lambda>k c. lfilter_scan (rev (get_filt_coefs (filts ! k) ! c))
                     ((replicate (length (get_filt_coefs (filts ! k) ! c)) 0)[0 := 1]) [] []"
  let ?M = "\<lambda>seq. concat (map (\<lambda>k. map (\<lambda>c. ?F k c (?col k c seq)) [0..<sizes ! k]) [0..<?n])"
  note y = assms(1) and B = assms(2) and T = assms(3) and ne = assms(4) and nf = assms(5)
  have pos: "0 < sizes ! k" and w: "length (get_filt_coefs (filts ! k)) = sizes ! k"
    if "k < ?n" for k using assms(6) that by simp_all
  have taps: "get_filt_coefs (filts ! k) ! c \<noteq> []" if "k < ?n" "c < sizes ! k" for k c
    using assms(6) that by simp
  from preprocess_target_cols[OF y B T ne nf w pos]
  obtain z where z: "preprocess_target sizes filts y = Inr z"
    and sh: "has_shape3 B T (sum_list sizes) z"
    and cols: "\<And>b k c. b < B \<Longrightarrow> k < ?n \<Longrightarrow> c < sizes ! k \<Longrightarrow>
                 ?col k c (z ! b) = fir_scan (rev (get_filt_coefs (filts ! k) ! c)) [] (?col k c (y ! b))"
    by blast
  have sar: "shallow_ar_inference z sizes filts = Inr (map (\<lambda>seq. transpose (?M seq)) z)"
    by (rule shallow_ar_whole[OF sh T ne nf]) (use w taps in simp_all)
  have D: "0 < sum_list sizes"
  proof -
    have "sizes ! 0 \<in> set sizes" using ne by simp
    moreover have "0 < sizes ! 0" using pos[of 0] ne by simp
    ultimately show ?thesis by (metis gr0I sum_list_eq_0_iff less_numeral_extra(3))
  qed
  have lz: "length z = B" and ly: "length y = B"
    using sh y by (simp_all add: has_shape3_def)
  have "map (\<lambda>seq. transpose (?M seq)) z = y"
  proof (rule nth_equalityI)
    show "length (map (\<lambda>seq. transpose (?M seq)) z) = length y" using lz ly by simp
    fix b assume "b < length (map (\<lambda>seq. transpose (?M seq)) z)"
    then have b: "b < B" using lz by simp
    have "?M (z ! b) = concat (map (\<lambda>k. map (\<lambda>c. ?col k c (y ! b))
                                  [0..<sizes ! k]) [0..<?n])"
    proof (rule concat_ranges_cong)
      fix k c assume k: "k < ?n" and c: "c < sizes ! k"
      have l: "last (get_filt_coefs (filts ! k) ! c) = 1"
        by (rule get_filt_coefs_last) (use w[OF k] c taps[OF k c] in simp_all)
      show "?F k c (?col k c (z ! b)) = ?col k c (y ! b)"
        unfolding cols[OF b k c] by (simp add: iir_fir_coefs[OF taps[OF k c] l])
    qed
    also have "\<dots> = map (\<lambda>j. map (\<lambda>f. f ! j) (y ! b)) [0..<sum_list (take ?n sizes)]"
      by (rule concat_ranges_map[where g = "\<lambda>j. map (\<lambda>f. f ! j) (y ! b)"]) simp
    finally have m: "?M (z ! b) = map (\<lambda>j. map (\<lambda>f. f ! j) (y ! b)) [0..<sum_list sizes]" by simp
    have yb: "y ! b \<in> set y" using b ly by simp
    have "transpose (?M (z ! b)) = y ! b"
      unfolding m
    proof (rule transpose_transpose_rect)
      show "\<And>f. f \<in> set (y ! b) \<Longrightarrow> length f = sum_list sizes"
        by (rule has_shape3_seq(2)[OF y yb])
      show "y ! b \<noteq> []" using has_shape3_seq(1)[OF y yb] T by auto
      show "0 < sum_list sizes" by (rule D)
    qed
    then show "map (\<lambda>seq. transpose (?M seq)) z ! b = y ! b" using b lz by simp
  qed
  then show ?thesis using z sar by simp
qed


theorem analysis_synthesis_round_trip_witness:
  "preprocess_target [1, 1] [\<lparr>weight = [[1/2, 7]]\<rparr>, \<lparr>weight = [[3, 7]]\<rparr>] [[[1, 2], [1, 2]]]
     = Inr [[[1, 2], [3/2, 8]]]
   \<and> shallow_ar_inference [[[1, 2], [3/2, 8]]] [1, 1]
         [\<lparr>weight = [[1/2, 7]]\<rparr>, \<lparr>weight = [[3, 7]]\<rparr>] = Inr [[[1, 2], [1, 2]]]"
proof -
  let ?y = "[[[1, 2], [1, 2 :: real]]]"
  let ?filts = "[\<lparr>weight = [[1/2, 7 :: real]]\<rparr>, \<lparr>weight = [[3, 7]]\<rparr>]"
  have sh: "has_shape3 1 2 (sum_list [1, 1]) ?y"
    by (simp add: has_shape3_def has_shape2_def)
  have c: "\<forall>k < length [1, 1 :: nat]. 0 < [1, 1 :: nat] ! k
             \<and> length (get_filt_coefs (?filts ! k)) = [1, 1] ! k
             \<and> (\<forall>c < [1, 1] ! k. get_filt_coefs (?filts ! k) ! c \<noteq> [])"
    by (simp add: get_filt_coefs_def less_Suc_eq)
  from analysis_synthesis_round_trip[OF sh _ _ _ _ c]
  obtain z where z: "preprocess_target [1, 1] ?filts ?y = Inr z"
    and r: "shallow_ar_inference z [1, 1] ?filts = Inr ?y"
    by auto
  have "preprocess_target [1, 1] ?filts ?y = Inr [[[1, 2], [3/2, 8]]]"
    by (simp add: preprocess_target_def dim2_def dim1_def split_streams_def stream_slice_def
        preprocess_stream_def transpose12_def TrTimeInvFIRFilter_forward_def get_filt_coefs_def
        dot_def Let_def upt_rec transpose.simps cat2_last_def)
  then show ?thesis using z r by simp
qed

text \<open>
  Claim C6, as the code has it. The assertion of \<^verbatim>\<open>__init__\<close> is guarded by
  \<^verbatim>\<open>hasattr(model, "out_dim")\<close>. When one of the three sub-models has the attribute
  \<^verbatim>\<open>out_dim\<close> and its value differs from the sum of the sub-model's stream sizes,
  \<^verbatim>\<open>__init__\<close> raises the assertion error and builds no model. When every sub-model either
  has no such attribute or has one that agrees with its stream sizes, \<^verbatim>\<open>__init__\<close> returns
  the composer: a sub-model without the attribute is not checked.
\<close>

theorem init_rejects_declared_mismatch:
  "((\<exists>v. attrs em ''out_dim'' = Some v \<and> \<not> py_eq_int v (int (sum_list es)))
      \<or> (\<exists>v. attrs pm ''out_dim'' = Some v \<and> \<not> py_eq_int v (int (sum_list ps)))
      \<or> (\<exists>v. attrs tm ''out_dim'' = Some v \<and> \<not> py_eq_int v (int (sum_list ts)))
    \<longrightarrow> (\<exists>msg. MultistreamParametricModel_init em es pm ps tm ts ii lo hi oi mean scale
           = Inl (AssertionError msg)))
   \<and> ((\<forall>v. attrs em ''out_dim'' = Some v \<longrightarrow> py_eq_int v (int (sum_list es)))
      \<and> (\<forall>v. attrs pm ''out_dim'' = Some v \<longrightarrow> py_eq_int v (int (sum_list ps)))
      \<and> (\<forall>v. attrs tm ''out_dim'' = Some v \<longrightarrow> py_eq_int v (int (sum_list ts)))
    \<longrightarrow> MultistreamParametricModel_init em es pm ps tm ts ii lo hi oi mean scale
          = Inr \<lparr>in_lf0_idx = ii, in_lf0_min = lo, in_lf0_max = hi, out_lf0_idx = oi,
                 out_lf0_mean = mean, out_lf0_scale = scale,
                 energy_model = em, energy_stream_sizes = es,
                 pitch_model = pm, pitch_stream_sizes = ps,
                 timbre_model = tm, timbre_stream_sizes = ts\<rparr>)"
proof (intro conjI impI)
  assume "(\<exists>v. attrs em ''out_dim'' = Some v \<and> \<not> py_eq_int v (int (sum_list es)))
      \<or> (\<exists>v. attrs pm ''out_dim'' = Some v \<and> \<not> py_eq_int v (int (sum_list ps)))
      \<or> (\<exists>v. attrs tm ''out_dim'' = Some v \<and> \<not> py_eq_int v (int (sum_list ts)))"
  then show "\<exists>msg. MultistreamParametricModel_init em es pm ps tm ts ii lo hi oi mean scale
           = Inl (AssertionError msg)"
    by (auto simp: MultistreamParametricModel_init_def assert_out_dim_def
             split: option.splits sum.splits)
next
  assume "(\<forall>v. attrs em ''out_dim'' = Some v \<longrightarrow> py_eq_int v (int (sum_list es)))
      \<and> (\<forall>v. attrs pm ''out_dim'' = Some v \<longrightarrow> py_eq_int v (int (sum_list ps)))
      \<and> (\<forall>v. attrs tm ''out_dim'' = Some v \<longrightarrow> py_eq_int v (int (sum_list ts)))"
  then have "assert_out_dim em es a = Inr ()" "assert_out_dim pm ps b = Inr ()"
    "assert_out_dim tm ts c = Inr ()" for a b c
    by (simp_all add: assert_out_dim_def split: option.splits)
  then show "MultistreamParametricModel_init em es pm ps tm ts ii lo hi oi mean scale
          = Inr \<lparr>in_lf0_idx = ii, in_lf0_min = lo, in_lf0_max = hi, out_lf0_idx = oi,
                 out_lf0_mean = mean, out_lf0_scale = scale,
                 energy_model = em, energy_stream_sizes = es,
                 pitch_model = pm, pitch_stream_sizes = ps,
                 timbre_model = tm, timbre_stream_sizes = ts\<rparr>"
    by (simp add: MultistreamParametricModel_init_def)
qed

theorem init_rejects_declared_mismatch_witness:
  "(\<exists>msg. MultistreamParametricModel_init
      \<lparr>attrs = Map.empty, call = (\<lambda>a x l. Inr x)\<rparr> [1]
      \<lparr>attrs = [''out_dim'' \<mapsto> PyInt 199], call = (\<lambda>a x l. Inr (x, x))\<rparr> [1, 1, 198]
      \<lparr>attrs = Map.empty, call = (\<lambda>a x l. Inr x)\<rparr> [179, 15]
      300 5 6 180 2 4 = Inl (AssertionError msg))
   \<and> MultistreamParametricModel_init
      \<lparr>attrs = Map.empty, call = (\<lambda>a x l. Inr x)\<rparr> [1]
      \<lparr>attrs = [''out_dim'' \<mapsto> PyInt 200], call = (\<lambda>a x l. Inr (x, x))\<rparr> [1, 1, 198]
      \<lparr>attrs = Map.empty, call = (\<lambda>a x l. Inr x)\<rparr> [179, 15]
      300 5 6 180 2 4
     = Inr \<lparr>in_lf0_idx = 300, in_lf0_min = 5, in_lf0_max = 6, out_lf0_idx = 180,
            out_lf0_mean = 2, out_lf0_scale = 4,
            energy_model = \<lparr>attrs = Map.empty, call = (\<lambda>a x l. Inr x)\<rparr>,
            energy_stream_sizes = [1],
            pitch_model = \<lparr>attrs = [''out_dim'' \<mapsto> PyInt 200], call = (\<lambda>a x l. Inr (x, x))\<rparr>,
            pitch_stream_sizes = [1, 1, 198],
            timbre_model = \<lparr>attrs = Map.empty, call = (\<lambda>a x l. Inr x)\<rparr>,
            timbre_stream_sizes = [179, 15]\<rparr>"
proof
  show "\<exists>msg. MultistreamParametricModel_init
      \<lparr>attrs = Map.empty, call = (\<lambda>a x l. Inr x)\<rparr> [1]
      \<lparr>attrs = [''out_dim'' \<mapsto> PyInt 199], call = (\<lambda>a x l. Inr (x, x))\<rparr> [1, 1, 198]
      \<lparr>attrs = Map.empty, call = (\<lambda>a x l. Inr x)\<rparr> [179, 15]
      300 5 6 180 2 4 = Inl (AssertionError msg)"
    by (rule init_rejects_declared_mismatch[THEN conjunct1, rule_format])
       (simp add: py_eq_int_def)
  show "MultistreamParametricModel_init
      \<lparr>attrs = Map.empty, call = (\<lambda>a x l. Inr x)\<rparr> [1]
      \<lparr>attrs = [''out_dim'' \<mapsto> PyInt 200], call = (\<lambda>a x l. Inr (x, x))\<rparr> [1, 1, 198]
      \<lparr>attrs = Map.empty, call = (\<lambda>a x l. Inr x)\<rparr> [179, 15]
      300 5 6 180 2 4
     = Inr \<lparr>in_lf0_idx = 300, in_lf0_min = 5, in_lf0_max = 6, out_lf0_idx = 180,
            out_lf0_mean = 2, out_lf0_scale = 4,
            energy_model = \<lparr>attrs = Map.empty, call = (\<lambda>a x l. Inr x)\<rparr>,
            energy_stream_sizes = [1],
            pitch_model = \<lparr>attrs = [''out_dim'' \<mapsto> PyInt 200], call = (\<lambda>a x l. Inr (x, x))\<rparr>,
            pitch_stream_sizes = [1, 1, 198],
            timbre_model = \<lparr>attrs = Map.empty, call = (\<lambda>a x l. Inr x)\<rparr>,
            timbre_stream_sizes = [179, 15]\<rparr>"
    by (rule init_rejects_declared_mismatch[THEN conjunct2, rule_format])
       (simp add: py_eq_int_def)
qed

text \<open>
  The claim as written has no guard. The predictor classes of the module pass
  \<^verbatim>\<open>out_dim\<close> to their last layer and do not store it: a \<^verbatim>\<open>ResF0VariancePredictor\<close>
  whose last layer has width 199 carries the six log-F0 attributes and no \<^verbatim>\<open>out_dim\<close>, returns
  frames of width 199, and is accepted as the pitch model of a composer whose pitch stream
  sizes sum to 200.
\<close>

theorem init_accepts_undeclared_mismatch_counterexample:
  "attrs (ResF0VariancePredictor_module
      \<lparr>in_lf0_idx = 0, in_lf0_min = 5, in_lf0_max = 6, out_lf0_idx = 180, out_lf0_mean = 2,
       out_lf0_scale = 4, ResF0VariancePredictor.conv = Inr,
       ResF0VariancePredictor.fc = (\<lambda>h. Inr (map (map (\<lambda>f. replicate 199 0)) h))\<rparr>) ''out_dim''
     = None
   \<and> (case ResF0VariancePredictor_forward
      \<lparr>in_lf0_idx = 0, in_lf0_min = 5, in_lf0_max = 6, out_lf0_idx = 180, out_lf0_mean = 2,
       out_lf0_scale = 4, ResF0VariancePredictor.conv = Inr,
       ResF0VariancePredictor.fc = (\<lambda>h. Inr (map (map (\<lambda>f. replicate 199 0)) h))\<rparr>
        [[[1/2]]] None of Inl e \<Rightarrow> False | Inr r \<Rightarrow> has_shape3 1 1 199 (fst r))
   \<and> sum_list [1, 1, 198] = (200 :: nat)
   \<and> MultistreamParametricModel_init
      \<lparr>attrs = Map.empty, call = (\<lambda>a x l. Inr x)\<rparr> [1]
      (ResF0VariancePredictor_module
        \<lparr>in_lf0_idx = 0, in_lf0_min = 5, in_lf0_max = 6, out_lf0_idx = 180, out_lf0_mean = 2,
         out_lf0_scale = 4, ResF0VariancePredictor.conv = Inr,
         ResF0VariancePredictor.fc = (\<lambda>h. Inr (map (map (\<lambda>f. replicate 199 0)) h))\<rparr>)
      [1, 1, 198]
      \<lparr>attrs = Map.empty, call = (\<lambda>a x l. Inr x)\<rparr> [179, 15]
      0 5 6 180 2 4
     = Inr \<lparr>in_lf0_idx = 0, in_lf0_min = 5, in_lf0_max = 6, out_lf0_idx = 180,
            out_lf0_mean = 2, out_lf0_scale = 4,
            energy_model = \<lparr>attrs = Map.empty, call = (\<lambda>a x l. Inr x)\<rparr>,
            energy_stream_sizes = [1],
            pitch_model = ResF0VariancePredictor_module
              \<lparr>in_lf0_idx = 0, in_lf0_min = 5, in_lf0_max = 6, out_lf0_idx = 180,
               out_lf0_mean = 2, out_lf0_scale = 4, ResF0VariancePredictor.conv = Inr,
               ResF0VariancePredictor.fc = (\<lambda>h. Inr (map (map (\<lambda>f. replicate 199 0)) h))\<rparr>,
            pitch_stream_sizes = [1, 1, 198],
            timbre_model = \<lparr>attrs = Map.empty, call = (\<lambda>a x l. Inr x)\<rparr>,
            timbre_stream_sizes = [179, 15]\<rparr>"
proof -
  let ?p = "\<lparr>in_lf0_idx = 0, in_lf0_min = 5, in_lf0_max = 6, out_lf0_idx = 180, out_lf0_mean = 2,
       out_lf0_scale = 4, ResF0VariancePredictor.conv = Inr,
       ResF0VariancePredictor.fc = (\<lambda>h. Inr (map (map (\<lambda>f. replicate 199 (0::real))) h))\<rparr>"
  have a: "attrs (ResF0VariancePredictor_module ?p) ''out_dim'' = None"
    by (simp add: ResF0VariancePredictor_module_def lf0_attrs_def)
  have "\<exists>po resid. ResF0VariancePredictor_forward ?p [[[1/2]]] None = Inr (po, resid)
           \<and> has_shape3 1 1 199 po
           \<and> (\<forall>b < 1. \<forall>t < 1. po ! b ! t ! 180 =
                 (([[[1/2]]] ! b ! t ! 0 * (in_lf0_max ?p - in_lf0_min ?p) + in_lf0_min ?p)
                   + 600 * ln 2 / 1200 * tanh ([[replicate 199 0]] ! b ! t ! 180) - out_lf0_mean ?p)
                 / out_lf0_scale ?p)"
    by (rule variance_forward_column[where Cin = 1 and h = "[[[1/2]]]"])
       (simp_all add: has_shape3_def has_shape2_def transpose12_def py_index_def)
  then have f: "case ResF0VariancePredictor_forward ?p [[[1/2]]] None of
                  Inl e \<Rightarrow> False | Inr r \<Rightarrow> has_shape3 1 1 199 (fst r)"
    by auto
  show ?thesis
    using a f by (simp add: MultistreamParametricModel_init_def assert_out_dim_def)
qed

end
